(* ===== verification/Prelude.thy ===== *)
theory Prelude
  imports Main "HOL-Library.List_Lexorder" "HOL-Library.Char_ord" "HOL-Library.Sublist"
begin

text \<open>
  Shared vocabulary of the development: the Python errors the transforms raise, a
  result type for fallible code, and the string built-ins of Python 2 that the
  sources call (\<open>str.startswith\<close>, \<open>str.replace\<close>, \<open>str.split\<close>,
  \<open>str.rstrip\<close>) together with the \<open>posixpath\<close> helpers (\<open>join\<close>,
  \<open>basename\<close>, \<open>splitext\<close>). Strings are \<open>char list\<close>; the order on strings
  is the lexicographic order of \<open>List_Lexorder\<close> over \<open>Char_ord\<close>, which is the
  order of Python's \<open>sorted\<close> on byte strings. The lemmas here are the facts about
  these built-ins that the component proofs share.
\<close>

named_theorems py_simps "evaluation rules of the modelled Python built-ins"

type_synonym path = string

text \<open>The exceptions raised by the modelled code, each carrying its message.\<close>

datatype py_error =
    Exception string
  | ManifestIssues "string list"
  | KeyError string
  | NameError string
  | AttributeError string
  | IOError string
  | ValueError string
  | IndexError string
  | Unmodelled string

type_synonym 'a result = "py_error + 'a"

subsection \<open>String built-ins\<close>

fun startswith :: "string \<Rightarrow> string \<Rightarrow> bool" where
  "startswith [] s = True"
| "startswith (p # ps) [] = False"
| "startswith (p # ps) (c # cs) = (p = c \<and> startswith ps cs)"

text \<open>\<open>s.replace(old, new)\<close>: every non-overlapping occurrence, left to right.\<close>

fun py_replace :: "string \<Rightarrow> string \<Rightarrow> string \<Rightarrow> string" where
  "py_replace [] new [] = new"
| "py_replace [] new (c # cs) = new @ c # py_replace [] new cs"
| "py_replace (o1 # os) new [] = []"
| "py_replace (o1 # os) new (c # cs) =
     (if startswith (o1 # os) (c # cs)
      then new @ py_replace (o1 # os) new (drop (length os) cs)
      else c # py_replace (o1 # os) new cs)"

text \<open>\<open>s.split(c)\<close> with a one-character separator: empty fields are kept.\<close>

fun py_split :: "char \<Rightarrow> string \<Rightarrow> string list" where
  "py_split c [] = [[]]"
| "py_split c (x # xs) =
     (if x = c then [] # py_split c xs
      else (case py_split c xs of [] \<Rightarrow> [[x]] | w # ws \<Rightarrow> (x # w) # ws))"

text \<open>\<open>sep.join(ws)\<close>.\<close>

fun py_str_join :: "string \<Rightarrow> string list \<Rightarrow> string" where
  "py_str_join sep [] = []"
| "py_str_join sep [w] = w"
| "py_str_join sep (w # v # ws) = w @ sep @ py_str_join sep (v # ws)"

text \<open>\<open>s.rstrip(chars)\<close>: drop trailing characters from the set \<open>chars\<close>.\<close>

definition py_rstrip :: "char list \<Rightarrow> string \<Rightarrow> string" where
  "py_rstrip chars s = rev (dropWhile (\<lambda>c. c \<in> set chars) (rev s))"

text \<open>The characters \<open>str.rstrip()\<close> strips by default.\<close>

definition py_whitespace :: "char list" where
  "py_whitespace = [CHR '' '', CHR 0x09, CHR 0x0A, CHR 0x0B, CHR 0x0C, CHR 0x0D]"

definition newline :: char where
  "newline = CHR ''\<newline>''"

subsection \<open>posixpath\<close>

definition slash :: char where
  "slash = CHR ''/''"

text \<open>\<open>os.path.join(a, b)\<close>: an absolute \<open>b\<close> replaces \<open>a\<close>.\<close>

definition py_join :: "path \<Rightarrow> path \<Rightarrow> path" where
  "py_join a b =
     (if startswith [slash] b then b
      else if a = [] \<or> last a = slash then a @ b
      else a @ slash # b)"

definition basename :: "path \<Rightarrow> string" where
  "basename p = last (py_split slash p)"

text \<open>The non-empty components of a path, as \<open>relpath\<close> computes them.\<close>

definition components :: "path \<Rightarrow> string list" where
  "components p = filter (\<lambda>w. w \<noteq> []) (py_split slash p)"

text \<open>
  The extension \<open>os.path.splitext\<close> returns for a file name (no separator in it):
  from the last dot on, unless only dots precede that dot (\<open>.bashrc\<close> has none).
\<close>

fun last_dot :: "string \<Rightarrow> nat option" where
  "last_dot [] = None"
| "last_dot (c # cs) =
     (case last_dot cs of Some i \<Rightarrow> Some (Suc i)
      | None \<Rightarrow> (if c = CHR ''.'' then Some 0 else None))"

definition splitext_ext :: "string \<Rightarrow> string" where
  "splitext_ext f =
     (case last_dot f of
        None \<Rightarrow> []
      | Some d \<Rightarrow> if list_ex (\<lambda>c. c \<noteq> CHR ''.'') (take d f) then drop d f else [])"

text \<open>
  \<open>s.format(target=t)\<close>: \<open>{{\<close> and \<open>}}\<close> are literal braces, \<open>{target}\<close> is
  replaced by \<open>t\<close>; an empty or numeric field has no positional argument
  (\<open>IndexError\<close>), another name has no keyword argument (\<open>KeyError\<close>), and an
  unmatched brace is a \<open>ValueError\<close>. A field with a conversion or a format spec
  (\<open>{target!r}\<close>, \<open>{target:>8}\<close>) is outside the model: \<open>Unmodelled\<close>.
\<close>

definition format_field :: "string \<Rightarrow> string \<Rightarrow> string result" where
  "format_field t f =
     (if f = ''target'' then Inr t
      else if list_ex (\<lambda>c. c \<in> set ''!:.['') f then Inl (Unmodelled f)
      else if list_all (\<lambda>c. CHR ''0'' \<le> c \<and> c \<le> CHR ''9'') f then Inl (IndexError f)
      else Inl (KeyError f))"

function py_format_target :: "string \<Rightarrow> string \<Rightarrow> string result" where
  "py_format_target t [] = Inr []"
| "py_format_target t (c # s) =
     (if c = CHR ''{'' then
        (case s of
           d # s' \<Rightarrow>
             if d = CHR ''{'' then map_sum id (Cons c) (py_format_target t s')
             else (if CHR ''}'' \<in> set s
                   then (case format_field t (takeWhile (\<lambda>x. x \<noteq> CHR ''}'') s) of
                           Inl e \<Rightarrow> Inl e
                         | Inr v \<Rightarrow> map_sum id (\<lambda>r. v @ r)
                                      (py_format_target t (drop 1 (dropWhile (\<lambda>x. x \<noteq> CHR ''}'') s))))
                   else Inl (ValueError ''expected } before end of string''))
         | [] \<Rightarrow> Inl (ValueError ''Single { encountered in format string''))
      else if c = CHR ''}'' then
        (case s of
           d # s' \<Rightarrow> if d = CHR ''}'' then map_sum id (Cons c) (py_format_target t s')
                     else Inl (ValueError ''Single } encountered in format string'')
         | [] \<Rightarrow> Inl (ValueError ''Single } encountered in format string''))
      else map_sum id (Cons c) (py_format_target t s))"
  by pat_completeness auto
termination
  by (relation "measure (\<lambda>(t, s). length s)")
     (auto simp: less_Suc_eq_le intro: le_trans [OF diff_le_self] le_SucI length_dropWhile_le)

text \<open>Draining a generator whose items may raise: the first exception aborts.\<close>

fun sequence_results :: "'a result list \<Rightarrow> 'a list result" where
  "sequence_results [] = Inr []"
| "sequence_results (r # rs) =
     (case r of Inl e \<Rightarrow> Inl e
      | Inr x \<Rightarrow> (case sequence_results rs of Inl e \<Rightarrow> Inl e | Inr xs \<Rightarrow> Inr (x # xs)))"

subsection \<open>Dictionaries\<close>

text \<open>
  A Python dict with string keys, in insertion order: \<open>d.get(k)\<close> is \<open>map_of\<close>,
  \<open>d[k] = v\<close> replaces the value in place or appends the key, and
  \<open>d.setdefault(k, v)\<close> stores \<open>v\<close> only when the key is absent.
\<close>

type_synonym 'v dict = "(string \<times> 'v) list"

fun dict_set :: "'v dict \<Rightarrow> string \<Rightarrow> 'v \<Rightarrow> 'v dict" where
  "dict_set [] k v = [(k, v)]"
| "dict_set ((k', v') # d) k v = (if k' = k then (k, v) # d else (k', v') # dict_set d k v)"

definition dict_setdefault :: "'v dict \<Rightarrow> string \<Rightarrow> 'v \<Rightarrow> 'v dict" where
  "dict_setdefault d k v = (case map_of d k of None \<Rightarrow> dict_set d k v | Some w \<Rightarrow> d)"

subsection \<open>Facts shared by the components\<close>

lemma startswith_append [simp]: "startswith p (p @ s)"
  by (induction p) auto

lemma startswith_iff_take: "startswith p s \<longleftrightarrow> take (length p) s = p"
  by (induction p s rule: startswith.induct) auto

lemma py_replace_single [py_simps]:
  "py_replace [c] [d] s = map (\<lambda>x. if x = c then d else x) s"
  by (induction s) auto

lemma startswith_occurs: "startswith p s \<Longrightarrow> \<exists>v. s = p @ v"
  by (induction p s rule: startswith.induct) auto

lemma py_replace_no_occurrence:
  "\<not> (\<exists>u v. s = u @ p @ v) \<Longrightarrow> p \<noteq> [] \<Longrightarrow> py_replace p new s = s"
proof (induction p new s rule: py_replace.induct)
  case (4 o1 os new c cs)
  have ns: "\<not> startswith (o1 # os) (c # cs)"
    using "4.prems"(1) startswith_occurs [of "o1 # os" "c # cs"] by (metis append_Nil)
  have "\<not> (\<exists>u v. cs = u @ (o1 # os) @ v)"
    using "4.prems"(1) by (metis append_Cons)
  then have "py_replace (o1 # os) new cs = cs"
    using "4.IH"(2) [OF ns] by simp
  then show ?case
    by (simp only: py_replace.simps if_not_P [OF ns])
qed simp_all

lemma py_replace_Nil_length:
  "new = [] \<Longrightarrow> p \<noteq> [] \<Longrightarrow> length (py_replace p new s) \<le> length s \<and>
     ((\<exists>u v. s = u @ p @ v) \<longrightarrow> length (py_replace p new s) < length s)"
proof (induction p new s rule: py_replace.induct)
  case (4 o1 os new c cs)
  show ?case
  proof (cases "startswith (o1 # os) (c # cs)")
    case True
    have "length (py_replace (o1 # os) [] (drop (length os) cs)) \<le> length (drop (length os) cs)"
      using "4.IH"(1) [OF True "4.prems"(1)] "4.prems"(1) by simp
    then have "length (py_replace (o1 # os) [] (drop (length os) cs)) \<le> length cs"
      by simp
    with True "4.prems"(1) show ?thesis
      by simp
  next
    case False
    have "\<exists>u v. cs = u @ (o1 # os) @ v" if "\<exists>u v. c # cs = u @ (o1 # os) @ v"
    proof -
      from that obtain u v where uv: "c # cs = u @ (o1 # os) @ v"
        by blast
      with False have "u \<noteq> []"
        by (metis append_Nil startswith_append)
      with uv show ?thesis
        by (metis Cons_eq_append_conv list.inject)
    qed
    with False "4.IH"(2) "4.prems"(1) show ?thesis
      by auto
  qed
qed simp_all

lemma py_replace_Nil_id_iff:
  "p \<noteq> [] \<Longrightarrow> py_replace p [] s = s \<longleftrightarrow> \<not> (\<exists>u v. s = u @ p @ v)"
  using py_replace_no_occurrence [of s p "[]"] py_replace_Nil_length [of "[]" p s] by fastforce

lemma py_replace_Nil_prefix:
  "p \<noteq> [] \<Longrightarrow> py_replace p [] (p @ s) = py_replace p [] s"
  by (cases p) simp_all
lemma append_sep_eq:
  "a \<notin> set xs \<Longrightarrow> a \<notin> set ys \<Longrightarrow> xs @ a # u = ys @ a # v \<Longrightarrow> xs = ys \<and> u = v"
proof (induction xs arbitrary: ys)
  case Nil
  then show ?case by (cases ys) auto
next
  case (Cons x xs)
  then show ?case by (cases ys) auto
qed

lemma py_split_not_Nil [simp]: "py_split c s \<noteq> []"
  by (induction s) (auto split: list.split)

lemma py_str_join_cons_char [simp]:
  "py_str_join sep ((x # w) # ws) = x # py_str_join sep (w # ws)"
  by (cases ws) auto

lemma py_str_join_py_split [simp]: "py_str_join [c] (py_split c s) = s"
proof (induction s)
  case Nil
  then show ?case by simp
next
  case (Cons x xs)
  then show ?case
    by (cases "py_split c xs") (auto split: list.split)
qed

lemma py_split_no_sep: "c \<notin> set s \<Longrightarrow> py_split c s = [s]"
  by (induction s) auto

lemma py_split_fields: "w \<in> set (py_split c s) \<Longrightarrow> c \<notin> set w"
proof (induction s arbitrary: w)
  case Nil
  then show ?case by simp
next
  case (Cons x xs)
  then show ?case
    by (cases "py_split c xs") (auto split: if_splits)
qed

lemma distinct_iff_filter_le1:
  "distinct xs \<longleftrightarrow> (\<forall>k \<in> set xs. length (filter (\<lambda>x. x = k) xs) \<le> 1)"
proof (induction xs)
  case Nil
  then show ?case by simp
next
  case (Cons x xs)
  have "x \<in> set xs \<longleftrightarrow> 0 < length (filter (\<lambda>y. y = x) xs)"
    by (auto simp: filter_empty_conv)
  with Cons show ?case
    by (auto simp: filter_empty_conv)
qed

lemma two_indices_filter:
  assumes "i < j" "j < length xs" "P (xs ! i)" "P (xs ! j)"
  shows "1 < length (filter P xs)"
proof -
  have "{i, j} \<subseteq> {k. k < length xs \<and> P (xs ! k)}"
    using assms by auto
  then have "card {i, j} \<le> card {k. k < length xs \<and> P (xs ! k)}"
    by (rule card_mono [rotated]) simp
  with assms(1) show ?thesis
    by (simp add: length_filter_conv_card)
qed

lemma distinct_map_iff_filter_le1:
  "distinct (map f xs) \<longleftrightarrow> (\<forall>k \<in> f ` set xs. length (filter (\<lambda>x. f x = k) xs) \<le> 1)"
  by (simp add: distinct_iff_filter_le1 [of "map f xs"] filter_map comp_def)

lemma map_of_dict_set [simp]: "map_of (dict_set d k v) = (map_of d)(k \<mapsto> v)"
  by (induction d k v rule: dict_set.induct) (auto simp: fun_upd_twist)

lemma map_of_dict_setdefault [simp]:
  "map_of (dict_setdefault d k v) = (case map_of d k of None \<Rightarrow> (map_of d)(k \<mapsto> v) | Some w \<Rightarrow> map_of d)"
  by (simp add: dict_setdefault_def split: option.split)

lemma dict_setdefault_present [simp]: "map_of (dict_setdefault d k v) k \<noteq> None"
  by (simp split: option.split)

lemma py_split_append_sep:
  "py_split c (a @ c # b) = py_split c a @ py_split c b"
proof (induction a)
  case Nil
  then show ?case by simp
next
  case (Cons x a)
  then show ?case
    by (cases "py_split c a") (auto split: list.split)
qed

lemma components_append_slash:
  "components (a @ slash # b) = components a @ components b"
  by (simp add: components_def py_split_append_sep)

lemma components_name:
  "n \<noteq> [] \<Longrightarrow> slash \<notin> set n \<Longrightarrow> components n = [n]"
  by (simp add: components_def py_split_no_sep)

lemma components_Nil [simp]: "components [] = []"
  by (simp add: components_def)

lemma components_py_join:
  assumes "n \<noteq> []" and "slash \<notin> set n"
  shows "components (py_join d n) = components d @ [n]"
proof -
  have nabs: "\<not> startswith [slash] n"
    using assms by (cases n) auto
  show ?thesis
  proof (cases "d = []")
    case True
    with nabs assms show ?thesis by (simp add: py_join_def components_name)
  next
    case False
    show ?thesis
    proof (cases "last d = slash")
      case True
      with False have d: "d = butlast d @ [slash]"
        by (metis append_butlast_last_id)
      have "components d = components (butlast d)"
        by (subst d) (simp add: components_append_slash)
      moreover have "components (py_join d n) = components (butlast d) @ [n]"
        using nabs True False assms
        by (subst d) (simp add: py_join_def components_append_slash components_name)
      ultimately show ?thesis by simp
    next
      case lst: False
      with nabs False assms show ?thesis
        by (simp add: py_join_def components_append_slash components_name)
    qed
  qed
qed

lemma basename_py_join:
  assumes "n \<noteq> []" and "slash \<notin> set n"
  shows "basename (py_join d n) = n"
proof -
  have nabs: "\<not> startswith [slash] n"
    using assms by (cases n) auto
  consider "d = []" | "d \<noteq> []" "last d = slash" | "d \<noteq> []" "last d \<noteq> slash"
    by blast
  then show ?thesis
  proof cases
    case 1
    then show ?thesis
      using nabs assms by (simp add: py_join_def basename_def py_split_no_sep)
  next
    case 2
    then obtain d' where "d = d' @ [slash]"
      by (metis append_butlast_last_id)
    then show ?thesis
      using nabs assms by (simp add: py_join_def basename_def py_split_append_sep py_split_no_sep)
  next
    case 3
    then show ?thesis
      using nabs assms by (simp add: py_join_def basename_def py_split_append_sep py_split_no_sep)
  qed
qed

lemma py_join_absolute: "startswith [slash] d \<Longrightarrow> py_join b d = d"
  by (simp add: py_join_def)

lemma startswith_slash_py_join:
  "startswith [slash] d \<Longrightarrow> slash \<notin> set n \<Longrightarrow> startswith [slash] (py_join d n)"
  by (cases d; cases n) (auto simp: py_join_def)

lemma py_split_field_sep:
  "c \<notin> set w \<Longrightarrow> py_split c (w @ c # rest) = w # py_split c rest"
  by (induction w) auto

lemma py_split_terminated:
  "\<forall>w \<in> set ws. c \<notin> set w \<Longrightarrow> py_split c (concat (map (\<lambda>w. w @ [c]) ws)) = ws @ [[]]"
  by (induction ws) (simp_all add: py_split_field_sep)

lemma takeWhile_field:
  "c \<notin> set x \<Longrightarrow> takeWhile (\<lambda>d. d \<noteq> c) (x @ c # p) = x"
  by (induction x) auto

lemma dropWhile_field:
  "c \<notin> set x \<Longrightarrow> dropWhile (\<lambda>d. d \<noteq> c) (x @ c # p) = c # p"
  by (induction x) auto

end
