(* ===== verification/Fs.thy ===== *)
theory Fs
  imports Prelude
begin

text \<open>
  The file system the walks read: a directory is the list of its entries in
  \<open>os.listdir\<close> order, a file carries its content. Symbolic links are not
  modelled, so \<open>os.path.realpath\<close> is the identity on the paths that arise.
  \<open>read_file\<close> and \<open>path_exists\<close> are \<open>open(p).read()\<close> and
  \<open>os.path.exists(p)\<close> for an absolute path \<open>p\<close>.
\<close>

datatype entry = File string string | Dir string "entry list"

fun entry_name :: "entry \<Rightarrow> string" where
  "entry_name (File n c) = n"
| "entry_name (Dir n cs) = n"

fun dir_names :: "entry list \<Rightarrow> string list" where
  "dir_names [] = []"
| "dir_names (File n c # es) = dir_names es"
| "dir_names (Dir n cs # es) = n # dir_names es"

fun file_names :: "entry list \<Rightarrow> string list" where
  "file_names [] = []"
| "file_names (File n c # es) = n # file_names es"
| "file_names (Dir n cs # es) = file_names es"

fun find_dir :: "entry list \<Rightarrow> string \<Rightarrow> entry list option" where
  "find_dir [] n = None"
| "find_dir (File m c # es) n = find_dir es n"
| "find_dir (Dir m cs # es) n = (if m = n then Some cs else find_dir es n)"

fun find_file :: "entry list \<Rightarrow> string \<Rightarrow> string option" where
  "find_file [] n = None"
| "find_file (File m c # es) n = (if m = n then Some c else find_file es n)"
| "find_file (Dir m cs # es) n = find_file es n"

fun lookup_dir :: "entry list \<Rightarrow> string list \<Rightarrow> entry list option" where
  "lookup_dir es [] = Some es"
| "lookup_dir es (n # ns) = (case find_dir es n of None \<Rightarrow> None | Some cs \<Rightarrow> lookup_dir cs ns)"

text \<open>\<open>open(p).read()\<close> and \<open>os.path.exists(p)\<close> on the tree below \<open>/\<close>.\<close>

definition read_file :: "entry list \<Rightarrow> path \<Rightarrow> string option" where
  "read_file root p =
     (case components p of
        [] \<Rightarrow> None
      | cs \<Rightarrow> (case lookup_dir root (butlast cs) of
                 None \<Rightarrow> None
               | Some es \<Rightarrow> find_file es (last cs)))"

definition path_exists :: "entry list \<Rightarrow> path \<Rightarrow> bool" where
  "path_exists root p \<longleftrightarrow> lookup_dir root (components p) \<noteq> None \<or> read_file root p \<noteq> None"

text \<open>
  The process environment the transforms run in: \<open>BASE_DIR = os.getcwd()\<close> and
  the file tree below \<open>/\<close>.
\<close>

record host =
  base_dir :: path
  fs_root :: "entry list"

text \<open>A well-formed listing: names are distinct, non-empty, free of \<open>/\<close>.\<close>

fun wf_entries :: "entry list \<Rightarrow> bool" where
  "wf_entries [] = True"
| "wf_entries (File n c # es) =
     (n \<noteq> [] \<and> slash \<notin> set n \<and> n \<notin> set (map entry_name es) \<and> wf_entries es)"
| "wf_entries (Dir n cs # es) =
     (n \<noteq> [] \<and> slash \<notin> set n \<and> n \<notin> set (map entry_name es) \<and> wf_entries cs \<and> wf_entries es)"

lemma find_dir_size: "find_dir es n = Some cs \<Longrightarrow> size_list size cs < size_list size es"
  by (induction es n rule: find_dir.induct) (auto split: if_splits)

lemma dir_names_subset: "set (dir_names es) \<subseteq> set (map entry_name es)"
  by (induction es rule: dir_names.induct) auto

lemma distinct_dir_names: "wf_entries es \<Longrightarrow> distinct (dir_names es)"
  by (induction es rule: dir_names.induct) (use dir_names_subset in fastforce)+

lemma find_dir_wf:
  "wf_entries es \<Longrightarrow> find_dir es n = Some cs \<longleftrightarrow> Dir n cs \<in> set es"
proof (induction es rule: wf_entries.induct)
  case 1
  then show ?case by simp
next
  case (2 m c es)
  then show ?case by auto
next
  case (3 m cs' es)
  then show ?case by (auto simp: image_iff)
qed

lemma wf_entries_Dir:
  "wf_entries es \<Longrightarrow> Dir n cs \<in> set es \<Longrightarrow> n \<noteq> [] \<and> slash \<notin> set n \<and> wf_entries cs"
  by (induction es rule: wf_entries.induct) auto

lemma wf_entries_File:
  "wf_entries es \<Longrightarrow> File n c \<in> set es \<Longrightarrow> n \<noteq> [] \<and> slash \<notin> set n"
  by (induction es rule: wf_entries.induct) auto

lemma set_file_names: "f \<in> set (file_names es) \<longleftrightarrow> (\<exists>c. File f c \<in> set es)"
  by (induction es rule: file_names.induct) auto

lemma set_dir_names: "n \<in> set (dir_names es) \<longleftrightarrow> (\<exists>cs. Dir n cs \<in> set es)"
  by (induction es rule: dir_names.induct) auto

lemma lookup_dir_wf:
  "wf_entries root \<Longrightarrow> lookup_dir root ns = Some es \<Longrightarrow> wf_entries es"
proof (induction ns arbitrary: root)
  case Nil
  then show ?case by simp
next
  case (Cons n ns)
  then obtain cs where "find_dir root n = Some cs" and "lookup_dir cs ns = Some es"
    by (auto split: option.splits)
  with Cons show ?case
    by (auto simp: find_dir_wf dest: wf_entries_Dir)
qed

end
