(* ===== verification/Walk.thy ===== *)
theory Walk
  imports Fs
begin

text \<open>
  The directory walk shared by \<open>cached.list_files\<close> and
  \<open>xpi_manifest.get_manifest\<close>. A directory listing is a list of entries in the
  order \<open>os.listdir\<close> returns them; \<open>os.walk\<close> (top-down) yields the directory,
  its sub-directory names and its file names, lets the caller edit the name list, and
  then descends into the names left in it, in order. Both callers edit it with the
  same loop,
  \<^verbatim>\<open>for dir_ in subdir_list:
    if dir_ in (".git", "node_modules"):
        subdir_list.remove(dir_)
        continue\<close>
  which removes from the list it iterates over; \<open>prune_subdirs\<close> models the list
  iterator index by index. \<open>skip_prune\<close> is its structural reading: a removed name
  makes the iterator skip the name after it.
\<close>

subsection \<open>The pruning loop\<close>

definition IGNORE_DIRS :: "string list" where
  "IGNORE_DIRS = [''.git'', ''node_modules'']"

text \<open>
  The \<open>for\<close> loop over \<open>subdir_list\<close> with the iterator at index \<open>i\<close>:
  \<open>list.remove\<close> deletes the first equal element, and the iterator moves on to
  \<open>i + 1\<close> either way.
\<close>

function prune_subdirs :: "string list \<Rightarrow> string list \<Rightarrow> nat \<Rightarrow> string list" where
  "prune_subdirs ign ds i =
     (if i < length ds then
        (if ds ! i \<in> set ign then prune_subdirs ign (remove1 (ds ! i) ds) (Suc i)
         else prune_subdirs ign ds (Suc i))
      else ds)"
  by pat_completeness auto
termination
  by (relation "measure (\<lambda>(ign, ds, i). length ds - i)") (auto simp: length_remove1)

declare prune_subdirs.simps [simp del]

fun skip_prune :: "string list \<Rightarrow> string list \<Rightarrow> string list" where
  "skip_prune ign [] = []"
| "skip_prune ign [d] = (if d \<in> set ign then [] else [d])"
| "skip_prune ign (d # e # ds) =
     (if d \<in> set ign then e # skip_prune ign ds else d # skip_prune ign (e # ds))"

text \<open>What the loop is meant to achieve: no ignored name follows an ignored name.\<close>

definition no_adjacent_ignored :: "string list \<Rightarrow> string list \<Rightarrow> bool" where
  "no_adjacent_ignored ign ds \<longleftrightarrow>
     list_all (\<lambda>(a, b). \<not> (a \<in> set ign \<and> b \<in> set ign)) (zip ds (tl ds))"

subsection \<open>os.walk\<close>

text \<open>
  One step of the top-down walk: yield the directory with the sub-directory list as the
  caller's \<open>prune\<close> leaves it, then walk each remaining sub-directory. A name that
  no longer resolves is skipped, as \<open>os.walk\<close> does when \<open>scandir\<close> fails.
\<close>

function walk :: "(string list \<Rightarrow> string list) \<Rightarrow> path \<Rightarrow> entry list
    \<Rightarrow> (path \<times> string list \<times> string list) list" where
  "walk prune dname es =
     (let ds = prune (dir_names es) in
      (dname, ds, file_names es) #
      concat (map (\<lambda>d. case find_dir es d of
                          None \<Rightarrow> []
                        | Some cs \<Rightarrow> walk prune (py_join dname d) cs) ds))"
  by pat_completeness auto
termination
  by (relation "measure (\<lambda>(p, d, es). size_list size es)") (auto dest: find_dir_size)

declare walk.simps [simp del]

definition os_walk :: "(string list \<Rightarrow> string list) \<Rightarrow> entry list \<Rightarrow> path
    \<Rightarrow> (path \<times> string list \<times> string list) list" where
  "os_walk prune root p =
     (case lookup_dir root (components p) of None \<Rightarrow> [] | Some es \<Rightarrow> walk prune p es)"

text \<open>The caller's edit of \<open>subdir_list\<close>, as both call sites write it.\<close>

definition prune_ignored :: "string list \<Rightarrow> string list" where
  "prune_ignored ds = prune_subdirs IGNORE_DIRS ds 0"

subsection \<open>The pruning loop against its structural reading\<close>

lemma remove1_nth_distinct:
  "distinct ds \<Longrightarrow> i < length ds \<Longrightarrow> remove1 (ds ! i) ds = take i ds @ drop (Suc i) ds"
proof (induction ds arbitrary: i)
  case Nil
  then show ?case by simp
next
  case (Cons d ds)
  then show ?case
    by (cases i) (auto simp: in_set_conv_nth)
qed

lemma skip_prune_keep_Cons [simp]:
  "d \<notin> set ign \<Longrightarrow> skip_prune ign (d # ds) = d # skip_prune ign ds"
  by (cases ds) auto

lemma skip_prune_drop_Cons [simp]:
  "d \<in> set ign \<Longrightarrow> skip_prune ign (d # ds) = take 1 ds @ skip_prune ign (drop 1 ds)"
  by (cases ds) auto

lemma prune_subdirs_skip_prune:
  "distinct ds \<Longrightarrow> prune_subdirs ign ds i = take i ds @ skip_prune ign (drop i ds)"
proof (induction ign ds i rule: prune_subdirs.induct)
  case (1 ign ds i)
  show ?case
  proof (cases "i < length ds")
    case False
    then show ?thesis by (simp add: prune_subdirs.simps [of ign ds i])
  next
    case True
    then have drop_i: "drop i ds = ds ! i # drop (Suc i) ds"
      by (simp add: Cons_nth_drop_Suc)
    show ?thesis
    proof (cases "ds ! i \<in> set ign")
      case False
      with True "1.IH"(2) "1.prems" drop_i show ?thesis
        by (simp add: prune_subdirs.simps [of ign ds i] take_Suc_conv_app_nth)
    next
      case ign: True
      let ?ds' = "take i ds @ drop (Suc i) ds"
      have rm: "remove1 (ds ! i) ds = ?ds'"
        using "1.prems" True by (rule remove1_nth_distinct)
      have "distinct ?ds'"
        using "1.prems" by (metis distinct_remove1 rm)
      then have "prune_subdirs ign ?ds' (Suc i) = take (Suc i) ?ds' @ skip_prune ign (drop (Suc i) ?ds')"
        using "1.IH"(1) True ign rm by simp
      moreover have "take (Suc i) ?ds' = take i ds @ take 1 (drop (Suc i) ds)"
        using True by (simp add: take_Suc_conv_app_nth min_def)
      moreover have "drop (Suc i) ?ds' = drop 1 (drop (Suc i) ds)"
        using True by (simp add: min_def)
      ultimately show ?thesis
        using True ign rm drop_i by (simp add: prune_subdirs.simps [of ign ds i])
    qed
  qed
qed

lemma skip_prune_subseq: "subseq (skip_prune ign ds) ds"
  by (induction ign ds rule: skip_prune.induct) auto

lemma skip_prune_keeps:
  "filter (\<lambda>d. d \<notin> set ign) (skip_prune ign ds) = filter (\<lambda>d. d \<notin> set ign) ds"
  by (induction ign ds rule: skip_prune.induct) auto

lemma no_adjacent_ignored_Cons_Cons:
  "no_adjacent_ignored ign (d # e # ds) \<longleftrightarrow>
     \<not> (d \<in> set ign \<and> e \<in> set ign) \<and> no_adjacent_ignored ign (e # ds)"
  by (simp add: no_adjacent_ignored_def)

lemma no_adjacent_ignored_Cons_keep:
  "e \<notin> set ign \<Longrightarrow> no_adjacent_ignored ign (e # ds) \<longleftrightarrow> no_adjacent_ignored ign ds"
  by (cases ds) (simp_all add: no_adjacent_ignored_def)

lemma skip_prune_clean_iff:
  "set (skip_prune ign ds) \<inter> set ign = {} \<longleftrightarrow> no_adjacent_ignored ign ds"
proof (induction ign ds rule: skip_prune.induct)
  case (3 ign d e ds)
  then show ?case
    by (auto simp: no_adjacent_ignored_Cons_Cons no_adjacent_ignored_Cons_keep)
qed (simp_all add: no_adjacent_ignored_def)

lemma prune_ignored_clean:
  "distinct ds \<Longrightarrow> no_adjacent_ignored IGNORE_DIRS ds \<Longrightarrow>
   prune_ignored ds = filter (\<lambda>d. d \<notin> set IGNORE_DIRS) ds"
proof -
  assume dist: "distinct ds" and clean: "no_adjacent_ignored IGNORE_DIRS ds"
  let ?S = "skip_prune IGNORE_DIRS ds"
  have "filter (\<lambda>d. d \<notin> set IGNORE_DIRS) ?S = ?S"
    using clean by (simp add: skip_prune_clean_iff [symmetric] filter_id_conv disjoint_iff)
  then have "?S = filter (\<lambda>d. d \<notin> set IGNORE_DIRS) ds"
    by (simp add: skip_prune_keeps)
  with dist show ?thesis
    by (simp add: prune_ignored_def prune_subdirs_skip_prune)
qed

lemma skip_prune_shield:
  "ds = xs @ a # b # ys \<Longrightarrow> a \<in> set ign \<Longrightarrow> a \<notin> set (skip_prune ign ds) \<Longrightarrow>
   b \<in> set (skip_prune ign ds)"
proof (induction ign ds arbitrary: xs rule: skip_prune.induct)
  case (3 ign d e ds)
  show ?case
  proof (cases xs)
    case Nil
    with "3.prems" show ?thesis by auto
  next
    case (Cons x xs')
    show ?thesis
    proof (cases "d \<in> set ign")
      case True
      show ?thesis
      proof (cases xs')
        case Nil
        with Cons True "3.prems" show ?thesis by auto
      next
        case (Cons x' xs'')
        with \<open>xs = x # xs'\<close> True "3.prems" "3.IH"(1) [of xs''] show ?thesis by auto
      qed
    next
      case False
      with Cons "3.prems" "3.IH"(2) [of xs'] show ?thesis by auto
    qed
  qed
qed (auto simp: Cons_eq_append_conv)

lemma skip_prune_shield_prefix:
  "set xs \<inter> set ign = {} \<Longrightarrow> a \<in> set ign \<Longrightarrow> skip_prune ign (xs @ a # b # ys) = xs @ b # skip_prune ign ys"
  by (induction xs) auto

lemma skip_prune_removed_bounds:
  "length (skip_prune ign ds) \<le> length ds \<and>
   length ds - length (skip_prune ign ds) \<le> length (filter (\<lambda>d. d \<in> set ign) ds) \<and>
   length (filter (\<lambda>d. d \<in> set ign) ds) \<le> 2 * (length ds - length (skip_prune ign ds)) \<and>
   2 * (length ds - length (skip_prune ign ds)) \<le> length ds + 1"
  by (induction ign ds rule: skip_prune.induct) auto

lemma prune_ignored_after_git:
  assumes "distinct ds" and "ds = xs @ ''.git'' # ''node_modules'' # ys"
  shows "''node_modules'' \<in> set (prune_ignored ds)"
proof -
  have "set xs \<inter> set IGNORE_DIRS = {}"
    using assms by (auto simp: IGNORE_DIRS_def)
  then have "skip_prune IGNORE_DIRS ds = xs @ ''node_modules'' # skip_prune IGNORE_DIRS ys"
    using assms(2) by (simp add: skip_prune_shield_prefix IGNORE_DIRS_def)
  with assms(1) show ?thesis
    by (simp add: prune_ignored_def prune_subdirs_skip_prune)
qed

lemma walk_Cons:
  "walk prune d es =
     (d, prune (dir_names es), file_names es) #
     concat (map (\<lambda>n. case find_dir es n of None \<Rightarrow> [] | Some cs \<Rightarrow> walk prune (py_join d n) cs)
                 (prune (dir_names es)))"
  by (simp add: walk.simps [of prune d es] Let_def)

subsection \<open>What the pruning does to a listing\<close>

text \<open>
  C1. On a listing with distinct names (every directory listing), the loop of
  \<open>list_files\<close> and \<open>get_manifest\<close> computes \<open>skip_prune\<close>: an ignored
  name is removed and the name right after it is kept unexamined.
\<close>

theorem prune_ignored_eq_skip_prune:
  "distinct ds \<Longrightarrow> prune_ignored ds = skip_prune IGNORE_DIRS ds"
  by (simp add: prune_ignored_def prune_subdirs_skip_prune)

theorem prune_ignored_eq_skip_prune_witness:
  "distinct [''.git'', ''node_modules'', ''src''] \<and>
   prune_ignored [''.git'', ''node_modules'', ''src''] = [''node_modules'', ''src'']"
  using prune_ignored_eq_skip_prune [of "[''.git'', ''node_modules'', ''src'']"]
  by (simp add: IGNORE_DIRS_def)

text \<open>
  C2. The loop never loses a directory that should be walked: what it leaves is a
  subsequence of the listing, and every name outside \<open>IGNORE_DIRS\<close> is kept, in order.
\<close>

theorem prune_ignored_keeps_walked:
  "distinct ds \<Longrightarrow>
     subseq (prune_ignored ds) ds \<and>
     filter (\<lambda>d. d \<notin> set IGNORE_DIRS) (prune_ignored ds) = filter (\<lambda>d. d \<notin> set IGNORE_DIRS) ds"
  by (simp add: prune_ignored_def prune_subdirs_skip_prune skip_prune_subseq skip_prune_keeps)

theorem prune_ignored_keeps_walked_witness:
  "distinct [''src'', ''.git'', ''lib''] \<and>
   subseq (prune_ignored [''src'', ''.git'', ''lib'']) [''src'', ''.git'', ''lib''] \<and>
   filter (\<lambda>d. d \<notin> set IGNORE_DIRS) (prune_ignored [''src'', ''.git'', ''lib'']) = [''src'', ''lib'']"
  using prune_ignored_keeps_walked [of "[''src'', ''.git'', ''lib'']"]
  by (simp add: IGNORE_DIRS_def)

text \<open>
  C3. The ignored directories are all pruned exactly when no ignored name directly
  follows another one in the listing: the loop is complete only on such listings.
\<close>

theorem prune_ignored_complete_iff:
  "distinct ds \<Longrightarrow>
     set (prune_ignored ds) \<inter> set IGNORE_DIRS = {} \<longleftrightarrow> no_adjacent_ignored IGNORE_DIRS ds"
  by (simp add: prune_ignored_def prune_subdirs_skip_prune skip_prune_clean_iff)

theorem prune_ignored_complete_iff_witness:
  "distinct [''.git'', ''src'', ''node_modules''] \<and>
   set (prune_ignored [''.git'', ''src'', ''node_modules'']) \<inter> set IGNORE_DIRS = {}"
proof -
  have "no_adjacent_ignored IGNORE_DIRS [''.git'', ''src'', ''node_modules'']"
    by (simp add: no_adjacent_ignored_def IGNORE_DIRS_def)
  then show ?thesis
    using prune_ignored_complete_iff [of "[''.git'', ''src'', ''node_modules'']"] by simp
qed

text \<open>
  C4. An ignored name that the loop removes shields the name listed right after it:
  that name is kept, unexamined, even when it is ignored too.
\<close>

theorem prune_ignored_shields_next:
  assumes "distinct ds" and "ds = xs @ a # b # ys" and "a \<in> set IGNORE_DIRS"
    and "a \<notin> set (prune_ignored ds)"
  shows "b \<in> set (prune_ignored ds)"
  using assms skip_prune_shield [of ds xs a b ys IGNORE_DIRS]
  by (simp add: prune_ignored_def prune_subdirs_skip_prune)

theorem prune_ignored_shields_next_witness:
  "''node_modules'' \<in> set (prune_ignored [''.git'', ''node_modules'', ''src''])"
  by (rule prune_ignored_shields_next [of _ "[]" "''.git''" _ "[''src'']"])
     (simp_all add: IGNORE_DIRS_def prune_ignored_def prune_subdirs.simps)

text \<open>
  C5. The number of names the loop removes is bounded on both sides: at most the
  number of ignored names, at least half of them (rounded up), and never more than
  half of the listing (rounded up), since a removal always skips the next name.
\<close>

theorem prune_subdirs_removed_bounds:
  assumes "distinct ds"
  shows "length ds - length (prune_subdirs ign ds 0) \<le> length (filter (\<lambda>d. d \<in> set ign) ds) \<and>
         length (filter (\<lambda>d. d \<in> set ign) ds) \<le> 2 * (length ds - length (prune_subdirs ign ds 0)) \<and>
         2 * (length ds - length (prune_subdirs ign ds 0)) \<le> length ds + 1"
  using assms skip_prune_removed_bounds [of ign ds] by (simp add: prune_subdirs_skip_prune)

theorem prune_subdirs_removed_bounds_witness:
  "length [''.git'', ''node_modules'', ''src''] - length (prune_subdirs IGNORE_DIRS [''.git'', ''node_modules'', ''src''] 0) = 1"
  using prune_subdirs_removed_bounds [of "[''.git'', ''node_modules'', ''src'']" IGNORE_DIRS]
  by (simp add: IGNORE_DIRS_def prune_subdirs.simps)
end
