(* ===== verification/Manifest.thy ===== *)
theory Manifest
  imports Walk
begin

text \<open>
  \<open>xpi_manifest.py\<close>: discovery of the sub-projects (\<open>get_manifest\<close>), their
  validation (\<open>check_manifest\<close>), the process-lifetime memoisation of the manifest
  and the lookup by name (\<open>get_xpi_config\<close>). A manifest entry, a read-only dict in
  the source, is the record \<open>xpi\<close>; the key \<open>directory\<close> is absent for the
  checkout root, so it is an option. \<open>json.load(fh).get("scripts", {})\<close> is a
  parameter of type \<open>json_reader\<close>: the script names of a \<open>package.json\<close> text in
  their iteration order, or the error the JSON library raises.
\<close>

datatype install_type = Yarn | Npm

record xpi =
  xpi_name :: string
  directory :: "string option"
  install_type :: install_type
  tests :: "string list"

type_synonym json_reader = "string \<Rightarrow> string list result"

subsection \<open>check_manifest\<close>

text \<open>
  \<open>TEST_NAME_REGEX\<close> is the class \<open>[^a-zA-Z0-9:_-]\<close>; \<open>search\<close> succeeds
  when some character lies outside the allowed set.
\<close>

definition TEST_NAME_REGEX_STRING :: string where
  "TEST_NAME_REGEX_STRING = ''[^a-zA-Z0-9:_-]''"

definition test_name_char_ok :: "char \<Rightarrow> bool" where
  "test_name_char_ok c \<longleftrightarrow>
     (CHR ''a'' \<le> c \<and> c \<le> CHR ''z'') \<or> (CHR ''A'' \<le> c \<and> c \<le> CHR ''Z'') \<or>
     (CHR ''0'' \<le> c \<and> c \<le> CHR ''9'') \<or> c \<in> set '':_-''"

definition illegal_test_name :: "string \<Rightarrow> bool" where
  "illegal_test_name t \<longleftrightarrow> list_ex (\<lambda>c. \<not> test_name_char_ok c) t"

text \<open>
  The two kinds of message \<open>check_manifest\<close> appends, kept as values; \<open>issue_message\<close>
  renders them with the source's format strings (Python 2 \<open>repr\<close> of the
  directory list, whose entries are unicode strings).
\<close>

datatype issue =
    IllegalTestName string string
  | DuplicateName string "string list"

definition py_hex_digit :: "nat \<Rightarrow> char" where
  "py_hex_digit n = ''0123456789abcdef'' ! n"

text \<open>
  One character of a unicode \<open>repr\<close> quoted with \<open>q\<close>: the quote and the
  backslash are escaped, tab, newline and carriage return get their escapes, the other
  characters below space or from DEL up are written \<open>\<^bold>\\x\<close> and two hex digits.
\<close>

definition py_repr_char :: "char \<Rightarrow> char \<Rightarrow> string" where
  "py_repr_char q c =
     (if c = q \<or> c = CHR 0x5C then [CHR 0x5C, c]
      else if c = CHR 0x09 then [CHR 0x5C, CHR ''t'']
      else if c = CHR 0x0A then [CHR 0x5C, CHR ''n'']
      else if c = CHR 0x0D then [CHR 0x5C, CHR ''r'']
      else if of_char c < (32 :: nat) \<or> (127 :: nat) \<le> of_char c
      then [CHR 0x5C, CHR ''x'', py_hex_digit (of_char c div 16), py_hex_digit (of_char c mod 16)]
      else [c])"

text \<open>
  \<open>repr\<close> of a unicode string: single quotes, unless the string holds a single quote
  and no double quote.
\<close>

definition py_repr_unicode :: "string \<Rightarrow> string" where
  "py_repr_unicode s =
     (let q = (if CHR 0x27 \<in> set s \<and> CHR 0x22 \<notin> set s then CHR 0x22 else CHR 0x27)
      in CHR ''u'' # q # concat (map (py_repr_char q) s) @ [q])"

definition py_repr_list :: "string list \<Rightarrow> string" where
  "py_repr_list vs = ''['' @ py_str_join '', '' (map py_repr_unicode vs) @ '']''"

fun issue_message :: "issue \<Rightarrow> string" where
  "issue_message (IllegalTestName n t) =
     ''Illegal test name in '' @ n @ '': '' @ t @ '' !\<newline>Illegal char regex: '' @ TEST_NAME_REGEX_STRING"
| "issue_message (DuplicateName k v) =
     ''Duplicate xpi name '' @ k @ '' in directories '' @ py_repr_list v @
     ''\<newline>Try renaming your subdirectories''"

text \<open>\<open>xpi_names.setdefault(k, []).append(v)\<close> on a dict kept in insertion order.\<close>

fun dict_append :: "(string \<times> string list) list \<Rightarrow> string \<Rightarrow> string \<Rightarrow> (string \<times> string list) list" where
  "dict_append [] k v = [(k, [v])]"
| "dict_append ((k', vs) # d) k v =
     (if k' = k then (k', vs @ [v]) # d else (k', vs) # dict_append d k v)"

definition dir_or_dot :: "xpi \<Rightarrow> string" where
  "dir_or_dot m = (case directory m of None \<Rightarrow> ''.'' | Some d \<Rightarrow> d)"

text \<open>The \<open>for manifest in manifest_list\<close> loop: messages and the name dict.\<close>

fun check_loop :: "xpi list \<Rightarrow> issue list \<Rightarrow> (string \<times> string list) list
    \<Rightarrow> issue list \<times> (string \<times> string list) list" where
  "check_loop [] msgs names = (msgs, names)"
| "check_loop (m # ms) msgs names =
     check_loop ms
       (msgs @ map (IllegalTestName (xpi_name m)) (filter illegal_test_name (tests m)))
       (dict_append names (xpi_name m) (dir_or_dot m))"

definition check_manifest :: "xpi list \<Rightarrow> issue list" where
  "check_manifest ms =
     (let (msgs, names) = check_loop ms [] []
      in msgs @ map (\<lambda>(k, v). DuplicateName k v) (filter (\<lambda>(k, v). 1 < length v) names))"

text \<open>The \<open>raise\<close> at the end of \<open>check_manifest\<close>, carrying every message.\<close>

definition check_manifest_raise :: "xpi list \<Rightarrow> unit result" where
  "check_manifest_raise ms =
     (case check_manifest ms of
        [] \<Rightarrow> Inr ()
      | iss \<Rightarrow> Inl (ManifestIssues (map issue_message iss)))"

text \<open>The name dict the loop has built when it ends.\<close>

definition names_dict :: "xpi list \<Rightarrow> (string \<times> string list) list" where
  "names_dict ms = foldl (\<lambda>d m. dict_append d (xpi_name m) (dir_or_dot m)) [] ms"

subsection \<open>get_manifest\<close>

definition is_test_target :: "string \<Rightarrow> bool" where
  "is_test_target t \<longleftrightarrow> startswith ''test'' t \<or> startswith ''lint'' t"

text \<open>
  The body of the walk loop for one directory: no \<open>package.json\<close>, no entry;
  otherwise the lock file decides the install type (a missing one raises at once), the
  directory is the walked path with \<open>BASE_DIR/\<close> replaced, and the tests are the
  script names that start with \<open>test\<close> or \<open>lint\<close>, in the order of the scripts.
\<close>

definition manifest_entry :: "json_reader \<Rightarrow> host \<Rightarrow> path \<Rightarrow> string list \<Rightarrow> xpi option result" where
  "manifest_entry json h dir_name file_list =
     (if ''package.json'' \<notin> set file_list then Inr None
      else
        (case (if ''yarn.lock'' \<in> set file_list then Some Yarn
               else if ''package-lock.json'' \<in> set file_list then Some Npm else None) of
           None \<Rightarrow> Inl (Exception (''Missing yarn.lock or package-lock.json in '' @ dir_name @ ''!''))
         | Some it \<Rightarrow>
             (case read_file (fs_root h) (py_join dir_name ''package.json'') of
                None \<Rightarrow> Inl (IOError (py_join dir_name ''package.json''))
              | Some content \<Rightarrow>
                  (case json content of
                     Inl e \<Rightarrow> Inl e
                   | Inr scripts \<Rightarrow>
                       Inr (Some \<lparr>xpi_name = basename dir_name,
                                  directory = (if dir_name \<noteq> base_dir h
                                               then Some (py_replace (base_dir h @ ''/'') [] dir_name)
                                               else None),
                                  install_type = it,
                                  tests = filter is_test_target scripts\<rparr>)))))"

fun collect_manifest :: "json_reader \<Rightarrow> host \<Rightarrow> (path \<times> string list \<times> string list) list
    \<Rightarrow> xpi list result" where
  "collect_manifest json h [] = Inr []"
| "collect_manifest json h ((d, sub, fl) # ws) =
     (case manifest_entry json h d fl of
        Inl e \<Rightarrow> Inl e
      | Inr None \<Rightarrow> collect_manifest json h ws
      | Inr (Some m) \<Rightarrow>
          (case collect_manifest json h ws of Inl e \<Rightarrow> Inl e | Inr ms \<Rightarrow> Inr (m # ms)))"

definition get_manifest :: "json_reader \<Rightarrow> host \<Rightarrow> xpi list result" where
  "get_manifest json h =
     (case collect_manifest json h (os_walk prune_ignored (fs_root h) (base_dir h)) of
        Inl e \<Rightarrow> Inl e
      | Inr ms \<Rightarrow> (case check_manifest_raise ms of Inl e \<Rightarrow> Inl e | Inr u \<Rightarrow> Inr ms))"

subsection \<open>Memoisation and lookup\<close>

text \<open>
  \<open>@memoize\<close>: the first successful call stores its value and later calls return it;
  a call that raises stores nothing.
\<close>

definition get_manifest_memo :: "json_reader \<Rightarrow> host \<Rightarrow> xpi list option
    \<Rightarrow> xpi list result \<times> xpi list option" where
  "get_manifest_memo json h cache =
     (case cache of
        Some ms \<Rightarrow> (Inr ms, cache)
      | None \<Rightarrow> (case get_manifest json h of Inl e \<Rightarrow> (Inl e, None) | Inr ms \<Rightarrow> (Inr ms, Some ms)))"

text \<open>
  \<open>get_xpi_config\<close>: the error branch formats \<open>input.xpi_name\<close>, an attribute of
  the built-in \<open>input\<close>, so what it raises is an \<open>AttributeError\<close>.
\<close>

definition get_xpi_config :: "json_reader \<Rightarrow> host \<Rightarrow> xpi list option \<Rightarrow> string
    \<Rightarrow> xpi result \<times> xpi list option" where
  "get_xpi_config json h cache n =
     (case get_manifest_memo json h cache of
        (Inl e, c) \<Rightarrow> (Inl e, c)
      | (Inr ms, c) \<Rightarrow>
          (let cs = filter (\<lambda>x. xpi_name x = n) ms in
           if length cs \<noteq> 1
           then (Inl (AttributeError ''builtin_function_or_method object has no attribute xpi_name''), c)
           else (Inr (hd cs), c)))"

subsection \<open>Example checkouts\<close>

text \<open>
  Concrete file trees the witnesses evaluate on. \<open>scripts_test_lint_build\<close> reads
  every \<open>package.json\<close> as declaring the scripts \<open>test\<close>, \<open>lint\<close> and
  \<open>build\<close>.
\<close>

definition scripts_test_lint_build :: json_reader where
  "scripts_test_lint_build c = Inr [''test'', ''lint'', ''build'']"

definition pkgA_checkout :: host where
  "pkgA_checkout =
     \<lparr>base_dir = ''/co'',
      fs_root = [Dir ''co'' [Dir ''pkgA'' [File ''package.json'' ''{}'', File ''yarn.lock'' '''']]]\<rparr>"

definition node_modules_checkout :: host where
  "node_modules_checkout =
     \<lparr>base_dir = ''/co'',
      fs_root = [Dir ''co'' [Dir ''.git'' [], Dir ''node_modules'' [Dir ''dep'' [File ''package.json'' ''{}'']],
                             File ''package.json'' ''{}'', File ''yarn.lock'' '''']]\<rparr>"

definition nested_checkout :: host where
  "nested_checkout =
     \<lparr>base_dir = ''/src'',
      fs_root = [Dir ''src'' [Dir ''pkg'' [Dir ''src'' [Dir ''sub''
                   [File ''package.json'' ''{}'', File ''package-lock.json'' '''']]]]]\<rparr>"

subsection \<open>check_manifest: the loop, the dict and the messages\<close>

lemma check_loop_eq:
  "check_loop ms msgs d =
     (msgs @ concat (map (\<lambda>m. map (IllegalTestName (xpi_name m)) (filter illegal_test_name (tests m))) ms),
      foldl (\<lambda>d m. dict_append d (xpi_name m) (dir_or_dot m)) d ms)"
  by (induction ms arbitrary: msgs d) auto

lemma map_of_dict_append:
  "map_of (dict_append d k v) = (map_of d)(k \<mapsto> (case map_of d k of None \<Rightarrow> [v] | Some vs \<Rightarrow> vs @ [v]))"
  by (induction d k v rule: dict_append.induct) (auto simp: fun_upd_twist)

lemma keys_dict_append:
  "map fst (dict_append d k v) = (if k \<in> set (map fst d) then map fst d else map fst d @ [k])"
  by (induction d k v rule: dict_append.induct) auto

lemma distinct_keys_names_dict: "distinct (map fst (names_dict ms))"
  unfolding names_dict_def
  by (induction ms rule: rev_induct) (auto simp: keys_dict_append)

lemma names_dict_snoc:
  "names_dict (ms @ [m]) = dict_append (names_dict ms) (xpi_name m) (dir_or_dot m)"
  by (simp add: names_dict_def)

lemma map_of_names_dict:
  "map_of (names_dict ms) k =
     (if k \<in> xpi_name ` set ms then Some (map dir_or_dot (filter (\<lambda>m. xpi_name m = k) ms)) else None)"
proof (induction ms rule: rev_induct)
  case Nil
  then show ?case by (simp add: names_dict_def)
next
  case (snoc m ms)
  show ?case
  proof (cases "k = xpi_name m")
    case True
    with snoc show ?thesis
      by (auto simp: names_dict_snoc map_of_dict_append filter_empty_conv image_iff)
  next
    case False
    with snoc show ?thesis
      by (simp add: names_dict_snoc map_of_dict_append)
  qed
qed

lemma set_names_dict:
  "(k, v) \<in> set (names_dict ms) \<longleftrightarrow>
     k \<in> xpi_name ` set ms \<and> v = map dir_or_dot (filter (\<lambda>m. xpi_name m = k) ms)"
proof -
  have "(k, v) \<in> set (names_dict ms) \<longleftrightarrow> map_of (names_dict ms) k = Some v"
    by (rule map_of_eq_Some_iff [OF distinct_keys_names_dict, symmetric])
  then show ?thesis
    by (auto simp: map_of_names_dict)
qed

lemma check_manifest_eq:
  "check_manifest ms =
     concat (map (\<lambda>m. map (IllegalTestName (xpi_name m)) (filter illegal_test_name (tests m))) ms) @
     map (\<lambda>(k, v). DuplicateName k v) (filter (\<lambda>(k, v). 1 < length v) (names_dict ms))"
  by (simp add: check_manifest_def check_loop_eq names_dict_def)

lemma set_names_dict_image:
  "set (names_dict ms) =
     (\<lambda>k. (k, map dir_or_dot (filter (\<lambda>m. xpi_name m = k) ms))) ` (xpi_name ` set ms)"
  by (auto simp: set_names_dict)

lemma check_manifest_Nil_iff:
  "check_manifest ms = [] \<longleftrightarrow>
     distinct (map xpi_name ms) \<and> (\<forall>m \<in> set ms. \<forall>t \<in> set (tests m). \<not> illegal_test_name t)"
proof -
  have dup: "filter (\<lambda>(k, v). 1 < length v) (names_dict ms) = [] \<longleftrightarrow> distinct (map xpi_name ms)"
    by (simp add: filter_empty_conv set_names_dict_image distinct_map_iff_filter_le1 not_less)
  have ill: "concat (map (\<lambda>m. map (IllegalTestName (xpi_name m)) (filter illegal_test_name (tests m))) ms) = []
      \<longleftrightarrow> (\<forall>m \<in> set ms. \<forall>t \<in> set (tests m). \<not> illegal_test_name t)"
    by (auto simp: filter_empty_conv)
  show ?thesis
    unfolding check_manifest_eq append_is_Nil_conv map_is_Nil_conv dup ill by blast
qed

lemma check_manifest_has_duplicate:
  assumes "i < j" "j < length ms" "xpi_name (ms ! i) = xpi_name (ms ! j)"
  shows "DuplicateName (xpi_name (ms ! i)) (map dir_or_dot (filter (\<lambda>m. xpi_name m = xpi_name (ms ! i)) ms))
           \<in> set (check_manifest ms)"
proof -
  let ?k = "xpi_name (ms ! i)"
  have "1 < length (filter (\<lambda>m. xpi_name m = ?k) ms)"
    using assms by (intro two_indices_filter [of i j]) auto
  moreover have "?k \<in> xpi_name ` set ms"
    using assms by auto
  ultimately show ?thesis
    by (force simp: check_manifest_eq set_names_dict)
qed

lemma check_manifest_raise_Inl:
  "i \<in> set (check_manifest ms) \<Longrightarrow>
   \<exists>msgs. check_manifest_raise ms = Inl (ManifestIssues msgs) \<and> issue_message i \<in> set msgs"
  by (cases "check_manifest ms") (auto simp: check_manifest_raise_def)

lemma check_manifest_has_illegal:
  "m \<in> set ms \<Longrightarrow> t \<in> set (tests m) \<Longrightarrow> illegal_test_name t \<Longrightarrow>
   IllegalTestName (xpi_name m) t \<in> set (check_manifest ms)"
  by (force simp: check_manifest_eq)

subsection \<open>get_manifest: entries, errors, lookup\<close>

lemmas manifest_eval =
  get_manifest_def os_walk_def components_def slash_def walk.simps prune_ignored_def
  IGNORE_DIRS_def prune_subdirs.simps py_join_def manifest_entry_def read_file_def basename_def
  is_test_target_def check_manifest_raise_def check_manifest_def illegal_test_name_def
  test_name_char_ok_def dir_or_dot_def scripts_test_lint_build_def

lemma manifest_entry_tests:
  "manifest_entry json h d fl = Inr (Some m) \<Longrightarrow> \<forall>t \<in> set (tests m). is_test_target t"
  by (auto simp: manifest_entry_def split: if_splits option.splits sum.splits)

lemma manifest_entry_missing_lock:
  "''package.json'' \<in> set fl \<Longrightarrow> ''yarn.lock'' \<notin> set fl \<Longrightarrow> ''package-lock.json'' \<notin> set fl \<Longrightarrow>
   manifest_entry json h d fl = Inl (Exception (''Missing yarn.lock or package-lock.json in '' @ d @ ''!''))"
  by (simp add: manifest_entry_def)

lemma collect_manifest_entries:
  "collect_manifest json h ws = Inr ms \<Longrightarrow> m \<in> set ms \<Longrightarrow>
   \<exists>(d, sub, fl) \<in> set ws. manifest_entry json h d fl = Inr (Some m)"
proof (induction json h ws arbitrary: ms rule: collect_manifest.induct)
  case (1 json h)
  then show ?case by simp
next
  case (2 json h d sub fl ws)
  then show ?case
    by (fastforce split: sum.splits option.splits)
qed

lemma collect_manifest_error:
  "(d, sub, fl) \<in> set ws \<Longrightarrow> isl (manifest_entry json h d fl) \<Longrightarrow> isl (collect_manifest json h ws)"
proof (induction json h ws rule: collect_manifest.induct)
  case (1 json h)
  then show ?case by simp
next
  case (2 json h d' sub' fl' ws)
  then show ?case
    by (auto split: sum.splits option.splits)
qed

lemma manifest_entry_package:
  "''package.json'' \<in> set fl \<Longrightarrow> manifest_entry json h d fl \<noteq> Inr None"
  by (auto simp: manifest_entry_def split: option.splits sum.splits)

lemma manifest_entry_directory:
  "manifest_entry json h d fl = Inr (Some m) \<Longrightarrow>
   directory m = (if d \<noteq> base_dir h then Some (py_replace (base_dir h @ ''/'') [] d) else None)"
  by (auto simp: manifest_entry_def split: if_splits option.splits sum.splits)

lemma manifest_entry_name:
  "manifest_entry json h d fl = Inr (Some m) \<Longrightarrow> xpi_name m = basename d"
  by (auto simp: manifest_entry_def split: if_splits option.splits sum.splits)

lemma collect_manifest_complete:
  "collect_manifest json h ws = Inr ms \<Longrightarrow> (d, sub, fl) \<in> set ws \<Longrightarrow> ''package.json'' \<in> set fl \<Longrightarrow>
   \<exists>m \<in> set ms. manifest_entry json h d fl = Inr (Some m)"
proof (induction json h ws arbitrary: ms rule: collect_manifest.induct)
  case (2 json h d' sub' fl' ws)
  show ?case
  proof (cases "(d, sub, fl) = (d', sub', fl')")
    case True
    then show ?thesis
      using "2.prems" manifest_entry_package [of fl json h d]
      by (auto split: sum.splits option.splits)
  next
    case False
    then have "(d, sub, fl) \<in> set ws"
      using "2.prems"(2) by auto
    then show ?thesis
      using "2.prems"(1,3) "2.IH" by (fastforce split: sum.splits option.splits)
  qed
qed simp

lemma get_manifest_Inr:
  "get_manifest json h = Inr ms \<Longrightarrow>
     collect_manifest json h (os_walk prune_ignored (fs_root h) (base_dir h)) = Inr ms \<and> check_manifest ms = []"
  by (auto simp: get_manifest_def check_manifest_raise_def split: sum.splits list.splits)

lemma get_manifest_Inr_valid:
  assumes "get_manifest json h = Inr ms"
  shows "distinct (map xpi_name ms) \<and>
         (\<forall>m \<in> set ms. \<forall>t \<in> set (tests m). is_test_target t \<and> \<not> illegal_test_name t)"
proof -
  from assms have coll: "collect_manifest json h (os_walk prune_ignored (fs_root h) (base_dir h)) = Inr ms"
    and ok: "check_manifest ms = []"
    by (auto dest: get_manifest_Inr)
  have "\<forall>m \<in> set ms. \<forall>t \<in> set (tests m). is_test_target t"
    using collect_manifest_entries [OF coll] manifest_entry_tests by fastforce
  with ok show ?thesis
    by (simp add: check_manifest_Nil_iff)
qed

lemma get_manifest_error:
  "(d, sub, fl) \<in> set (os_walk prune_ignored (fs_root h) (base_dir h)) \<Longrightarrow>
   isl (manifest_entry json h d fl) \<Longrightarrow> isl (get_manifest json h)"
  using collect_manifest_error [of d sub fl "os_walk prune_ignored (fs_root h) (base_dir h)" json h]
  by (auto simp: get_manifest_def split: sum.splits)

lemma get_xpi_config_Inr_manifest:
  assumes "get_manifest json h = Inr ms"
  shows "fst (get_xpi_config json h None n) =
           (if length (filter (\<lambda>x. xpi_name x = n) ms) = 1 then Inr (hd (filter (\<lambda>x. xpi_name x = n) ms))
            else Inl (AttributeError ''builtin_function_or_method object has no attribute xpi_name''))"
  using assms by (simp add: get_xpi_config_def get_manifest_memo_def Let_def)

lemma filter_name_single:
  "distinct (map xpi_name ms) \<Longrightarrow> m \<in> set ms \<Longrightarrow> filter (\<lambda>x. xpi_name x = xpi_name m) ms = [m]"
proof (induction ms)
  case Nil
  then show ?case by simp
next
  case (Cons x ms)
  then show ?case
    by (auto simp: filter_empty_conv) (metis image_eqI)
qed

lemma get_xpi_config_found_aux:
  "get_manifest json h = Inr ms \<Longrightarrow> m \<in> set ms \<Longrightarrow> fst (get_xpi_config json h None (xpi_name m)) = Inr m"
  by (simp add: get_xpi_config_Inr_manifest filter_name_single get_manifest_Inr_valid)

lemma get_xpi_config_missing_aux:
  assumes "get_manifest json h = Inr ms" and "n \<notin> xpi_name ` set ms"
  shows "fst (get_xpi_config json h None n) =
           Inl (AttributeError ''builtin_function_or_method object has no attribute xpi_name'')"
proof -
  from assms(2) have "filter (\<lambda>x. xpi_name x = n) ms = []"
    by (force simp: filter_empty_conv)
  with assms(1) show ?thesis
    by (simp add: get_xpi_config_Inr_manifest)
qed

lemma get_manifest_memo_hit:
  "get_manifest_memo json h c = (Inr ms, c') \<Longrightarrow> get_manifest_memo json' h' c' = (Inr ms, c')"
  by (auto simp: get_manifest_memo_def split: option.splits sum.splits)

subsection \<open>Properties of the manifest\<close>

text \<open>
  C8. \<open>check_manifest\<close> reports nothing exactly when the names are pairwise distinct
  (invariant V1) and every test target has only legal characters (invariant V3).
\<close>

theorem check_manifest_ok_iff:
  "check_manifest ms = [] \<longleftrightarrow>
     distinct (map xpi_name ms) \<and> (\<forall>m \<in> set ms. \<forall>t \<in> set (tests m). \<not> illegal_test_name t)"
  by (rule check_manifest_Nil_iff)

theorem check_manifest_ok_iff_witness:
  "check_manifest [\<lparr>xpi_name = ''a'', directory = None, install_type = Yarn, tests = [''test:unit'']\<rparr>] = [] \<and>
   check_manifest [\<lparr>xpi_name = ''a'', directory = None, install_type = Yarn, tests = [''test unit'']\<rparr>] \<noteq> []"
  using check_manifest_ok_iff [of "[\<lparr>xpi_name = ''a'', directory = None, install_type = Yarn, tests = [''test:unit'']\<rparr>]"]
    check_manifest_ok_iff [of "[\<lparr>xpi_name = ''a'', directory = None, install_type = Yarn, tests = [''test unit'']\<rparr>]"]
  by (simp add: illegal_test_name_def test_name_char_ok_def)

text \<open>
  C9. Every test target with an illegal character is reported: the raised exception
  carries the message naming the sub-project and the target.
\<close>

theorem check_manifest_reports_illegal:
  assumes "m \<in> set ms" and "t \<in> set (tests m)" and "illegal_test_name t"
  shows "\<exists>msgs. check_manifest_raise ms = Inl (ManifestIssues msgs) \<and>
           ''Illegal test name in '' @ xpi_name m @ '': '' @ t @
           '' !\<newline>Illegal char regex: [^a-zA-Z0-9:_-]'' \<in> set msgs"
  using check_manifest_raise_Inl [OF check_manifest_has_illegal [OF assms]]
  by (simp add: TEST_NAME_REGEX_STRING_def)

theorem check_manifest_reports_illegal_witness:
  "\<exists>msgs. check_manifest_raise [\<lparr>xpi_name = ''a'', directory = None, install_type = Npm, tests = [''test unit'']\<rparr>] =
      Inl (ManifestIssues msgs) \<and>
    ''Illegal test name in a: test unit !\<newline>Illegal char regex: [^a-zA-Z0-9:_-]'' \<in> set msgs"
  using check_manifest_reports_illegal
    [of "\<lparr>xpi_name = ''a'', directory = None, install_type = Npm, tests = [''test unit'']\<rparr>"
        "[\<lparr>xpi_name = ''a'', directory = None, install_type = Npm, tests = [''test unit'']\<rparr>]" "''test unit''"]
  by (simp add: illegal_test_name_def test_name_char_ok_def)

text \<open>
  C10. Two sub-projects with the same name are reported in one message that lists the
  directories of all sub-projects with that name, both of them among them.
\<close>

theorem check_manifest_reports_duplicate:
  assumes "i < j" and "j < length ms" and "xpi_name (ms ! i) = xpi_name (ms ! j)"
  shows "\<exists>msgs. check_manifest_raise ms = Inl (ManifestIssues msgs) \<and>
           issue_message (DuplicateName (xpi_name (ms ! i))
             (map dir_or_dot (filter (\<lambda>m. xpi_name m = xpi_name (ms ! i)) ms))) \<in> set msgs \<and>
           dir_or_dot (ms ! i) \<in> set (map dir_or_dot (filter (\<lambda>m. xpi_name m = xpi_name (ms ! i)) ms)) \<and>
           dir_or_dot (ms ! j) \<in> set (map dir_or_dot (filter (\<lambda>m. xpi_name m = xpi_name (ms ! i)) ms))"
proof -
  have "ms ! i \<in> set ms" and "ms ! j \<in> set ms"
    using assms by auto
  with assms(3) show ?thesis
    using check_manifest_raise_Inl [OF check_manifest_has_duplicate [OF assms]] by auto
qed

theorem check_manifest_reports_duplicate_witness:
  "\<exists>msgs. check_manifest_raise [\<lparr>xpi_name = ''x'', directory = Some ''a/x'', install_type = Npm, tests = []\<rparr>,
                                 \<lparr>xpi_name = ''x'', directory = Some ''b/x'', install_type = Yarn, tests = []\<rparr>] =
      Inl (ManifestIssues msgs) \<and>
    ''Duplicate xpi name x in directories [u'' @ [CHR 0x27] @ ''a/x'' @ [CHR 0x27] @ '', u'' @ [CHR 0x27] @
      ''b/x'' @ [CHR 0x27] @ '']\<newline>Try renaming your subdirectories'' \<in> set msgs"
  using check_manifest_reports_duplicate
    [of 0 1 "[\<lparr>xpi_name = ''x'', directory = Some ''a/x'', install_type = Npm, tests = []\<rparr>,
             \<lparr>xpi_name = ''x'', directory = Some ''b/x'', install_type = Yarn, tests = []\<rparr>]"]
  by (simp add: dir_or_dot_def py_repr_list_def py_repr_unicode_def py_repr_char_def Let_def)

text \<open>
  C11. A manifest \<open>get_manifest\<close> returns has pairwise distinct names, and every
  test target in it starts with \<open>test\<close> or \<open>lint\<close> and has only legal characters.
\<close>

theorem get_manifest_valid:
  "get_manifest json h = Inr ms \<Longrightarrow>
     distinct (map xpi_name ms) \<and>
     (\<forall>m \<in> set ms. \<forall>t \<in> set (tests m). is_test_target t \<and> \<not> illegal_test_name t)"
  by (rule get_manifest_Inr_valid)

theorem get_manifest_valid_witness:
  "get_manifest scripts_test_lint_build pkgA_checkout =
     Inr [\<lparr>xpi_name = ''pkgA'', directory = Some ''pkgA'', install_type = Yarn, tests = [''test'', ''lint'']\<rparr>] \<and>
   is_test_target ''test'' \<and> \<not> illegal_test_name ''test'' \<and>
   is_test_target ''lint'' \<and> \<not> illegal_test_name ''lint''"
proof -
  have eq: "get_manifest scripts_test_lint_build pkgA_checkout =
     Inr [\<lparr>xpi_name = ''pkgA'', directory = Some ''pkgA'', install_type = Yarn, tests = [''test'', ''lint'']\<rparr>]"
    by (simp add: pkgA_checkout_def manifest_eval)
  with get_manifest_valid [OF eq] show ?thesis
    by simp
qed

text \<open>
  C12. Discovery fails fast: a walked directory with a \<open>package.json\<close> and neither lock
  file makes \<open>get_manifest\<close> raise; no partial manifest is returned.
\<close>

theorem get_manifest_missing_lock:
  assumes "(d, sub, fl) \<in> set (os_walk prune_ignored (fs_root h) (base_dir h))"
    and "''package.json'' \<in> set fl" and "''yarn.lock'' \<notin> set fl" and "''package-lock.json'' \<notin> set fl"
  shows "isl (get_manifest json h)"
proof -
  have "manifest_entry json h d fl = Inl (Exception (''Missing yarn.lock or package-lock.json in '' @ d @ ''!''))"
    using assms(2-4) by (rule manifest_entry_missing_lock)
  then have "isl (manifest_entry json h d fl)"
    by simp
  with assms(1) show ?thesis
    by (rule get_manifest_error)
qed

theorem get_manifest_missing_lock_witness:
  "(''/co/node_modules/dep'', [], [''package.json'']) \<in>
      set (os_walk prune_ignored (fs_root node_modules_checkout) (base_dir node_modules_checkout)) \<and>
   isl (get_manifest scripts_test_lint_build node_modules_checkout)"
proof -
  have w: "(''/co/node_modules/dep'', [], [''package.json'']) \<in>
      set (os_walk prune_ignored (fs_root node_modules_checkout) (base_dir node_modules_checkout))"
    by (simp add: node_modules_checkout_def manifest_eval)
  have "isl (get_manifest scripts_test_lint_build node_modules_checkout)"
    by (rule get_manifest_missing_lock [OF w]) simp_all
  with w show ?thesis
    by simp
qed

text \<open>
  C14. \<open>directory\<close> is computed with \<open>str.replace\<close>, which removes every occurrence
  of \<open>BASE_DIR/\<close>: for a sub-project at \<open>BASE_DIR/rel\<close> the recorded directory
  is \<open>rel\<close> with every occurrence of \<open>BASE_DIR/\<close> removed, and it is
  \<open>rel\<close> itself exactly when \<open>BASE_DIR/\<close> does not occur inside \<open>rel\<close>.
\<close>

theorem manifest_entry_directory_replace_all:
  assumes "manifest_entry json h (base_dir h @ ''/'' @ rel) fl = Inr (Some m)"
  shows "directory m = Some (py_replace (base_dir h @ ''/'') [] rel) \<and>
         (directory m = Some rel \<longleftrightarrow> \<not> (\<exists>u v. rel = u @ base_dir h @ ''/'' @ v))"
proof -
  have "directory m = Some (py_replace (base_dir h @ ''/'') [] (base_dir h @ ''/'' @ rel))"
    using manifest_entry_directory [OF assms] by simp
  then have d: "directory m = Some (py_replace (base_dir h @ ''/'') [] rel)"
    using py_replace_Nil_prefix [of "base_dir h @ ''/''" rel] by simp
  moreover have "py_replace (base_dir h @ ''/'') [] rel = rel \<longleftrightarrow> \<not> (\<exists>u v. rel = u @ base_dir h @ ''/'' @ v)"
    using py_replace_Nil_id_iff [of "base_dir h @ ''/''" rel] by simp
  ultimately show ?thesis
    by simp
qed

theorem manifest_entry_directory_replace_all_witness:
  "manifest_entry scripts_test_lint_build nested_checkout (base_dir nested_checkout @ ''/'' @ ''pkg/src/sub'')
      [''package.json'', ''package-lock.json''] =
     Inr (Some \<lparr>xpi_name = ''sub'', directory = Some ''pkgsub'', install_type = Npm, tests = [''test'', ''lint'']\<rparr>) \<and>
   directory \<lparr>xpi_name = ''sub'', directory = Some ''pkgsub'', install_type = Npm, tests = [''test'', ''lint'']\<rparr> \<noteq>
     Some ''pkg/src/sub''"
proof -
  have e: "manifest_entry scripts_test_lint_build nested_checkout (base_dir nested_checkout @ ''/'' @ ''pkg/src/sub'')
      [''package.json'', ''package-lock.json''] =
     Inr (Some \<lparr>xpi_name = ''sub'', directory = Some ''pkgsub'', install_type = Npm, tests = [''test'', ''lint'']\<rparr>)"
    by (simp add: nested_checkout_def manifest_eval)
  have "\<exists>u v. ''pkg/src/sub'' = u @ base_dir nested_checkout @ ''/'' @ v"
    by (rule exI [of _ "''pkg''"], rule exI [of _ "''sub''"]) (simp add: nested_checkout_def)
  with manifest_entry_directory_replace_all [OF e] e show ?thesis
    by blast
qed

text \<open>
  C15. On a valid manifest, looking a sub-project up by its name returns its entry.
\<close>

theorem get_xpi_config_found:
  "get_manifest json h = Inr ms \<Longrightarrow> m \<in> set ms \<Longrightarrow> fst (get_xpi_config json h None (xpi_name m)) = Inr m"
  by (rule get_xpi_config_found_aux)

theorem get_xpi_config_found_witness:
  "fst (get_xpi_config scripts_test_lint_build pkgA_checkout None ''pkgA'') =
     Inr \<lparr>xpi_name = ''pkgA'', directory = Some ''pkgA'', install_type = Yarn, tests = [''test'', ''lint'']\<rparr>"
proof -
  have eq: "get_manifest scripts_test_lint_build pkgA_checkout =
     Inr [\<lparr>xpi_name = ''pkgA'', directory = Some ''pkgA'', install_type = Yarn, tests = [''test'', ''lint'']\<rparr>]"
    by (simp add: pkgA_checkout_def manifest_eval)
  from get_xpi_config_found [OF eq, of "\<lparr>xpi_name = ''pkgA'', directory = Some ''pkgA'', install_type = Yarn, tests = [''test'', ''lint'']\<rparr>"]
  show ?thesis by simp
qed

text \<open>
  C16. Looking up a name that is not in the manifest raises \<open>AttributeError\<close>: the
  error message formats \<open>input.xpi_name\<close>, not the intended \<open>Unable to find a single
  xpi\<close> message.
\<close>

theorem get_xpi_config_missing:
  "get_manifest json h = Inr ms \<Longrightarrow> n \<notin> xpi_name ` set ms \<Longrightarrow>
   fst (get_xpi_config json h None n) =
     Inl (AttributeError ''builtin_function_or_method object has no attribute xpi_name'')"
  by (rule get_xpi_config_missing_aux)

theorem get_xpi_config_missing_witness:
  "fst (get_xpi_config scripts_test_lint_build pkgA_checkout None ''pkgB'') =
     Inl (AttributeError ''builtin_function_or_method object has no attribute xpi_name'')"
proof -
  have eq: "get_manifest scripts_test_lint_build pkgA_checkout =
     Inr [\<lparr>xpi_name = ''pkgA'', directory = Some ''pkgA'', install_type = Yarn, tests = [''test'', ''lint'']\<rparr>]"
    by (simp add: pkgA_checkout_def manifest_eval)
  from get_xpi_config_missing [OF eq, of "''pkgB''"] show ?thesis
    by simp
qed

text \<open>
  C17. Memoisation: once a call has returned a manifest, every later call in the process
  returns the same manifest, whatever the file tree has become.
\<close>

theorem get_manifest_memo_stable:
  "get_manifest_memo json h c = (Inr ms, c') \<Longrightarrow> get_manifest_memo json' h' c' = (Inr ms, c')"
  by (rule get_manifest_memo_hit)

theorem get_manifest_memo_stable_witness:
  "get_manifest_memo scripts_test_lint_build pkgA_checkout None =
     (Inr [\<lparr>xpi_name = ''pkgA'', directory = Some ''pkgA'', install_type = Yarn, tests = [''test'', ''lint'']\<rparr>],
      Some [\<lparr>xpi_name = ''pkgA'', directory = Some ''pkgA'', install_type = Yarn, tests = [''test'', ''lint'']\<rparr>]) \<and>
   get_manifest_memo scripts_test_lint_build node_modules_checkout
      (Some [\<lparr>xpi_name = ''pkgA'', directory = Some ''pkgA'', install_type = Yarn, tests = [''test'', ''lint'']\<rparr>]) =
     (Inr [\<lparr>xpi_name = ''pkgA'', directory = Some ''pkgA'', install_type = Yarn, tests = [''test'', ''lint'']\<rparr>],
      Some [\<lparr>xpi_name = ''pkgA'', directory = Some ''pkgA'', install_type = Yarn, tests = [''test'', ''lint'']\<rparr>])"
proof -
  have first: "get_manifest_memo scripts_test_lint_build pkgA_checkout None =
     (Inr [\<lparr>xpi_name = ''pkgA'', directory = Some ''pkgA'', install_type = Yarn, tests = [''test'', ''lint'']\<rparr>],
      Some [\<lparr>xpi_name = ''pkgA'', directory = Some ''pkgA'', install_type = Yarn, tests = [''test'', ''lint'']\<rparr>])"
    by (simp add: get_manifest_memo_def pkgA_checkout_def manifest_eval)
  from first get_manifest_memo_stable [OF first, of scripts_test_lint_build node_modules_checkout]
  show ?thesis by simp
qed

end
