(* ===== verification/Task.thy ===== *)
theory Task
  imports Prelude
begin

text \<open>
  The task descriptor the transforms of \<open>build.py\<close>, \<open>test.py\<close>,
  \<open>cached.py\<close> and \<open>signing.py\<close> read and write: in the source a nested dict
  handed over by the taskgraph engine, here a record with one optional field per key the
  transforms touch (\<open>None\<close>: the key is absent). Keys no transform of this
  repository touches pass through unchanged and are not modelled. \<open>worker\<close> is
  represented by its two sub-keys \<open>env\<close> and \<open>artifacts\<close>.
\<close>

datatype attr_value = AttrDict | AttrBool bool | AttrStr string | AttrList "string list"

datatype cache_value = CacheFlag bool | CacheSpec string string "string list"

record artifact =
  artifact_type :: string
  artifact_name :: string
  artifact_path :: string

record task =
  label :: "string option"
  worker_env :: "string dict option"
  worker_artifacts :: "artifact list option"
  run :: "string dict option"
  extra :: "string dict option"
  cache :: "cache_value option"
  attributes :: "attr_value dict option"

text \<open>A task with none of these keys: a job template as the engine hands it over.\<close>

definition empty_task :: task where
  "empty_task = \<lparr>label = None, worker_env = None, worker_artifacts = None, run = None,
                 extra = None, cache = None, attributes = None\<rparr>"

text \<open>\<open>task.setdefault(key, {})\<close> for the dict-valued keys.\<close>

definition opt_dict :: "'v dict option \<Rightarrow> 'v dict" where
  "opt_dict d = (case d of None \<Rightarrow> [] | Some x \<Rightarrow> x)"

lemma opt_dict_simps [simp]: "opt_dict None = []" "opt_dict (Some d) = d"
  by (simp_all add: opt_dict_def)

end
