(* ===== verification/Cache.thy ===== *)
theory Cache
  imports Walk Task
begin

text \<open>
  \<open>cached.py\<close>: the file enumerator \<open>list_files\<close> and the transform
  \<open>build_cache\<close> that attaches a content digest to each task. SHA-256 is a parameter
  \<open>sha :: hasher\<close> (\<open>hashlib.sha256(data).hexdigest()\<close>); feeding the lines to
  one \<open>h.update\<close> after the other hashes their concatenation, so the digest is
  \<open>sha\<close> of the concatenated lines. \<open>os.path.relpath\<close> is modelled on
  normalised absolute paths (no \<open>.\<close> or \<open>..\<close> component), which are the only
  ones the walk produces; symbolic links are not modelled, so \<open>realpath\<close> is the
  identity.
\<close>

type_synonym hasher = "string \<Rightarrow> string"

definition IGNORE_EXTENSIONS :: "string list" where
  "IGNORE_EXTENSIONS = [''.pyc'', ''.swp'']"

definition ADDITIONAL_FILES :: "path list" where
  "ADDITIONAL_FILES = [''.taskcluster.yml'', ''eslintrc.js'']"

subsection \<open>relpath and list_files\<close>

fun common_prefix_len :: "'a list \<Rightarrow> 'a list \<Rightarrow> nat" where
  "common_prefix_len (x # xs) (y # ys) = (if x = y then Suc (common_prefix_len xs ys) else 0)"
| "common_prefix_len xs ys = 0"

definition relpath :: "path \<Rightarrow> path \<Rightarrow> path" where
  "relpath p start =
     (let sl = components start; pl = components p; i = common_prefix_len sl pl;
          rel = replicate (length sl - i) ''..'' @ drop i pl
      in if rel = [] then ''.'' else py_str_join ''/'' rel)"

text \<open>
  The loop of \<open>list_files\<close> over the triples of the walk: every file whose extension
  is not ignored, as a path relative to \<open>BASE_DIR\<close>; \<open>list_files(path)\<close> runs
  it on the pruned walk from \<open>path\<close> and returns the Python set.
\<close>

definition walk_files :: "path \<Rightarrow> (path \<times> string list \<times> string list) list \<Rightarrow> path set" where
  "walk_files base ws =
     set (concat (map (\<lambda>(dir_name, sub, fl).
            map (\<lambda>f. relpath (py_join (py_join base dir_name) f) base)
              (filter (\<lambda>f. splitext_ext f \<notin> set IGNORE_EXTENSIONS) fl)) ws))"

definition list_files :: "host \<Rightarrow> path \<Rightarrow> path set" where
  "list_files h p = walk_files (base_dir h) (os_walk prune_ignored (fs_root h) p)"

subsection \<open>What list_files should enumerate\<close>

text \<open>
  The contract of the file enumerator (section 4.1 of the specification): the relative
  paths, as component lists, of the files below a directory that are neither inside an
  ignored directory nor of an ignored extension. \<open>clean_tree\<close> says that no listing
  below holds two ignored directory names side by side, the case where the pruning loop
  does what it means to.
\<close>

fun tree_files :: "entry list \<Rightarrow> string list list" where
  "tree_files [] = []"
| "tree_files (File n c # es) =
     (if splitext_ext n \<in> set IGNORE_EXTENSIONS then [] else [[n]]) @ tree_files es"
| "tree_files (Dir n cs # es) =
     (if n \<in> set IGNORE_DIRS then [] else map (Cons n) (tree_files cs)) @ tree_files es"

fun clean_below :: "entry list \<Rightarrow> bool" where
  "clean_below [] = True"
| "clean_below (File n c # es) = clean_below es"
| "clean_below (Dir n cs # es) =
     (no_adjacent_ignored IGNORE_DIRS (dir_names cs) \<and> clean_below cs \<and> clean_below es)"

definition clean_tree :: "entry list \<Rightarrow> bool" where
  "clean_tree es \<longleftrightarrow> no_adjacent_ignored IGNORE_DIRS (dir_names es) \<and> clean_below es"

subsection \<open>build_cache\<close>

text \<open>
  The repository name from \<open>git remote get-url origin\<close>: strip the trailing
  newline, delete every \<open>.git\<close>, strip trailing slashes, keep the last component.
\<close>

definition repo_name :: "string \<Rightarrow> string" where
  "repo_name out = last (py_split slash (py_rstrip ''/'' (py_replace ''.git'' [] (py_rstrip py_whitespace out))))"

text \<open>
  The files a task's digest covers: those below its \<open>extra.directory\<close> (the
  checkout root when there is none), those below \<open>taskcluster/\<close>, and the
  \<open>ADDITIONAL_FILES\<close> that exist.
\<close>

definition cache_files :: "host \<Rightarrow> task \<Rightarrow> path set" where
  "cache_files h t =
     (let directory = (case map_of (opt_dict (extra t)) ''directory'' of None \<Rightarrow> base_dir h | Some d \<Rightarrow> d);
          directory = py_join (base_dir h) directory
      in list_files h directory \<union> list_files h (py_join (base_dir h) ''taskcluster'') \<union>
         set (filter (\<lambda>p. path_exists (fs_root h) (py_join (base_dir h) p)) ADDITIONAL_FILES))"

text \<open>
  The lines fed to the accumulator, in the given order: \<open>"{hash} {path}\n"\<close> with
  the hash of the file's content; a path that cannot be opened raises.
\<close>

fun digest_input :: "hasher \<Rightarrow> host \<Rightarrow> path list \<Rightarrow> string result" where
  "digest_input sha h [] = Inr []"
| "digest_input sha h (p # ps) =
     (case read_file (fs_root h) (py_join (base_dir h) p) of
        None \<Rightarrow> Inl (IOError (py_join (base_dir h) p))
      | Some c \<Rightarrow>
          (case digest_input sha h ps of
             Inl e \<Rightarrow> Inl e
           | Inr s \<Rightarrow> Inr (sha c @ CHR '' '' # p @ CHR ''\<newline>'' # s)))"

text \<open>
  Reading the digest input back: one line per file, the hash up to the first space and
  the path after it. Not part of the code; it states what the input encodes.
\<close>

definition decode_digest_input :: "string \<Rightarrow> (string \<times> path) list" where
  "decode_digest_input s =
     map (\<lambda>l. (takeWhile (\<lambda>c. c \<noteq> CHR '' '') l, drop 1 (dropWhile (\<lambda>c. c \<noteq> CHR '' '') l)))
       (butlast (py_split newline s))"

text \<open>\<open>task.get("cache", True)\<close> as a condition: a cache dict is truthy.\<close>

fun cache_requested :: "cache_value option \<Rightarrow> bool" where
  "cache_requested None = True"
| "cache_requested (Some (CacheFlag b)) = b"
| "cache_requested (Some (CacheSpec ty n ds)) = True"

definition build_cache_task :: "hasher \<Rightarrow> host \<Rightarrow> string \<Rightarrow> bool \<Rightarrow> task \<Rightarrow> task result" where
  "build_cache_task sha h repo fast t =
     (if cache_requested (cache t) \<and> \<not> fast then
        (case digest_input sha h (sorted_list_of_set (cache_files h t)) of
           Inl e \<Rightarrow> Inl e
         | Inr data \<Rightarrow>
             (case label t of
                None \<Rightarrow> Inl (KeyError ''label'')
              | Some l \<Rightarrow>
                  Inr (t\<lparr>attributes := Some (dict_setdefault (opt_dict (attributes t)) ''cached_task'' AttrDict),
                         cache := Some (CacheSpec (repo @ ''.v2'') (py_replace '':'' ''-'' l) [sha data])\<rparr>)))
      else Inr t)"

fun build_cache_tasks :: "hasher \<Rightarrow> host \<Rightarrow> string \<Rightarrow> bool \<Rightarrow> task list \<Rightarrow> task list result" where
  "build_cache_tasks sha h repo fast [] = Inr []"
| "build_cache_tasks sha h repo fast (t # ts) =
     (case build_cache_task sha h repo fast t of
        Inl e \<Rightarrow> Inl e
      | Inr t' \<Rightarrow> (case build_cache_tasks sha h repo fast ts of Inl e \<Rightarrow> Inl e | Inr ts' \<Rightarrow> Inr (t' # ts')))"

text \<open>
  The transform: the remote URL is read once (\<open>remote_out\<close> is the output of
  \<open>git remote get-url origin\<close>), \<open>fast\<close> is \<open>taskgraph.fast\<close>.
\<close>

definition build_cache :: "hasher \<Rightarrow> host \<Rightarrow> string \<Rightarrow> bool \<Rightarrow> task list \<Rightarrow> task list result" where
  "build_cache sha h remote_out fast ts = build_cache_tasks sha h (repo_name remote_out) fast ts"

subsection \<open>Example checkouts\<close>

text \<open>
  \<open>clean_checkout\<close> lists \<open>.git\<close> and \<open>node_modules\<close> apart;
  \<open>git_first_checkout\<close> lists \<open>.git\<close> right before \<open>node_modules\<close>.
\<close>

definition clean_checkout :: host where
  "clean_checkout =
     \<lparr>base_dir = ''/co'',
      fs_root = [Dir ''co'' [Dir ''.git'' [File ''HEAD'' ''ref''], Dir ''src'' [File ''m.js'' ''m'', File ''m.pyc'' ''''],
                             Dir ''node_modules'' [File ''x.js'' ''x''], File ''b.js'' ''b'']]\<rparr>"

definition git_first_checkout :: host where
  "git_first_checkout =
     \<lparr>base_dir = ''/co'',
      fs_root = [Dir ''co'' [Dir ''.git'' [File ''HEAD'' ''ref''], Dir ''node_modules'' [File ''x.js'' ''x''],
                             File ''b.js'' ''b'']]\<rparr>"

subsection \<open>list_files refines tree_files\<close>

lemma common_prefix_len_append: "common_prefix_len xs (xs @ ys) = length xs"
  by (induction xs) auto

lemma relpath_below:
  "components p = components start @ rel \<Longrightarrow> rel \<noteq> [] \<Longrightarrow> relpath p start = py_str_join ''/'' rel"
  by (simp add: relpath_def Let_def common_prefix_len_append)

lemma clean_below_Dir: "clean_below es \<Longrightarrow> Dir n cs \<in> set es \<Longrightarrow> clean_tree cs"
  by (induction es rule: clean_below.induct) (auto simp: clean_tree_def)

lemma mem_tree_files:
  "c \<in> set (tree_files es) \<longleftrightarrow>
     (\<exists>f x. c = [f] \<and> File f x \<in> set es \<and> splitext_ext f \<notin> set IGNORE_EXTENSIONS) \<or>
     (\<exists>n cs c'. c = n # c' \<and> Dir n cs \<in> set es \<and> n \<notin> set IGNORE_DIRS \<and> c' \<in> set (tree_files cs))"
proof (induction es arbitrary: c)
  case Nil
  then show ?case by simp
next
  case (Cons e es)
  then show ?case
    by (cases e) auto
qed

lemma walk_files_Cons:
  "walk_files b ((d, sub, fl) # ws) =
     (\<lambda>f. relpath (py_join (py_join b d) f) b) ` {f \<in> set fl. splitext_ext f \<notin> set IGNORE_EXTENSIONS} \<union>
     walk_files b ws"
  by (auto simp: walk_files_def)

lemma walk_files_concat: "walk_files b (concat wss) = (\<Union>ws \<in> set wss. walk_files b ws)"
  by (auto simp: walk_files_def)

lemma walk_files_mono: "set ws \<subseteq> set ws' \<Longrightarrow> walk_files b ws \<subseteq> walk_files b ws'"
  by (auto simp: walk_files_def)

lemma walk_refines_tree_files:
  assumes "prune = prune_ignored" and "wf_entries es" and "clean_tree es"
    and "startswith [slash] d" and "components d = components b @ rel"
  shows "walk_files b (walk prune d es) = (\<lambda>c. py_str_join ''/'' (rel @ c)) ` set (tree_files es)"
  using assms
proof (induction prune d es arbitrary: rel rule: walk.induct)
  case (1 prune d es)
  let ?ds = "filter (\<lambda>n. n \<notin> set IGNORE_DIRS) (dir_names es)"
  have pr: "prune (dir_names es) = ?ds"
    using "1.prems" distinct_dir_names by (simp add: clean_tree_def prune_ignored_clean)
  have unf: "walk prune d es =
      (d, ?ds, file_names es) #
      concat (map (\<lambda>n. case find_dir es n of None \<Rightarrow> [] | Some cs \<Rightarrow> walk prune (py_join d n) cs) ?ds)"
    by (simp add: walk.simps [of prune d es] pr Let_def)
  have file_rel: "relpath (py_join (py_join b d) f) b = py_str_join ''/'' (rel @ [f])"
    if "File f x \<in> set es" for f x
  proof -
    from wf_entries_File [OF "1.prems"(2) that] have "f \<noteq> []" "slash \<notin> set f" by auto
    then have "components (py_join d f) = components b @ rel @ [f]"
      using "1.prems"(5) by (simp add: components_py_join)
    then show ?thesis
      using "1.prems"(4) by (simp add: py_join_absolute relpath_below)
  qed
  have dir_walk: "walk_files b (case find_dir es n of None \<Rightarrow> [] | Some cs \<Rightarrow> walk prune (py_join d n) cs)
      = (\<lambda>c. py_str_join ''/'' (rel @ n # c)) ` set (tree_files cs)"
    if n: "n \<in> set ?ds" and dn: "Dir n cs \<in> set es" for n cs
  proof -
    from "1.prems"(2) dn have fd: "find_dir es n = Some cs"
      by (simp add: find_dir_wf)
    from wf_entries_Dir [OF "1.prems"(2) dn] have nn: "n \<noteq> []" "slash \<notin> set n" and wcs: "wf_entries cs"
      by auto
    have "clean_below es"
      using "1.prems"(3) by (simp add: clean_tree_def)
    then have ccs: "clean_tree cs"
      using dn by (rule clean_below_Dir)
    have "components (py_join d n) = components b @ (rel @ [n])"
      using "1.prems"(5) nn by (simp add: components_py_join)
    moreover have "startswith [slash] (py_join d n)"
      using "1.prems"(4) nn by (simp add: startswith_slash_py_join)
    ultimately have "walk_files b (walk prune (py_join d n) cs) =
        (\<lambda>c. py_str_join ''/'' ((rel @ [n]) @ c)) ` set (tree_files cs)"
      using "1.IH" [OF refl _ fd "1.prems"(1) wcs ccs] n pr by simp
    with fd show ?thesis
      by simp
  qed
  have ds_iff: "n \<in> set ?ds \<longleftrightarrow> (\<exists>cs. Dir n cs \<in> set es) \<and> n \<notin> set IGNORE_DIRS" for n
    by (auto simp: set_dir_names)
  show ?case
  proof (rule set_eqI)
    fix q
    show "q \<in> walk_files b (walk prune d es) \<longleftrightarrow> q \<in> (\<lambda>c. py_str_join ''/'' (rel @ c)) ` set (tree_files es)"
    proof
      assume "q \<in> walk_files b (walk prune d es)"
      then consider (is_file) f where "f \<in> set (file_names es)" "splitext_ext f \<notin> set IGNORE_EXTENSIONS"
          "q = relpath (py_join (py_join b d) f) b"
        | (in_dir) n where "n \<in> set ?ds"
          "q \<in> walk_files b (case find_dir es n of None \<Rightarrow> [] | Some cs \<Rightarrow> walk prune (py_join d n) cs)"
        unfolding unf walk_files_Cons walk_files_concat by auto
      then show "q \<in> (\<lambda>c. py_str_join ''/'' (rel @ c)) ` set (tree_files es)"
      proof cases
        case is_file
        then obtain x where fx: "File f x \<in> set es"
          by (auto simp: set_file_names)
        with is_file(2) have "[f] \<in> set (tree_files es)"
          using mem_tree_files [of "[f]" es] by blast
        moreover have "q = py_str_join ''/'' (rel @ [f])"
          using is_file(3) file_rel [OF fx] by simp
        ultimately show ?thesis
          by (rule rev_image_eqI)
      next
        case in_dir
        from in_dir(1) ds_iff obtain cs where dn: "Dir n cs \<in> set es"
          by blast
        from in_dir(2) dir_walk [OF in_dir(1) dn] obtain c' where c': "c' \<in> set (tree_files cs)"
          and q: "q = py_str_join ''/'' (rel @ n # c')"
          by auto
        from in_dir(1) ds_iff dn c' have "n # c' \<in> set (tree_files es)"
          using mem_tree_files [of "n # c'" es] by blast
        from this q show ?thesis
          by (rule rev_image_eqI)
      qed
    next
      assume "q \<in> (\<lambda>c. py_str_join ''/'' (rel @ c)) ` set (tree_files es)"
      then obtain c where q: "q = py_str_join ''/'' (rel @ c)" and c: "c \<in> set (tree_files es)"
        by auto
      from c consider (is_file) f x where "c = [f]" "File f x \<in> set es" "splitext_ext f \<notin> set IGNORE_EXTENSIONS"
        | (in_dir) n cs c' where "c = n # c'" "Dir n cs \<in> set es" "n \<notin> set IGNORE_DIRS" "c' \<in> set (tree_files cs)"
        using mem_tree_files [of c es] by blast
      then show "q \<in> walk_files b (walk prune d es)"
      proof cases
        case is_file
        then have "q = relpath (py_join (py_join b d) f) b"
          using q file_rel by simp
        with is_file show ?thesis
          unfolding unf walk_files_Cons by (auto simp: set_file_names)
      next
        case in_dir
        then have nds: "n \<in> set ?ds"
          using ds_iff by blast
        have "q \<in> walk_files b (case find_dir es n of None \<Rightarrow> [] | Some cs \<Rightarrow> walk prune (py_join d n) cs)"
          using dir_walk [OF nds in_dir(2)] in_dir q by auto
        with nds show ?thesis
          unfolding unf walk_files_Cons walk_files_concat by auto
      qed
    qed
  qed
qed

subsection \<open>The digest and the cache block\<close>

lemma digest_input_Inr:
  "digest_input sha h ps = Inr s \<Longrightarrow>
   \<exists>cs. length cs = length ps \<and>
        (\<forall>i < length ps. read_file (fs_root h) (py_join (base_dir h) (ps ! i)) = Some (cs ! i)) \<and>
        s = concat (map (\<lambda>(c, p). sha c @ CHR '' '' # p @ [newline]) (zip cs ps))"
proof (induction ps arbitrary: s)
  case Nil
  then show ?case by simp
next
  case (Cons p ps)
  then obtain c s' where rd: "read_file (fs_root h) (py_join (base_dir h) p) = Some c"
    and rest: "digest_input sha h ps = Inr s'" and s: "s = sha c @ CHR '' '' # p @ CHR ''\<newline>'' # s'"
    by (auto split: option.splits sum.splits)
  from Cons.IH [OF rest] obtain cs where "length cs = length ps"
    and "\<forall>i < length ps. read_file (fs_root h) (py_join (base_dir h) (ps ! i)) = Some (cs ! i)"
    and "s' = concat (map (\<lambda>(c, p). sha c @ CHR '' '' # p @ [newline]) (zip cs ps))"
    by blast
  with rd s show ?case
    by (intro exI [of _ "c # cs"]) (auto simp: newline_def nth_Cons split: nat.split)
qed

lemma digest_input_decode:
  assumes "digest_input sha h ps = Inr s"
    and "\<forall>c. CHR '' '' \<notin> set (sha c) \<and> newline \<notin> set (sha c)"
    and "\<forall>p \<in> set ps. newline \<notin> set p"
  shows "decode_digest_input s =
           map (\<lambda>p. (sha (the (read_file (fs_root h) (py_join (base_dir h) p))), p)) ps"
proof -
  from digest_input_Inr [OF assms(1)] obtain cs where len: "length cs = length ps"
    and rd: "\<forall>i < length ps. read_file (fs_root h) (py_join (base_dir h) (ps ! i)) = Some (cs ! i)"
    and s: "s = concat (map (\<lambda>(c, p). sha c @ CHR '' '' # p @ [newline]) (zip cs ps))"
    by blast
  let ?ls = "map (\<lambda>(c, p). sha c @ CHR '' '' # p) (zip cs ps)"
  have s': "s = concat (map (\<lambda>w. w @ [newline]) ?ls)"
    by (simp add: s comp_def case_prod_unfold)
  have nl: "\<forall>w \<in> set ?ls. newline \<notin> set w"
    using assms(2,3) by (auto dest: set_zip_rightD simp: newline_def)
  have "py_split newline s = ?ls @ [[]]"
    unfolding s' using nl by (rule py_split_terminated)
  then have "butlast (py_split newline s) = ?ls"
    by simp
  moreover have "map (\<lambda>(c, p). (sha c, p)) (zip cs ps) =
                 map (\<lambda>p. (sha (the (read_file (fs_root h) (py_join (base_dir h) p))), p)) ps"
    using len rd by (auto intro!: nth_equalityI)
  ultimately show ?thesis
    using assms(2) by (simp add: decode_digest_input_def takeWhile_field dropWhile_field comp_def case_prod_unfold)
qed
lemma build_cache_task_skip:
  "\<not> cache_requested (cache t) \<or> fast \<Longrightarrow> build_cache_task sha h repo fast t = Inr t"
  by (auto simp: build_cache_task_def)

lemma build_cache_task_Inr:
  assumes "build_cache_task sha h repo fast t = Inr t'" and "cache_requested (cache t)" and "\<not> fast"
  shows "\<exists>l data. label t = Some l \<and> digest_input sha h (sorted_list_of_set (cache_files h t)) = Inr data \<and>
           cache t' = Some (CacheSpec (repo @ ''.v2'') (map (\<lambda>c. if c = CHR '':'' then CHR ''-'' else c) l) [sha data]) \<and>
           map_of (opt_dict (attributes t')) ''cached_task'' \<noteq> None \<and>
           t'\<lparr>cache := cache t, attributes := attributes t\<rparr> = t"
  using assms
  by (auto simp: build_cache_task_def py_replace_single split: sum.splits option.splits)

lemma cache_name_no_colon:
  "CHR '':'' \<notin> set (map (\<lambda>c. if c = CHR '':'' then CHR ''-'' else c) l)"
  by auto

lemma build_cache_tasks_labels:
  "build_cache_tasks sha h repo fast ts = Inr ts' \<Longrightarrow> map label ts' = map label ts"
proof (induction ts arbitrary: ts')
  case Nil
  then show ?case by simp
next
  case (Cons t ts)
  then show ?case
    by (auto simp: build_cache_task_def split: sum.splits option.splits if_splits)
qed

lemma cache_files_no_directory:
  "map_of (opt_dict (extra t)) ''directory'' = None \<Longrightarrow>
   cache_files h t = list_files h (py_join (base_dir h) (base_dir h)) \<union> list_files h (py_join (base_dir h) ''taskcluster'') \<union>
     set (filter (\<lambda>p. path_exists (fs_root h) (py_join (base_dir h) p)) ADDITIONAL_FILES)"
  by (simp add: cache_files_def)

lemmas cache_eval =
  list_files_def walk_files_def os_walk_def components_def slash_def walk.simps prune_ignored_def
  IGNORE_DIRS_def prune_subdirs.simps py_join_def relpath_def splitext_ext_def IGNORE_EXTENSIONS_def
  ADDITIONAL_FILES_def path_exists_def read_file_def

subsection \<open>Properties of the cache key\<close>

text \<open>
  C18. The file enumerator meets its contract where the pruning loop works: on a
  well-formed tree whose listings never hold two ignored directory names side by side,
  \<open>list_files\<close> of a directory below \<open>BASE_DIR\<close> is exactly the set of paths of the
  files below it that are neither inside \<open>.git\<close> or \<open>node_modules\<close> nor
  \<open>.pyc\<close>/\<open>.swp\<close> files, relative to \<open>BASE_DIR\<close>.
\<close>

theorem list_files_refines:
  assumes "wf_entries (fs_root h)" and "lookup_dir (fs_root h) (components p) = Some es"
    and "clean_tree es" and "startswith [slash] p" and "components p = components (base_dir h) @ rel"
  shows "list_files h p = (\<lambda>c. py_str_join ''/'' (rel @ c)) ` set (tree_files es)"
proof -
  have "wf_entries es"
    using assms(1,2) by (rule lookup_dir_wf)
  with assms show ?thesis
    by (simp add: list_files_def os_walk_def walk_refines_tree_files)
qed

theorem list_files_refines_witness:
  "list_files clean_checkout ''/co'' = {''src/m.js'', ''b.js''}"
proof -
  have "list_files clean_checkout ''/co'' =
      (\<lambda>c. py_str_join ''/'' ([] @ c)) ` set (tree_files
        [Dir ''.git'' [File ''HEAD'' ''ref''], Dir ''src'' [File ''m.js'' ''m'', File ''m.pyc'' ''''],
         Dir ''node_modules'' [File ''x.js'' ''x''], File ''b.js'' ''b''])"
    by (rule list_files_refines)
       (simp_all add: clean_checkout_def components_def slash_def clean_tree_def no_adjacent_ignored_def
          IGNORE_DIRS_def)
  then show ?thesis
    by (auto simp: IGNORE_DIRS_def IGNORE_EXTENSIONS_def splitext_ext_def)
qed

text \<open>
  C19. Where the pruning loop fails, the cache covers what it should skip: when
  \<open>.git\<close> is listed right before \<open>node_modules\<close> in a walked directory, every
  file below \<open>node_modules\<close> (outside ignored directories and extensions) is in
  \<open>list_files\<close>, so the task's digest changes with installed dependencies.
\<close>

theorem list_files_node_modules_after_git:
  assumes "wf_entries (fs_root h)" and "lookup_dir (fs_root h) (components p) = Some es"
    and "dir_names es = xs @ ''.git'' # ''node_modules'' # ys" and "find_dir es ''node_modules'' = Some nm"
    and "clean_tree nm" and "startswith [slash] p" and "components p = components (base_dir h) @ rel"
  shows "(\<lambda>c. py_str_join ''/'' (rel @ ''node_modules'' # c)) ` set (tree_files nm) \<subseteq> list_files h p"
proof -
  have wes: "wf_entries es"
    using assms(1,2) by (rule lookup_dir_wf)
  have "''node_modules'' \<in> set (prune_ignored (dir_names es))"
    using distinct_dir_names [OF wes] assms(3) by (rule prune_ignored_after_git)
  then have "set (walk prune_ignored (py_join p ''node_modules'') nm) \<subseteq> set (walk prune_ignored p es)"
    using assms(4) by (subst (2) walk_Cons) force
  then have sub: "walk_files (base_dir h) (walk prune_ignored (py_join p ''node_modules'') nm) \<subseteq> list_files h p"
    using assms(2) by (simp add: list_files_def os_walk_def walk_files_mono)
  have "Dir ''node_modules'' nm \<in> set es"
    using wes assms(4) by (simp add: find_dir_wf)
  then have wnm: "wf_entries nm"
    using wes wf_entries_Dir by blast
  have "components (py_join p ''node_modules'') = components (base_dir h) @ rel @ [''node_modules'']"
    using assms(7) components_py_join [of "''node_modules''" p] by (simp add: slash_def)
  moreover have "startswith [slash] (py_join p ''node_modules'')"
    using assms(6) by (rule startswith_slash_py_join) (simp add: slash_def)
  ultimately have "walk_files (base_dir h) (walk prune_ignored (py_join p ''node_modules'') nm) =
      (\<lambda>c. py_str_join ''/'' ((rel @ [''node_modules'']) @ c)) ` set (tree_files nm)"
    using wnm assms(5) by (intro walk_refines_tree_files) simp_all
  with sub show ?thesis
    by simp
qed

theorem list_files_node_modules_after_git_witness:
  "''node_modules/x.js'' \<in> list_files git_first_checkout ''/co''"
proof -
  have "(\<lambda>c. py_str_join ''/'' ([] @ ''node_modules'' # c)) ` set (tree_files [File ''x.js'' ''x'']) \<subseteq>
      list_files git_first_checkout ''/co''"
    by (rule list_files_node_modules_after_git [of _ _
          "[Dir ''.git'' [File ''HEAD'' ''ref''], Dir ''node_modules'' [File ''x.js'' ''x''], File ''b.js'' ''b'']"
          "[]" "[]"])
       (simp_all add: git_first_checkout_def components_def slash_def clean_tree_def no_adjacent_ignored_def)
  then show ?thesis
    by (simp add: IGNORE_EXTENSIONS_def splitext_ext_def)
qed
text \<open>
  C20. The digest input is a faithful encoding of the sorted file list: when hashes
  contain no space or newline (hex digests) and paths no newline, reading the lines back
  gives each path with the hash of its content, in order.
\<close>

theorem digest_input_roundtrip:
  assumes "digest_input sha h ps = Inr s"
    and "\<forall>c. CHR '' '' \<notin> set (sha c) \<and> newline \<notin> set (sha c)"
    and "\<forall>p \<in> set ps. newline \<notin> set p"
  shows "decode_digest_input s =
           map (\<lambda>p. (sha (the (read_file (fs_root h) (py_join (base_dir h) p))), p)) ps"
  using assms by (rule digest_input_decode)

theorem digest_input_roundtrip_witness:
  "digest_input (\<lambda>c. ''0'') clean_checkout [''b.js''] = Inr ''0 b.js\<newline>'' \<and>
   decode_digest_input ''0 b.js\<newline>'' = [(''0'', ''b.js'')]"
proof -
  have d: "digest_input (\<lambda>c. ''0'') clean_checkout [''b.js''] = Inr ''0 b.js\<newline>''"
    by (simp add: clean_checkout_def py_join_def read_file_def components_def slash_def)
  have "decode_digest_input ''0 b.js\<newline>'' =
      map (\<lambda>p. ((\<lambda>c. ''0'') (the (read_file (fs_root clean_checkout) (py_join (base_dir clean_checkout) p))), p)) [''b.js'']"
    by (rule digest_input_roundtrip [OF d]) (simp_all add: newline_def)
  with d show ?thesis
    by simp
qed

text \<open>
  C21. A task that opts out (\<open>cache: false\<close>) or a run in fast mode is passed
  through unchanged: no digest is computed and no cache block is attached.
\<close>

theorem build_cache_task_opt_out:
  "\<not> cache_requested (cache t) \<or> fast \<Longrightarrow> build_cache_task sha h repo fast t = Inr t"
  by (rule build_cache_task_skip)

theorem build_cache_task_opt_out_witness:
  "build_cache_task (\<lambda>c. c) clean_checkout ''r'' False (empty_task\<lparr>cache := Some (CacheFlag False)\<rparr>) =
     Inr (empty_task\<lparr>cache := Some (CacheFlag False)\<rparr>)"
  by (rule build_cache_task_opt_out) simp

text \<open>
  C22. A cached task gets the cache block \<open>{type: <repo>.v2, name: <label with ':'
  replaced by '-'>, digest-data: [sha of the digest input]}\<close> and the attribute
  \<open>cached_task\<close>; nothing else of the task changes, and the name has no colon.
\<close>

theorem build_cache_task_attaches:
  assumes "build_cache_task sha h repo fast t = Inr t'" and "cache_requested (cache t)" and "\<not> fast"
  shows "\<exists>l data. label t = Some l \<and> digest_input sha h (sorted_list_of_set (cache_files h t)) = Inr data \<and>
           cache t' = Some (CacheSpec (repo @ ''.v2'') (map (\<lambda>c. if c = CHR '':'' then CHR ''-'' else c) l) [sha data]) \<and>
           CHR '':'' \<notin> set (map (\<lambda>c. if c = CHR '':'' then CHR ''-'' else c) l) \<and>
           map_of (opt_dict (attributes t')) ''cached_task'' \<noteq> None \<and>
           t'\<lparr>cache := cache t, attributes := attributes t\<rparr> = t"
  using build_cache_task_Inr [OF assms] by auto

theorem build_cache_task_attaches_witness:
  "\<exists>t'. build_cache_task (\<lambda>c. ''h'') \<lparr>base_dir = ''/co'', fs_root = [Dir ''co'' []]\<rparr> ''proxy'' False
      (empty_task\<lparr>label := Some ''build:x''\<rparr>) = Inr t' \<and>
    cache t' = Some (CacheSpec ''proxy.v2'' ''build-x'' [''h''])"
proof -
  let ?h = "\<lparr>base_dir = ''/co'', fs_root = [Dir ''co'' []]\<rparr>"
  let ?t = "empty_task\<lparr>label := Some ''build:x''\<rparr>"
  have files: "cache_files ?h ?t = {}"
    by (simp add: cache_files_no_directory empty_task_def cache_eval)
  then obtain t' where run: "build_cache_task (\<lambda>c. ''h'') ?h ''proxy'' False ?t = Inr t'"
    by (simp add: build_cache_task_def empty_task_def)
  from build_cache_task_attaches [OF run] files show ?thesis
    using run by (auto simp: empty_task_def)
qed

text \<open>
  The cache type comes from the remote URL with every \<open>.git\<close> deleted, not only
  the suffix: \<open>secure-proxy.git\<close> gives \<open>secure-proxy\<close>, but a repository named
  \<open>foo.gitlab-tools\<close> gets the type prefix \<open>foolab-tools\<close>.
\<close>

theorem repo_name_examples:
  "repo_name ''https://github.com/mozilla-extensions/secure-proxy.git\<newline>'' = ''secure-proxy'' \<and>
   repo_name ''git@github.com:org/foo.gitlab-tools.git\<newline>'' = ''foolab-tools''"
  by (simp add: repo_name_def py_rstrip_def py_whitespace_def slash_def)

end
