(* ===== verification/Traversal.thy ===== *)
theory Traversal
  imports Cache Manifest
begin

text \<open>
  What the shared directory walk visits: the directories of a tree that are reachable
  without entering \<open>.git\<close> or \<open>node_modules\<close> (\<open>tree_dirs\<close>, the walk's
  abstract contract, as \<open>Cache.tree_files\<close> is the file enumerator's); and, with
  the walk loop of \<open>get_manifest\<close>, that discovery finds every sub-project the walk
  reaches, and that a dependency under \<open>node_modules\<close> listed right after
  \<open>.git\<close> is reached too.
\<close>

fun tree_dirs :: "entry list \<Rightarrow> string list list" where
  "tree_dirs [] = []"
| "tree_dirs (File n c # es) = tree_dirs es"
| "tree_dirs (Dir n cs # es) =
     (if n \<in> set IGNORE_DIRS then [] else [n] # map (Cons n) (tree_dirs cs)) @ tree_dirs es"

subsection \<open>Lemmas\<close>

lemma mem_tree_dirs:
  "c \<in> set (tree_dirs es) \<longleftrightarrow>
     (\<exists>n cs. Dir n cs \<in> set es \<and> n \<notin> set IGNORE_DIRS \<and>
        (c = [n] \<or> (\<exists>c'. c = n # c' \<and> c' \<in> set (tree_dirs cs))))"
proof (induction es arbitrary: c)
  case Nil
  then show ?case by simp
next
  case (Cons e es)
  then show ?case
    by (cases e) auto
qed

lemma tree_dirs_not_Nil: "c \<in> set (tree_dirs es) \<Longrightarrow> c \<noteq> []"
  using mem_tree_dirs [of c es] by blast

lemma walk_reaches_tree_dirs:
  assumes "prune = prune_ignored" and "wf_entries es" and "clean_tree es" and "c \<in> set (tree_dirs es)"
  shows "\<exists>p sub cs. (p, sub, file_names cs) \<in> set (walk prune d es) \<and> components p = components d @ c \<and>
           lookup_dir es c = Some cs \<and> basename p = last c"
  using assms
proof (induction prune d es arbitrary: c rule: walk.induct)
  case (1 prune d es)
  let ?ds = "filter (\<lambda>n. n \<notin> set IGNORE_DIRS) (dir_names es)"
  have pr: "prune (dir_names es) = ?ds"
    using "1.prems" distinct_dir_names by (simp add: clean_tree_def prune_ignored_clean)
  obtain n cs where dn: "Dir n cs \<in> set es" and ni: "n \<notin> set IGNORE_DIRS"
    and c: "c = [n] \<or> (\<exists>c'. c = n # c' \<and> c' \<in> set (tree_dirs cs))"
    using "1.prems"(4) mem_tree_dirs [of c es] by blast
  have n: "n \<in> set (prune (dir_names es))"
    using dn ni pr by (auto simp: set_dir_names)
  have fd: "find_dir es n = Some cs"
    using "1.prems"(2) dn by (simp add: find_dir_wf)
  from wf_entries_Dir [OF "1.prems"(2) dn] have nn: "n \<noteq> []" "slash \<notin> set n" and wcs: "wf_entries cs"
    by auto
  have "clean_below es"
    using "1.prems"(3) by (simp add: clean_tree_def)
  then have ccs: "clean_tree cs"
    using dn by (rule clean_below_Dir)
  have sub: "set (walk prune (py_join d n) cs) \<subseteq> set (walk prune d es)"
    using n fd by (subst (2) walk_Cons) force
  have cn: "components (py_join d n) = components d @ [n]"
    using nn by (rule components_py_join)
  from c show ?case
  proof
    assume "c = [n]"
    moreover have "(py_join d n, prune (dir_names cs), file_names cs) \<in> set (walk prune (py_join d n) cs)"
      by (subst walk_Cons) simp
    moreover have "basename (py_join d n) = n"
      using nn by (rule basename_py_join)
    ultimately show ?thesis
      using sub cn fd by fastforce
  next
    assume "\<exists>c'. c = n # c' \<and> c' \<in> set (tree_dirs cs)"
    then obtain c' where c': "c = n # c'" "c' \<in> set (tree_dirs cs)"
      by blast
    from "1.IH" [OF refl n fd "1.prems"(1) wcs ccs c'(2)] obtain p s cs'
      where "(p, s, file_names cs') \<in> set (walk prune (py_join d n) cs)"
        and "components p = components (py_join d n) @ c'" and "lookup_dir cs c' = Some cs'"
        and "basename p = last c'"
      by blast
    moreover have "c' \<noteq> []"
      using c'(2) by (rule tree_dirs_not_Nil)
    ultimately show ?thesis
      using sub cn c'(1) fd by fastforce
  qed
qed

text \<open>
  C6. Where the pruning loop works (no two ignored names side by side in a
  listing), \<open>os.walk\<close> reaches every directory of a well-formed tree that lies below
  no \<open>.git\<close> or \<open>node_modules\<close>: for each such relative path it yields a
  triple for that directory.
\<close>
theorem walk_reaches_every_dir:
  assumes "wf_entries es" and "clean_tree es" and "c \<in> set (tree_dirs es)"
  shows "\<exists>p sub fl. (p, sub, fl) \<in> set (walk prune_ignored d es) \<and> components p = components d @ c"
  using walk_reaches_tree_dirs [OF refl assms] by blast

theorem walk_reaches_every_dir_witness:
  "wf_entries (fs_root clean_checkout) \<and> clean_tree (fs_root clean_checkout) \<and>
   [''co'', ''src''] \<in> set (tree_dirs (fs_root clean_checkout)) \<and>
   (\<exists>p sub fl. (p, sub, fl) \<in> set (walk prune_ignored ''/'' (fs_root clean_checkout)) \<and>
      components p = components ''/'' @ [''co'', ''src''])"
proof -
  have wf: "wf_entries (fs_root clean_checkout)"
    by (simp add: clean_checkout_def slash_def)
  have cl: "clean_tree (fs_root clean_checkout)"
    by (simp add: clean_checkout_def clean_tree_def no_adjacent_ignored_def IGNORE_DIRS_def)
  have c: "[''co'', ''src''] \<in> set (tree_dirs (fs_root clean_checkout))"
    by (simp add: clean_checkout_def IGNORE_DIRS_def)
  show ?thesis
    using wf cl c walk_reaches_every_dir [OF wf cl c, of "''/''"] by blast
qed

text \<open>
  C7. Discovery is complete where the pruning loop works: when \<open>get_manifest\<close>
  succeeds on a checkout whose tree below \<open>BASE_DIR\<close> is well-formed and never lists
  two ignored directories side by side, every sub-project (a directory holding a
  \<open>package.json\<close>) below no \<open>.git\<close> or \<open>node_modules\<close> has an entry in the
  manifest, named after its directory.
\<close>
theorem get_manifest_discovers_every_subproject:
  assumes "get_manifest json h = Inr ms"
    and "lookup_dir (fs_root h) (components (base_dir h)) = Some es"
    and "wf_entries es" and "clean_tree es" and "c \<in> set (tree_dirs es)"
    and "lookup_dir es c = Some cs" and "''package.json'' \<in> set (file_names cs)"
  shows "\<exists>x \<in> set ms. xpi_name x = last c"
proof -
  have coll: "collect_manifest json h (walk prune_ignored (base_dir h) es) = Inr ms"
    using get_manifest_Inr [OF assms(1)] assms(2) by (simp add: os_walk_def)
  obtain p sub cs' where t: "(p, sub, file_names cs') \<in> set (walk prune_ignored (base_dir h) es)"
      and l: "lookup_dir es c = Some cs'" and b: "basename p = last c"
    using walk_reaches_tree_dirs [OF refl assms(3-5), of "base_dir h"] by blast
  have "cs' = cs"
    using l assms(6) by simp
  then obtain m where "m \<in> set ms" and "manifest_entry json h p (file_names cs') = Inr (Some m)"
    using collect_manifest_complete [OF coll t] assms(7) by blast
  then show ?thesis
    using manifest_entry_name b by fastforce
qed

theorem get_manifest_discovers_every_subproject_witness:
  "get_manifest scripts_test_lint_build pkgA_checkout =
     Inr [\<lparr>xpi_name = ''pkgA'', directory = Some ''pkgA'', install_type = Yarn, tests = [''test'', ''lint'']\<rparr>] \<and>
   lookup_dir (fs_root pkgA_checkout) (components (base_dir pkgA_checkout)) =
     Some [Dir ''pkgA'' [File ''package.json'' ''{}'', File ''yarn.lock'' '''']] \<and>
   wf_entries [Dir ''pkgA'' [File ''package.json'' ''{}'', File ''yarn.lock'' '''']] \<and>
   clean_tree [Dir ''pkgA'' [File ''package.json'' ''{}'', File ''yarn.lock'' '''']] \<and>
   [''pkgA''] \<in> set (tree_dirs [Dir ''pkgA'' [File ''package.json'' ''{}'', File ''yarn.lock'' '''']]) \<and>
   lookup_dir [Dir ''pkgA'' [File ''package.json'' ''{}'', File ''yarn.lock'' '''']] [''pkgA''] =
     Some [File ''package.json'' ''{}'', File ''yarn.lock'' ''''] \<and>
   ''package.json'' \<in> set (file_names [File ''package.json'' ''{}'', File ''yarn.lock'' '''']) \<and>
   (\<exists>x \<in> set [\<lparr>xpi_name = ''pkgA'', directory = Some ''pkgA'', install_type = Yarn, tests = [''test'', ''lint'']\<rparr>].
      xpi_name x = last [''pkgA''])"
proof -
  have g: "get_manifest scripts_test_lint_build pkgA_checkout =
     Inr [\<lparr>xpi_name = ''pkgA'', directory = Some ''pkgA'', install_type = Yarn, tests = [''test'', ''lint'']\<rparr>]"
    by (simp add: pkgA_checkout_def manifest_eval)
  have l: "lookup_dir (fs_root pkgA_checkout) (components (base_dir pkgA_checkout)) =
     Some [Dir ''pkgA'' [File ''package.json'' ''{}'', File ''yarn.lock'' '''']]"
    by (simp add: pkgA_checkout_def components_def slash_def)
  have wf: "wf_entries [Dir ''pkgA'' [File ''package.json'' ''{}'', File ''yarn.lock'' '''']]"
    by (simp add: slash_def)
  have cl: "clean_tree [Dir ''pkgA'' [File ''package.json'' ''{}'', File ''yarn.lock'' '''']]"
    by (simp add: clean_tree_def no_adjacent_ignored_def)
  have c: "[''pkgA''] \<in> set (tree_dirs [Dir ''pkgA'' [File ''package.json'' ''{}'', File ''yarn.lock'' '''']])"
    by (simp add: IGNORE_DIRS_def)
  have lc: "lookup_dir [Dir ''pkgA'' [File ''package.json'' ''{}'', File ''yarn.lock'' '''']] [''pkgA''] =
     Some [File ''package.json'' ''{}'', File ''yarn.lock'' '''']"
    by simp
  have pj: "''package.json'' \<in> set (file_names [File ''package.json'' ''{}'', File ''yarn.lock'' ''''])"
    by simp
  show ?thesis
    using g l wf cl c lc pj get_manifest_discovers_every_subproject [OF g l wf cl c lc pj] by blast
qed

text \<open>
  C13. Where the pruning loop fails, discovery fails with it: when \<open>.git\<close> is listed
  right before \<open>node_modules\<close> in \<open>BASE_DIR\<close>, the walk enters
  \<open>node_modules\<close>, and a dependency below it whose \<open>package.json\<close> has
  neither lock file makes \<open>get_manifest\<close> raise.
\<close>

theorem get_manifest_node_modules_after_git:
  assumes "wf_entries (fs_root h)"
    and "lookup_dir (fs_root h) (components (base_dir h)) = Some es"
    and "dir_names es = xs @ ''.git'' # ''node_modules'' # ys"
    and "find_dir es ''node_modules'' = Some nm" and "clean_tree nm"
    and "lookup_dir nm c = Some dep" and "c \<in> set (tree_dirs nm)"
    and "''package.json'' \<in> set (file_names dep)"
    and "''yarn.lock'' \<notin> set (file_names dep)" and "''package-lock.json'' \<notin> set (file_names dep)"
  shows "isl (get_manifest json h)"
proof -
  have wes: "wf_entries es"
    using assms(1,2) by (rule lookup_dir_wf)
  have "''node_modules'' \<in> set (prune_ignored (dir_names es))"
    using distinct_dir_names [OF wes] assms(3) by (rule prune_ignored_after_git)
  then have "set (walk prune_ignored (py_join (base_dir h) ''node_modules'') nm) \<subseteq>
      set (walk prune_ignored (base_dir h) es)"
    using assms(4) by (subst (2) walk_Cons) force
  then have sub: "set (walk prune_ignored (py_join (base_dir h) ''node_modules'') nm) \<subseteq>
      set (os_walk prune_ignored (fs_root h) (base_dir h))"
    using assms(2) by (simp add: os_walk_def)
  have "Dir ''node_modules'' nm \<in> set es"
    using wes assms(4) by (simp add: find_dir_wf)
  then have wnm: "wf_entries nm"
    using wes wf_entries_Dir by blast
  obtain p s cs where "(p, s, file_names cs) \<in> set (walk prune_ignored (py_join (base_dir h) ''node_modules'') nm)"
    and "lookup_dir nm c = Some cs"
    using walk_reaches_tree_dirs [OF refl wnm assms(5,7)] by blast
  with sub assms(6) have "(p, s, file_names dep) \<in> set (os_walk prune_ignored (fs_root h) (base_dir h))"
    by auto
  moreover have "isl (manifest_entry json h p (file_names dep))"
    using assms(8-10) by (simp add: manifest_entry_missing_lock)
  ultimately show ?thesis
    by (rule get_manifest_error)
qed

theorem get_manifest_node_modules_after_git_witness:
  "isl (get_manifest scripts_test_lint_build node_modules_checkout)"
proof (rule get_manifest_node_modules_after_git [of _ "[Dir ''.git'' [], Dir ''node_modules'' [Dir ''dep'' [File ''package.json'' ''{}'']],
    File ''package.json'' ''{}'', File ''yarn.lock'' '''']" "[]" "[]"
    "[Dir ''dep'' [File ''package.json'' ''{}'']]" "[''dep'']" "[File ''package.json'' ''{}'']"])
  show "wf_entries (fs_root node_modules_checkout)"
    by (simp add: node_modules_checkout_def slash_def)
qed (simp_all add: node_modules_checkout_def components_def slash_def clean_tree_def IGNORE_DIRS_def no_adjacent_ignored_def)
end
