(* ===== verification/Transforms.thy ===== *)
theory Transforms
  imports Manifest Task
begin

text \<open>
  \<open>build.py\<close> and \<open>test.py\<close>: the transforms that fan a job template out over the
  manifest. Each copies the job (\<open>deepcopy\<close>: the copies share nothing, so each
  task is a value computed from the job), sets label, environment, working directory and
  \<open>extra\<close>, and chooses the artifact prefix in a \<open>try\<close> block that assigns to the
  undefined name \<open>checkout_config\<close>. Python evaluates the right-hand side of
  \<open>checkout_config[...] = config.graph_config["github_clone_secret"]\<close> first: a missing
  key raises the \<open>KeyError\<close> the block catches, a present key reaches the undefined
  name and raises a \<open>NameError\<close> the block does not catch. \<open>graph_config\<close> is
  the engine's configuration dict. \<open>test.py\<close> also counts the test tasks per
  sub-project in the module-level dict \<open>test_count\<close>, threaded through as state.
\<close>

type_synonym graph_config = "string dict"

definition artifact_prefix :: "graph_config \<Rightarrow> string result" where
  "artifact_prefix gc =
     (case map_of gc ''github_clone_secret'' of
        None \<Rightarrow> Inr ''public/build''
      | Some s \<Rightarrow> Inl (NameError ''checkout_config''))"

fun install_type_str :: "install_type \<Rightarrow> string" where
  "install_type_str Yarn = ''yarn''"
| "install_type_str Npm = ''npm''"

definition build_artifact :: "string \<Rightarrow> artifact" where
  "build_artifact p = \<lparr>artifact_type = ''directory'', artifact_name = p, artifact_path = ''/builds/worker/artifacts''\<rparr>"

subsection \<open>build.tasks_from_manifest\<close>

text \<open>
  One task for a job and a manifest entry. \<open>xpi_config.get("install-type")\<close> is
  always set by \<open>get_manifest\<close>, so the last \<open>if\<close> always holds.
\<close>

definition build_task :: "graph_config \<Rightarrow> task \<Rightarrow> xpi \<Rightarrow> task result" where
  "build_task gc job x =
     (let env = opt_dict (worker_env job);
          run0 = opt_dict (run job);
          (run1, extra1) =
            (case directory x of
               None \<Rightarrow> (run0, extra job)
             | Some d \<Rightarrow> (dict_set run0 ''cwd'' (''{checkout}/'' @ d),
                          Some (dict_set (opt_dict (extra job)) ''directory'' d)));
          env1 = dict_set env ''XPI_NAME'' (xpi_name x);
          extra2 = dict_set (opt_dict extra1) ''xpi-name'' (xpi_name x)
      in case artifact_prefix gc of
           Inl e \<Rightarrow> Inl e
         | Inr p \<Rightarrow>
             Inr (job\<lparr>label := Some (''build-'' @ xpi_name x),
                      worker_env := Some (dict_set (dict_set env1 ''ARTIFACT_PREFIX'' p)
                                            ''XPI_INSTALL_TYPE'' (install_type_str (install_type x))),
                      worker_artifacts := Some ((case worker_artifacts job of None \<Rightarrow> [] | Some a \<Rightarrow> a) @
                                                [build_artifact p]),
                      run := Some run1,
                      extra := Some extra2\<rparr>))"

text \<open>The generator: \<open>get_manifest()\<close> first, then every job against every entry.\<close>

definition tasks_from_manifest :: "graph_config \<Rightarrow> xpi list result \<Rightarrow> task list \<Rightarrow> task list result" where
  "tasks_from_manifest gc man jobs =
     (case man of
        Inl e \<Rightarrow> Inl e
      | Inr ms \<Rightarrow> sequence_results (concat (map (\<lambda>job. map (build_task gc job) ms) jobs)))"

subsection \<open>test.test_tasks_from_manifest\<close>

type_synonym test_counts = "nat dict"

definition count_test :: "test_counts \<Rightarrow> string \<Rightarrow> test_counts" where
  "count_test tc n = (let tc' = dict_setdefault tc n 0 in dict_set tc' n (Suc (the (map_of tc' n))))"

text \<open>
  One test task for a job, a manifest entry and a target. The counter is updated before
  anything can raise, as in the source. \<open>task["run"]\<close> and
  \<open>run["command"]\<close> raise \<open>KeyError\<close> when absent.
\<close>

definition test_task :: "graph_config \<Rightarrow> task \<Rightarrow> xpi \<Rightarrow> string \<Rightarrow> test_counts
    \<Rightarrow> task result \<times> test_counts" where
  "test_task gc job x target tc =
     (let tc' = count_test tc (xpi_name x);
          extra1 = dict_set (opt_dict (extra job)) ''xpi-name'' (xpi_name x);
          env = opt_dict (worker_env job)
      in (case run job of
            None \<Rightarrow> Inl (KeyError ''run'')
          | Some r \<Rightarrow>
              (let (r1, extra2) =
                     (case directory x of
                        Some d \<Rightarrow> (dict_set r ''cwd'' (''{checkout}/'' @ d), dict_set extra1 ''directory'' d)
                      | None \<Rightarrow> (dict_set r ''cwd'' ''{checkout}'', extra1))
               in case map_of r1 ''command'' of
                    None \<Rightarrow> Inl (KeyError ''command'')
                  | Some cmd \<Rightarrow>
                      (case py_format_target target cmd of
                         Inl e \<Rightarrow> Inl e
                       | Inr cmd' \<Rightarrow>
                           (case artifact_prefix gc of
                              Inl e \<Rightarrow> Inl e
                            | Inr p \<Rightarrow>
                                Inr (job\<lparr>extra := Some extra2,
                                         worker_env := Some (dict_set env ''ARTIFACT_PREFIX'' p),
                                         run := Some (dict_set r1 ''command'' cmd'),
                                         label := Some (''t-'' @ target @ ''-'' @ xpi_name x)\<rparr>)))),
          tc'))"

text \<open>
  The three nested loops, run in order with the counter as state: jobs, then manifest
  entries, then the entry's targets in sorted order. The first exception stops the
  generator; the counts made up to it stay.
\<close>

fun test_targets_loop :: "graph_config \<Rightarrow> task \<Rightarrow> xpi \<Rightarrow> string list \<Rightarrow> test_counts
    \<Rightarrow> task list result \<times> test_counts" where
  "test_targets_loop gc job x [] tc = (Inr [], tc)"
| "test_targets_loop gc job x (t # ts) tc =
     (case test_task gc job x t tc of
        (Inl e, tc') \<Rightarrow> (Inl e, tc')
      | (Inr task, tc') \<Rightarrow>
          (case test_targets_loop gc job x ts tc' of
             (Inl e, tc'') \<Rightarrow> (Inl e, tc'')
           | (Inr tasks, tc'') \<Rightarrow> (Inr (task # tasks), tc'')))"

fun test_manifest_loop :: "graph_config \<Rightarrow> task \<Rightarrow> xpi list \<Rightarrow> test_counts
    \<Rightarrow> task list result \<times> test_counts" where
  "test_manifest_loop gc job [] tc = (Inr [], tc)"
| "test_manifest_loop gc job (x # xs) tc =
     (case test_targets_loop gc job x (sort (tests x)) tc of
        (Inl e, tc') \<Rightarrow> (Inl e, tc')
      | (Inr ts1, tc') \<Rightarrow>
          (case test_manifest_loop gc job xs tc' of
             (Inl e, tc'') \<Rightarrow> (Inl e, tc'')
           | (Inr ts2, tc'') \<Rightarrow> (Inr (ts1 @ ts2), tc'')))"

fun test_jobs_loop :: "graph_config \<Rightarrow> xpi list \<Rightarrow> task list \<Rightarrow> test_counts
    \<Rightarrow> task list result \<times> test_counts" where
  "test_jobs_loop gc ms [] tc = (Inr [], tc)"
| "test_jobs_loop gc ms (j # js) tc =
     (case test_manifest_loop gc j ms tc of
        (Inl e, tc') \<Rightarrow> (Inl e, tc')
      | (Inr ts1, tc') \<Rightarrow>
          (case test_jobs_loop gc ms js tc' of
             (Inl e, tc'') \<Rightarrow> (Inl e, tc'')
           | (Inr ts2, tc'') \<Rightarrow> (Inr (ts1 @ ts2), tc'')))"

definition test_tasks_from_manifest :: "graph_config \<Rightarrow> xpi list result \<Rightarrow> task list \<Rightarrow> test_counts
    \<Rightarrow> task list result \<times> test_counts" where
  "test_tasks_from_manifest gc man jobs tc =
     (case man of Inl e \<Rightarrow> (Inl e, tc) | Inr ms \<Rightarrow> test_jobs_loop gc ms jobs tc)"

subsection \<open>Reading the counter, and example inputs\<close>

text \<open>\<open>test_count.get(name, 0)\<close>.\<close>

definition cnt :: "test_counts \<Rightarrow> string \<Rightarrow> nat" where
  "cnt tc n = (case map_of tc n of None \<Rightarrow> 0 | Some k \<Rightarrow> k)"

definition yarn_job :: task where
  "yarn_job = empty_task\<lparr>run := Some [(''command'', ''yarn {target}'')]\<rparr>"

definition three_targets :: xpi where
  "three_targets = \<lparr>xpi_name = ''pkgA'', directory = Some ''pkgA'', install_type = Yarn,
                    tests = [''test'', ''lint'', ''test:unit'']\<rparr>"

subsection \<open>Lemmas\<close>

lemma cnt_count_test [simp]: "cnt (count_test tc n) m = cnt tc m + (if m = n then 1 else 0)"
  by (auto simp: cnt_def count_test_def Let_def dict_setdefault_def split: option.splits)

lemma test_task_counts: "snd (test_task gc job x t tc) = count_test tc (xpi_name x)"
  by (simp add: test_task_def Let_def)

lemma test_task_Inr_label:
  "fst (test_task gc job x t tc) = Inr task \<Longrightarrow> label task = Some (''t-'' @ t @ ''-'' @ xpi_name x)"
  by (auto simp: test_task_def Let_def split: option.splits sum.splits prod.splits)

lemma test_targets_loop_Inr:
  "test_targets_loop gc job x ts tc = (Inr res, tc') \<Longrightarrow>
   map label res = map (\<lambda>t. Some (''t-'' @ t @ ''-'' @ xpi_name x)) ts \<and>
   cnt tc' m = cnt tc m + (if m = xpi_name x then length ts else 0)"
proof (induction ts arbitrary: tc res tc')
  case Nil
  then show ?case by simp
next
  case (Cons t ts)
  obtain r1 tc1 where tt: "test_task gc job x t tc = (r1, tc1)"
    by fastforce
  have tc1: "tc1 = count_test tc (xpi_name x)"
    using test_task_counts [of gc job x t tc] tt by simp
  from Cons.prems tt obtain task res' where r1: "r1 = Inr task"
    and rest: "test_targets_loop gc job x ts tc1 = (Inr res', tc')" and res: "res = task # res'"
    by (auto split: sum.splits prod.splits)
  from Cons.IH [OF rest] tc1 test_task_Inr_label [of gc job x t tc task] tt r1 res show ?case
    by auto
qed

lemma test_manifest_loop_Inr:
  "test_manifest_loop gc job xs tc = (Inr res, tc') \<Longrightarrow>
   map label res = concat (map (\<lambda>x. map (\<lambda>t. Some (''t-'' @ t @ ''-'' @ xpi_name x)) (sort (tests x))) xs) \<and>
   cnt tc' m = cnt tc m + sum_list (map (\<lambda>x. if xpi_name x = m then length (tests x) else 0) xs)"
proof (induction xs arbitrary: tc res tc')
  case Nil
  then show ?case by simp
next
  case (Cons x xs)
  from Cons.prems obtain ts1 tc1 ts2 where l1: "test_targets_loop gc job x (sort (tests x)) tc = (Inr ts1, tc1)"
    and l2: "test_manifest_loop gc job xs tc1 = (Inr ts2, tc')" and res: "res = ts1 @ ts2"
    by (auto split: sum.splits prod.splits)
  from test_targets_loop_Inr [OF l1, of m] Cons.IH [OF l2] res show ?case
    by auto
qed

lemma test_jobs_loop_Inr:
  "test_jobs_loop gc ms js tc = (Inr res, tc') \<Longrightarrow>
   map label res = concat (map (\<lambda>j. concat (map (\<lambda>x. map (\<lambda>t. Some (''t-'' @ t @ ''-'' @ xpi_name x)) (sort (tests x))) ms)) js) \<and>
   cnt tc' m = cnt tc m + length js * sum_list (map (\<lambda>x. if xpi_name x = m then length (tests x) else 0) ms)"
proof (induction js arbitrary: tc res tc')
  case Nil
  then show ?case by simp
next
  case (Cons j js)
  from Cons.prems obtain ts1 tc1 ts2 where l1: "test_manifest_loop gc j ms tc = (Inr ts1, tc1)"
    and l2: "test_jobs_loop gc ms js tc1 = (Inr ts2, tc')" and res: "res = ts1 @ ts2"
    by (auto split: sum.splits prod.splits)
  from test_manifest_loop_Inr [OF l1, of m] Cons.IH [OF l2] res show ?case
    by auto
qed


lemma test_label_inj:
  "CHR ''-'' \<notin> set n1 \<Longrightarrow> CHR ''-'' \<notin> set n2 \<Longrightarrow>
   ''t-'' @ t1 @ ''-'' @ n1 = ''t-'' @ t2 @ ''-'' @ n2 \<Longrightarrow> t1 = t2 \<and> n1 = n2"
proof -
  assume n1: "CHR ''-'' \<notin> set n1" and n2: "CHR ''-'' \<notin> set n2"
    and eq: "''t-'' @ t1 @ ''-'' @ n1 = ''t-'' @ t2 @ ''-'' @ n2"
  then have "rev n1 @ CHR ''-'' # rev t1 = rev n2 @ CHR ''-'' # rev t2"
    by (metis append.assoc append_Cons append_Nil rev_append rev_rev_ident rev_singleton_conv same_append_eq)
  then have "rev n1 = rev n2 \<and> rev t1 = rev t2"
    using n1 n2 by (intro append_sep_eq [of "CHR ''-''"]) simp_all
  then show ?thesis
    by simp
qed

lemma distinct_test_labels:
  "distinct (map xpi_name ms) \<Longrightarrow> \<forall>x \<in> set ms. distinct (tests x) \<and> CHR ''-'' \<notin> set (xpi_name x) \<Longrightarrow>
   distinct (concat (map (\<lambda>x. map (\<lambda>t. Some (''t-'' @ t @ ''-'' @ xpi_name x)) (sort (tests x))) ms))"
proof (induction ms)
  case Nil
  then show ?case by simp
next
  case (Cons x ms)
  have "inj_on (\<lambda>t. Some (''t-'' @ t @ ''-'' @ xpi_name x)) (set (sort (tests x)))"
    using Cons.prems(2) by (auto intro!: inj_onI dest: test_label_inj)
  then have dx: "distinct (map (\<lambda>t. Some (''t-'' @ t @ ''-'' @ xpi_name x)) (sort (tests x)))"
    using Cons.prems(2) by (simp add: distinct_map)
  have disj: "Some (''t-'' @ t @ ''-'' @ xpi_name x) \<noteq> Some (''t-'' @ t' @ ''-'' @ xpi_name y)"
    if "y \<in> set ms" for t t' y
  proof
    assume "Some (''t-'' @ t @ ''-'' @ xpi_name x) = Some (''t-'' @ t' @ ''-'' @ xpi_name y)"
    then have "xpi_name x = xpi_name y"
      using Cons.prems(2) that test_label_inj [of "xpi_name x" "xpi_name y" t t'] by auto
    with Cons.prems(1) that show False
      by auto
  qed
  show ?case
    using Cons dx disj by fastforce
qed

lemma build_task_secret:
  "map_of gc ''github_clone_secret'' \<noteq> None \<Longrightarrow> build_task gc job x = Inl (NameError ''checkout_config'')"
  by (auto simp: build_task_def artifact_prefix_def Let_def split: option.splits prod.splits)

lemma sequence_results_map_Inl:
  "(\<forall>y \<in> set ys. f y = Inl e) \<Longrightarrow> ys \<noteq> [] \<Longrightarrow> sequence_results (map f ys) = Inl e"
  by (cases ys) auto

lemma sequence_results_map_Inr:
  "(\<forall>y \<in> set ys. f y = Inr (g y)) \<Longrightarrow> sequence_results (map f ys) = Inr (map g ys)"
  by (induction ys) auto

lemma build_task_Inr:
  "build_task gc job x = Inr t \<Longrightarrow>
     label t = Some (''build-'' @ xpi_name x) \<and>
     map_of (the (worker_env t)) ''XPI_NAME'' = Some (xpi_name x) \<and>
     map_of (the (worker_env t)) ''ARTIFACT_PREFIX'' = Some ''public/build'' \<and>
     map_of (the (worker_env t)) ''XPI_INSTALL_TYPE'' = Some (install_type_str (install_type x)) \<and>
     the (worker_artifacts t) = (case worker_artifacts job of None \<Rightarrow> [] | Some a \<Rightarrow> a) @ [build_artifact ''public/build''] \<and>
     map_of (the (extra t)) ''xpi-name'' = Some (xpi_name x) \<and>
     map_of (the (run t)) ''cwd'' =
       (case directory x of None \<Rightarrow> map_of (opt_dict (run job)) ''cwd'' | Some d \<Rightarrow> Some (''{checkout}/'' @ d))"
  by (auto simp: build_task_def artifact_prefix_def Let_def split: option.splits prod.splits)

lemma build_task_prefix:
  "build_task gc job x = Inr t \<Longrightarrow>
     \<exists>p. artifact_prefix gc = Inr p \<and> map_of (the (worker_env t)) ''ARTIFACT_PREFIX'' = Some p \<and>
       last (the (worker_artifacts t)) = build_artifact p"
  by (auto simp: build_task_def Let_def split: sum.splits prod.splits)

lemma build_task_total:
  "map_of gc ''github_clone_secret'' = None \<Longrightarrow> build_task gc job x = Inr (projr (build_task gc job x))"
  by (simp add: build_task_def artifact_prefix_def Let_def split: option.splits prod.splits)

lemma tasks_from_manifest_Inr:
  assumes "map_of gc ''github_clone_secret'' = None"
  shows "\<exists>ts. tasks_from_manifest gc (Inr ms) jobs = Inr ts \<and>
           map label ts = concat (map (\<lambda>j. map (\<lambda>x. Some (''build-'' @ xpi_name x)) ms) jobs)"
proof -
  let ?ys = "concat (map (\<lambda>job. map (\<lambda>x. (job, x)) ms) jobs)"
  have eq: "concat (map (\<lambda>job. map (build_task gc job) ms) jobs) = map (\<lambda>(j, x). build_task gc j x) ?ys"
    by (simp add: map_concat comp_def)
  have "sequence_results (map (\<lambda>(j, x). build_task gc j x) ?ys) =
        Inr (map (\<lambda>(j, x). projr (build_task gc j x)) ?ys)"
    using build_task_total [OF assms] by (intro sequence_results_map_Inr) auto
  moreover have "map label (map (\<lambda>(j, x). projr (build_task gc j x)) ?ys) =
      concat (map (\<lambda>j. map (\<lambda>x. Some (''build-'' @ xpi_name x)) ms) jobs)"
    using build_task_total [OF assms] build_task_Inr by (simp add: map_concat comp_def)
  ultimately show ?thesis
    by (simp add: tasks_from_manifest_def eq)
qed

lemma three_targets_run:
  "\<exists>ts tc'. test_tasks_from_manifest [] (Inr [three_targets]) [yarn_job] [] = (Inr ts, tc')"
  by (simp add: test_tasks_from_manifest_def three_targets_def yarn_job_def test_task_def count_test_def
      artifact_prefix_def format_field_def empty_task_def dict_setdefault_def)

subsection \<open>Properties of the build and test expanders\<close>

text \<open>
  C23. Without \<open>github_clone_secret\<close> the build transform succeeds and fans out: one
  task per job and manifest entry, in that order, labelled \<open>build-<name>\<close>.
\<close>

theorem tasks_from_manifest_fanout:
  "map_of gc ''github_clone_secret'' = None \<Longrightarrow>
   \<exists>ts. tasks_from_manifest gc (Inr ms) jobs = Inr ts \<and>
        map label ts = concat (map (\<lambda>j. map (\<lambda>x. Some (''build-'' @ xpi_name x)) ms) jobs)"
  by (rule tasks_from_manifest_Inr)

theorem tasks_from_manifest_fanout_witness:
  "\<exists>ts. tasks_from_manifest [] (Inr [three_targets]) [yarn_job, empty_task] = Inr ts \<and>
        map label ts = [Some ''build-pkgA'', Some ''build-pkgA'']"
  using tasks_from_manifest_fanout [of "[]" "[three_targets]" "[yarn_job, empty_task]"]
  by (simp add: three_targets_def)

text \<open>
  C24. Every build task carries the sub-project's name, install type and the artifact
  prefix in its environment, appends one directory artifact at that prefix, runs in the
  sub-project's directory, and the only prefix the transform ever sets is
  \<open>public/build\<close>.
\<close>

theorem build_task_fields:
  "build_task gc job x = Inr t \<Longrightarrow>
     label t = Some (''build-'' @ xpi_name x) \<and>
     map_of (the (worker_env t)) ''XPI_NAME'' = Some (xpi_name x) \<and>
     map_of (the (worker_env t)) ''ARTIFACT_PREFIX'' = Some ''public/build'' \<and>
     map_of (the (worker_env t)) ''XPI_INSTALL_TYPE'' = Some (install_type_str (install_type x)) \<and>
     the (worker_artifacts t) = (case worker_artifacts job of None \<Rightarrow> [] | Some a \<Rightarrow> a) @ [build_artifact ''public/build''] \<and>
     map_of (the (extra t)) ''xpi-name'' = Some (xpi_name x) \<and>
     map_of (the (run t)) ''cwd'' =
       (case directory x of None \<Rightarrow> map_of (opt_dict (run job)) ''cwd'' | Some d \<Rightarrow> Some (''{checkout}/'' @ d))"
  by (rule build_task_Inr)

theorem build_task_fields_witness:
  "map_of (the (worker_env (projr (build_task [] yarn_job three_targets)))) ''XPI_INSTALL_TYPE'' = Some ''yarn'' \<and>
   map_of (the (run (projr (build_task [] yarn_job three_targets)))) ''cwd'' = Some ''{checkout}/pkgA''"
proof -
  have eq: "build_task [] yarn_job three_targets = Inr (projr (build_task [] yarn_job three_targets))"
    by (rule build_task_total) simp
  from build_task_fields [OF eq] show ?thesis
    by (simp add: three_targets_def)
qed

text \<open>
  C25. With \<open>github_clone_secret\<close> configured, the build transform does not fall back
  to the public prefix: the assignment to the undefined \<open>checkout_config\<close> raises
  \<open>NameError\<close>, which \<open>except KeyError\<close> does not catch, and the whole transform
  fails.
\<close>

theorem tasks_from_manifest_secret_raises:
  assumes "map_of gc ''github_clone_secret'' \<noteq> None" and "ms \<noteq> []" and "jobs \<noteq> []"
  shows "tasks_from_manifest gc (Inr ms) jobs = Inl (NameError ''checkout_config'')"
proof -
  let ?ys = "concat (map (\<lambda>job. map (\<lambda>x. (job, x)) ms) jobs)"
  have eq: "concat (map (\<lambda>job. map (build_task gc job) ms) jobs) = map (\<lambda>(j, x). build_task gc j x) ?ys"
    by (simp add: map_concat comp_def)
  have "?ys \<noteq> []"
    using assms(2,3) by (cases jobs) auto
  then have "sequence_results (map (\<lambda>(j, x). build_task gc j x) ?ys) = Inl (NameError ''checkout_config'')"
    using build_task_secret [OF assms(1)] by (intro sequence_results_map_Inl) auto
  then show ?thesis
    by (simp add: tasks_from_manifest_def eq)
qed

theorem tasks_from_manifest_secret_raises_witness:
  "tasks_from_manifest [(''github_clone_secret'', ''deploy-key'')] (Inr [three_targets]) [yarn_job] =
     Inl (NameError ''checkout_config'')"
  by (rule tasks_from_manifest_secret_raises) simp_all

text \<open>
  C26. A successful test transform yields, for each job, each manifest entry and each of
  its targets in sorted order, one task labelled \<open>t-<target>-<name>\<close>; and
  \<open>test_count\<close> grows for every name by the number of jobs times the number of
  targets of the entries with that name.
\<close>

theorem test_tasks_labels_counts:
  "test_tasks_from_manifest gc (Inr ms) jobs tc = (Inr ts, tc') \<Longrightarrow>
   map label ts =
     concat (map (\<lambda>j. concat (map (\<lambda>x. map (\<lambda>t. Some (''t-'' @ t @ ''-'' @ xpi_name x)) (sort (tests x))) ms)) jobs) \<and>
   cnt tc' n = cnt tc n + length jobs * sum_list (map (\<lambda>x. if xpi_name x = n then length (tests x) else 0) ms)"
  by (simp add: test_tasks_from_manifest_def test_jobs_loop_Inr)

theorem test_tasks_labels_counts_witness:
  "\<exists>ts tc'. test_tasks_from_manifest [] (Inr [three_targets]) [yarn_job] [] = (Inr ts, tc') \<and>
     map label ts = [Some ''t-lint-pkgA'', Some ''t-test-pkgA'', Some ''t-test:unit-pkgA''] \<and>
     cnt tc' ''pkgA'' = 3"
proof -
  obtain ts tc' where run: "test_tasks_from_manifest [] (Inr [three_targets]) [yarn_job] [] = (Inr ts, tc')"
    using three_targets_run by blast
  from test_tasks_labels_counts [OF run, of "''pkgA''"] run show ?thesis
    by (simp add: three_targets_def cnt_def)
qed

text \<open>
  The specification's fan-out scenario: one job \<open>yarn {target}\<close> over one
  sub-project with the three targets \<open>test\<close>, \<open>lint\<close>, \<open>test:unit\<close> gives
  exactly three tasks, with distinct labels and the target substituted into each command.
\<close>

theorem test_tasks_three_targets:
  "\<exists>ts tc'. test_tasks_from_manifest [] (Inr [three_targets]) [yarn_job] [] = (Inr ts, tc') \<and>
     length ts = 3 \<and> distinct (map label ts) \<and>
     map (\<lambda>t. map_of (the (run t)) ''command'') ts = [Some ''yarn lint'', Some ''yarn test'', Some ''yarn test:unit'']"
  by (simp add: test_tasks_from_manifest_def three_targets_def yarn_job_def test_task_def count_test_def
      artifact_prefix_def format_field_def empty_task_def dict_setdefault_def)

text \<open>
  C27. On a manifest that \<open>check_manifest\<close> accepts, a test job gives every test
  task its own label as long as no sub-project name contains \<open>-\<close> (and no target is
  listed twice): \<open>t-<target>-<name>\<close> is then read back uniquely from its last \<open>-\<close>.
\<close>

theorem test_task_labels_distinct:
  assumes "test_tasks_from_manifest gc (Inr ms) [job] tc = (Inr ts, tc')"
    and "check_manifest ms = []"
    and "\<forall>x \<in> set ms. distinct (tests x) \<and> CHR ''-'' \<notin> set (xpi_name x)"
  shows "distinct (map label ts)"
proof -
  have eq: "map label ts =
      concat (map (\<lambda>x. map (\<lambda>t. Some (''t-'' @ t @ ''-'' @ xpi_name x)) (sort (tests x))) ms)"
    using test_jobs_loop_Inr [of gc ms "[job]" tc ts tc'] assms(1) by (simp add: test_tasks_from_manifest_def)
  moreover have "distinct (map xpi_name ms)"
    using assms(2) by (simp add: check_manifest_Nil_iff)
  then have "distinct (concat (map (\<lambda>x. map (\<lambda>t. Some (''t-'' @ t @ ''-'' @ xpi_name x)) (sort (tests x))) ms))"
    using assms(3) by (rule distinct_test_labels)
  with eq show ?thesis
    by simp
qed

theorem test_task_labels_distinct_witness:
  "\<exists>ts tc'. test_tasks_from_manifest [] (Inr [three_targets]) [yarn_job] [] = (Inr ts, tc') \<and>
     distinct (map label ts)"
proof -
  obtain ts tc' where run: "test_tasks_from_manifest [] (Inr [three_targets]) [yarn_job] [] = (Inr ts, tc')"
    using three_targets_run by blast
  have ok: "check_manifest [three_targets] = []"
    by (simp add: three_targets_def check_manifest_def illegal_test_name_def test_name_char_ok_def dir_or_dot_def)
  have "\<forall>x \<in> set [three_targets]. distinct (tests x) \<and> CHR ''-'' \<notin> set (xpi_name x)"
    by (simp add: three_targets_def)
  with test_task_labels_distinct [OF run ok] run show ?thesis
    by blast
qed
end
