(* ===== verification/KeyedBy.thy ===== *)
theory KeyedBy
  imports Prelude
begin

text \<open>
  \<open>taskgraph.util.schema.resolve_keyed_by\<close> and
  \<open>taskgraph.util.keyed_by.evaluate_keyed_by\<close>, which \<open>signing.py\<close> calls on
  \<open>worker-type\<close> and \<open>worker.signing-type\<close>. They belong to the taskgraph library,
  not to this repository, and are modelled from their documented behaviour. A
  configuration value is a string or a dict; a dict with the single key
  \<open>by-<attribute>\<close> selects one of its alternatives by the value of that attribute.
  The library's \<open>while True\<close> loop is \<open>evaluate_keyed_by\<close> with fuel, \<open>None\<close>
  when the fuel runs out; the nesting depth of the value bounds the iterations.
  \<open>keymatch\<close> tries the exact key, then the key as a regular expression, then
  \<open>default\<close>; keys are matched literally here, so a key that is a pattern
  other than its own text is not modelled.
\<close>

datatype keyed = KStr string | KDict "(string \<times> keyed) list"

primrec keyed_depth :: "keyed \<Rightarrow> nat" where
  "keyed_depth (KStr s) = 0"
| "keyed_depth (KDict kvs) = Suc (fold max (map snd (map (map_prod id keyed_depth) kvs)) 0)"

definition keymatch :: "(string \<times> keyed) list \<Rightarrow> string \<Rightarrow> keyed list" where
  "keymatch alts target =
     (case map_of alts target of
        Some v \<Rightarrow> [v]
      | None \<Rightarrow> (case map_of alts ''default'' of Some v \<Rightarrow> [v] | None \<Rightarrow> []))"

definition py_repr_str :: "string \<Rightarrow> string" where
  "py_repr_str s = CHR 0x27 # s @ [CHR 0x27]"

text \<open>
  \<open>isinstance(value, dict) and len(value) == 1\<close> with a key starting with
  \<open>by-\<close>: the shape the loop keeps unfolding.
\<close>

fun is_keyed_by :: "keyed \<Rightarrow> bool" where
  "is_keyed_by (KDict [(k, v)]) = startswith ''by-'' k"
| "is_keyed_by _ = False"

text \<open>
  The \<open>while True\<close> loop of \<open>evaluate_keyed_by(value, item_name, attributes)\<close>,
  one iteration per unit of fuel. \<open>attributes.get(keyed_by)\<close> is the function
  \<open>attributes\<close>; \<open>len(alternatives) == 1 and "default" in alternatives\<close> raises;
  a missing attribute falls back to \<open>default\<close>; otherwise \<open>keymatch\<close> decides.
  Alternatives that are not a dict make the library fail on string indexing; that
  branch is not modelled.
\<close>

fun evaluate_keyed_by :: "nat \<Rightarrow> string \<Rightarrow> (string \<Rightarrow> string option) \<Rightarrow> keyed \<Rightarrow> keyed result option" where
  "evaluate_keyed_by 0 item_name attributes value = None"
| "evaluate_keyed_by (Suc n) item_name attributes (KDict [(k, KDict alternatives)]) =
     (if startswith ''by-'' k then
        (let keyed_by = drop 3 k in
         if length alternatives = 1 \<and> map_of alternatives ''default'' \<noteq> None then
           Some (Inl (Exception (''Keyed-by '' @ py_repr_str keyed_by @
             '' unnecessary with only value 'default' found, when determining item '' @ item_name)))
         else (case attributes keyed_by of
                 None \<Rightarrow>
                   (case map_of alternatives ''default'' of
                      Some v \<Rightarrow> evaluate_keyed_by n item_name attributes v
                    | None \<Rightarrow> Some (Inl (Exception (''No attribute '' @ keyed_by @
                        '' and no value for 'default' found while determining item '' @ item_name))))
               | Some key \<Rightarrow>
                   (case keymatch alternatives key of
                      [] \<Rightarrow> Some (Inl (Exception (''No '' @ keyed_by @ '' matching '' @ py_repr_str key @
                              '' nor 'default' found while determining item '' @ item_name)))
                    | [v] \<Rightarrow> evaluate_keyed_by n item_name attributes v
                    | _ \<Rightarrow> Some (Inl (Exception (''Multiple matching values for '' @ keyed_by @ '' '' @
                              py_repr_str key @ '' found while determining item '' @ item_name))))))
      else Some (Inr (KDict [(k, KDict alternatives)])))"
| "evaluate_keyed_by (Suc n) item_name attributes (KDict [(k, KStr s)]) =
     (if startswith ''by-'' k then Some (Inl (Unmodelled ''keyed-by alternatives that are not a dict''))
      else Some (Inr (KDict [(k, KStr s)])))"
| "evaluate_keyed_by (Suc n) item_name attributes value = Some (Inr value)"

text \<open>The loop run with enough fuel: one iteration more than the nesting depth.\<close>

definition resolve_keyed_value :: "string \<Rightarrow> (string \<Rightarrow> string option) \<Rightarrow> keyed \<Rightarrow> keyed result" where
  "resolve_keyed_value item_name attributes v =
     (case evaluate_keyed_by (Suc (keyed_depth v)) item_name attributes v of
        Some r \<Rightarrow> r
      | None \<Rightarrow> Inl (Unmodelled ''fuel''))"

text \<open>
  \<open>resolve_keyed_by(item, field, item_name, **extra_values)\<close> on a field that is
  present (\<open>Some\<close>) or absent (\<open>None\<close>, left alone), with the item name the library
  builds for its messages.
\<close>

definition resolve_keyed_by :: "string \<Rightarrow> string \<Rightarrow> (string \<Rightarrow> string option) \<Rightarrow> keyed option \<Rightarrow> keyed option result" where
  "resolve_keyed_by field item_name attributes fv =
     (case fv of
        None \<Rightarrow> Inr None
      | Some v \<Rightarrow>
          (case resolve_keyed_value (''`'' @ field @ ''` in `'' @ item_name @ ''`'') attributes v of
             Inl e \<Rightarrow> Inl e
           | Inr r \<Rightarrow> Inr (Some r)))"

text \<open>A worker type selected by level, as the signing kinds configure it.\<close>

definition level_worker_type :: keyed where
  "level_worker_type =
     KDict [(''by-level'', KDict [(''3'', KStr ''linux-signing''), (''default'', KStr ''linux-depsigning'')])]"

subsection \<open>Properties\<close>

lemma fold_max_ge_start: "(a::nat) \<le> fold max xs a"
  by (metis Max.set_eq_fold Max_ge finite_set list.set_intros(1))

lemma fold_max_ge_mem: "x \<in> set xs \<Longrightarrow> (x::nat) \<le> fold max xs a"
  by (metis Max.set_eq_fold Max_ge finite_set list.set_intros(2))

lemma keyed_depth_alt:
  "map_of alts k = Some v \<Longrightarrow> keyed_depth v < keyed_depth (KDict alts)"
proof -
  assume "map_of alts k = Some v"
  then have "(k, v) \<in> set alts"
    by (rule map_of_SomeD)
  then have "keyed_depth v \<in> set (map snd (map (map_prod id keyed_depth) alts))"
    by (force simp: image_iff)
  then show ?thesis
    by (simp add: fold_max_ge_mem le_imp_less_Suc)
qed

lemma keyed_depth_by:
  "map_of alts k = Some v \<Longrightarrow> Suc (keyed_depth v) < keyed_depth (KDict [(b, KDict alts)])"
  using keyed_depth_alt [of alts k v] by simp

lemma keymatch_alt: "keymatch alts key = [v] \<Longrightarrow> \<exists>k. map_of alts k = Some v"
  by (auto simp: keymatch_def split: option.splits)

lemma evaluate_keyed_by_fuel:
  "keyed_depth v < n \<Longrightarrow> keyed_depth v < m \<Longrightarrow>
   evaluate_keyed_by n i a v = evaluate_keyed_by m i a v \<and> evaluate_keyed_by n i a v \<noteq> None"
proof (induction n i a v arbitrary: m rule: evaluate_keyed_by.induct)
  case (2 n i a k alts)
  obtain m' where m: "m = Suc m'"
    using "2.prems" by (cases m) auto
  have d: "keyed_depth v < n \<and> keyed_depth v < m'" if "map_of alts kk = Some v" for kk v
    using keyed_depth_by [OF that, of k] "2.prems" m by simp
  have d': "keyed_depth v < n \<and> keyed_depth v < m'" if "keymatch alts key = [v]" for key v
    using keymatch_alt [OF that] d by blast
  show ?case
    unfolding m
  proof (cases "startswith ''by-'' k")
    case True
    then show "evaluate_keyed_by (Suc n) i a (KDict [(k, KDict alts)]) = evaluate_keyed_by (Suc m') i a (KDict [(k, KDict alts)]) \<and>
        evaluate_keyed_by (Suc n) i a (KDict [(k, KDict alts)]) \<noteq> None"
      using "2.IH" d d' by (auto simp: Let_def split: option.splits list.splits) (metis d')+
  qed simp
qed (auto elim!: Suc_lessE dest!: gr0_implies_Suc)

lemma evaluate_keyed_by_enough:
  "keyed_depth v < n \<Longrightarrow> evaluate_keyed_by n i a v = Some (resolve_keyed_value i a v)"
  using evaluate_keyed_by_fuel [of v n "Suc (keyed_depth v)" i a]
  by (cases "evaluate_keyed_by (Suc (keyed_depth v)) i a v") (auto simp: resolve_keyed_value_def)

lemma evaluate_keyed_by_plain:
  "evaluate_keyed_by n i a v = Some (Inr r) \<Longrightarrow> \<not> is_keyed_by r"
  by (induction n i a v rule: evaluate_keyed_by.induct)
     (auto simp: Let_def split: if_splits option.splits list.splits)

lemma resolve_keyed_value_KStr [simp]: "resolve_keyed_value i a (KStr s) = Inr (KStr s)"
  by (simp add: resolve_keyed_value_def)

lemma resolve_keyed_value_by_key:
  assumes "startswith ''by-'' k"
  shows "resolve_keyed_value i a (KDict [(k, KDict alts)]) =
     (if length alts = 1 \<and> map_of alts ''default'' \<noteq> None then
        Inl (Exception (''Keyed-by '' @ py_repr_str (drop 3 k) @
          '' unnecessary with only value 'default' found, when determining item '' @ i))
      else (case a (drop 3 k) of
              None \<Rightarrow> (case map_of alts ''default'' of
                         Some v \<Rightarrow> resolve_keyed_value i a v
                       | None \<Rightarrow> Inl (Exception (''No attribute '' @ drop 3 k @
                           '' and no value for 'default' found while determining item '' @ i)))
            | Some key \<Rightarrow> (case map_of alts key of
                  Some v \<Rightarrow> resolve_keyed_value i a v
                | None \<Rightarrow> (case map_of alts ''default'' of
                    Some v \<Rightarrow> resolve_keyed_value i a v
                  | None \<Rightarrow> Inl (Exception (''No '' @ drop 3 k @ '' matching '' @ py_repr_str key @
                      '' nor 'default' found while determining item '' @ i))))))"
proof -
  let ?v = "KDict [(k, KDict alts)]"
  have e: "evaluate_keyed_by (keyed_depth ?v) i a v = Some (resolve_keyed_value i a v)"
    if "map_of alts kk = Some v" for kk v
    using keyed_depth_by [OF that] by (intro evaluate_keyed_by_enough) simp
  show ?thesis
    unfolding resolve_keyed_value_def [of i a ?v]
    using assms by (simp del: keyed_depth.simps add: Let_def keymatch_def e split: option.splits)
qed

lemma not_only_default:
  "map_of alts key = Some v \<Longrightarrow> key \<noteq> ''default'' \<Longrightarrow>
   (length alts = 1 \<and> map_of alts ''default'' \<noteq> None) = False"
  by (cases alts) (auto split: if_splits)

lemma resolve_keyed_value_by:
  "resolve_keyed_value i a (KDict [(''by-'' @ b, KDict alts)]) =
     (if length alts = 1 \<and> map_of alts ''default'' \<noteq> None then
        Inl (Exception (''Keyed-by '' @ py_repr_str b @
          '' unnecessary with only value 'default' found, when determining item '' @ i))
      else (case a b of
              None \<Rightarrow> (case map_of alts ''default'' of
                         Some v \<Rightarrow> resolve_keyed_value i a v
                       | None \<Rightarrow> Inl (Exception (''No attribute '' @ b @
                           '' and no value for 'default' found while determining item '' @ i)))
            | Some key \<Rightarrow> (case map_of alts key of
                  Some v \<Rightarrow> resolve_keyed_value i a v
                | None \<Rightarrow> (case map_of alts ''default'' of
                    Some v \<Rightarrow> resolve_keyed_value i a v
                  | None \<Rightarrow> Inl (Exception (''No '' @ b @ '' matching '' @ py_repr_str key @
                      '' nor 'default' found while determining item '' @ i))))))"
proof -
  have d: "drop 3 (''by-'' @ b) = b"
    by simp
  show ?thesis
    using resolve_keyed_value_by_key [of "''by-'' @ b" i a alts, OF startswith_append] unfolding d .
qed

lemma resolve_by_keymatch:
  assumes "\<not> (length alts = 1 \<and> map_of alts ''default'' \<noteq> None)"
    and "attributes b = Some key" and "keymatch alts key = [v]"
  shows "resolve_keyed_value item_name attributes (KDict [(''by-'' @ b, KDict alts)]) =
         resolve_keyed_value item_name attributes v"
  using assms unfolding resolve_keyed_value_by keymatch_def
  by (auto split: option.splits)

text \<open>
  C35. The \<open>while True\<close> loop of \<open>evaluate_keyed_by\<close> returns within one iteration more than the nesting depth of the value, and more fuel does not change what it returns.
\<close>
theorem evaluate_keyed_by_returns:
  "keyed_depth v < n \<Longrightarrow>
   (\<exists>r. evaluate_keyed_by n item_name attributes v = Some r) \<and>
   evaluate_keyed_by n item_name attributes v = evaluate_keyed_by (Suc (keyed_depth v)) item_name attributes v"
  using evaluate_keyed_by_fuel [of v n "Suc (keyed_depth v)" item_name attributes]
  by (cases "evaluate_keyed_by (Suc (keyed_depth v)) item_name attributes v") auto

theorem evaluate_keyed_by_returns_witness:
  "(\<exists>r. evaluate_keyed_by 5 ''x'' (\<lambda>k. Some ''3'') level_worker_type = Some r) \<and>
   evaluate_keyed_by 5 ''x'' (\<lambda>k. Some ''3'') level_worker_type =
   evaluate_keyed_by (Suc (keyed_depth level_worker_type)) ''x'' (\<lambda>k. Some ''3'') level_worker_type"
  by (rule evaluate_keyed_by_returns) (simp add: level_worker_type_def)

text \<open>
  C36. A resolved value is never itself a \<open>by-\<close> dict: the loop only stops on a plain value or raises.
\<close>
theorem resolve_keyed_value_plain:
  "resolve_keyed_value item_name attributes v = Inr r \<Longrightarrow> \<not> is_keyed_by r"
  by (metis evaluate_keyed_by_plain evaluate_keyed_by_enough lessI)

theorem resolve_keyed_value_plain_witness:
  "resolve_keyed_value ''x'' (\<lambda>k. Some ''3'') level_worker_type = Inr (KStr ''linux-signing'') \<and>
   \<not> is_keyed_by (KStr ''linux-signing'')"
proof -
  have r: "resolve_keyed_value ''x'' (\<lambda>k. Some ''3'') level_worker_type = Inr (KStr ''linux-signing'')"
    unfolding level_worker_type_def
    using resolve_keyed_value_by [of "''x''" "\<lambda>k. Some ''3''" "''level''"] by simp
  show ?thesis
    using r resolve_keyed_value_plain [OF r] by simp
qed

text \<open>
  C37. An alternative named by the attribute's value wins over \<open>default\<close>: when the attribute is set and its value, other than \<open>default\<close>, is a key of the alternatives, resolution continues with that alternative.
\<close>
theorem resolve_by_attribute:
  assumes "attributes b = Some key" and "key \<noteq> ''default''" and "map_of alts key = Some v"
  shows "resolve_keyed_value item_name attributes (KDict [(''by-'' @ b, KDict alts)]) =
         resolve_keyed_value item_name attributes v"
proof -
  have "keymatch alts key = [v]"
    using assms(3) by (simp add: keymatch_def)
  then show ?thesis
    using resolve_by_keymatch [of alts attributes b key v item_name] not_only_default [OF assms(3,2)] assms(1)
    by simp
qed

theorem resolve_by_attribute_witness:
  "resolve_keyed_value ''x'' (\<lambda>k. if k = ''level'' then Some ''1'' else None)
     (KDict [(''by-level'', KDict [(''1'', KStr ''linux-depsigning''), (''default'', KStr ''linux-signing'')])]) =
   Inr (KStr ''linux-depsigning'')"
  using resolve_by_attribute [of "\<lambda>k. if k = ''level'' then Some ''1'' else None" "''level''" "''1''"
      "[(''1'', KStr ''linux-depsigning''), (''default'', KStr ''linux-signing'')]" "KStr ''linux-depsigning''" "''x''"]
  by simp

text \<open>
  A \<open>by-\<close> dict whose only alternative is \<open>default\<close> is rejected with an exception, whatever the attribute's value.
\<close>
theorem resolve_only_default_raises:
  "resolve_keyed_value item_name attributes (KDict [(''by-'' @ b, KDict [(''default'', v)])]) =
   Inl (Exception (''Keyed-by '' @ py_repr_str b @
     '' unnecessary with only value 'default' found, when determining item '' @ item_name))"
  unfolding resolve_keyed_value_by by simp

end
