(* ===== verification/Signing.thy ===== *)
theory Signing
  imports Task KeyedBy
begin

text \<open>
  \<open>signing.py\<close>: two transforms that turn a build task into a signing task. The
  signing task is a different dict from the build task, so it has its own record;
  \<open>primary-dependency\<close> is the engine's object for the build task, with its
  label, kind, attributes and task definition \<open>dep.task\<close>. Of \<open>dep.task\<close> the
  transform reads \<open>attributes.artifact_prefix\<close> (through the library function
  \<open>get_artifact_prefix\<close>), \<open>payload.env\<close> and \<open>extra\<close>.
  The first transform resolves \<open>worker-type\<close> and \<open>worker.signing-type\<close> by
  level with \<open>KeyedBy.resolve_keyed_by\<close>.
\<close>

record dep_definition =
  def_attributes :: "string dict option"
  def_payload_env :: "string dict option"
  def_extra :: "string dict option"

record dependency =
  dep_label :: string
  dep_kind :: string
  dep_attributes :: "attr_value dict"
  dep_task :: dep_definition

record upstream_artifact =
  ua_task_reference :: string
  ua_task_type :: string
  ua_paths :: "string list"
  ua_formats :: "string list"

text \<open>
  The worker dict of a signing task, with the two keys the transforms touch; the
  task's \<open>st_worker\<close> is \<open>None\<close> when it has no \<open>worker\<close> key.
\<close>

record signing_worker =
  upstream_artifacts :: "upstream_artifact list option"
  signing_type :: "keyed option"

record signing_task =
  primary_dependency :: "dependency option"
  st_name :: "string option"
  st_attributes :: "attr_value dict option"
  run_on_tasks_for :: "attr_value option"
  worker_type :: "keyed option"
  dependencies :: "string dict option"
  scopes :: "string list option"
  st_worker :: "signing_worker option"
  st_extra :: "string dict option"

definition FORMATS :: "string dict" where
  "FORMATS = [(''privileged'', ''privileged_webextension''), (''system'', ''system_addon''),
              (''mozillaonline-privileged'', ''privileged_webextension'')]"

subsection \<open>define_signing_flags\<close>

definition dependent_job_name_without_kind :: "dependency \<Rightarrow> string" where
  "dependent_job_name_without_kind d = drop (length (dep_kind d) + 1) (dep_label d)"

text \<open>\<open>attributes.update(other)\<close>: every key of \<open>other\<close>, in its order.\<close>

definition dict_update :: "'v dict \<Rightarrow> 'v dict \<Rightarrow> 'v dict" where
  "dict_update d other = foldl (\<lambda>acc (k, v). dict_set acc k v) d other"

text \<open>Lines 30-40: name, attributes, \<open>signed\<close> and \<open>run-on-tasks-for\<close>.\<close>

definition signing_flags_copy :: "signing_task \<Rightarrow> signing_task result" where
  "signing_flags_copy t =
     (case primary_dependency t of
        None \<Rightarrow> Inl (KeyError ''primary-dependency'')
      | Some dep \<Rightarrow>
          (let attrs0 = (case st_attributes t of
                           Some a \<Rightarrow> if a \<noteq> [] then dict_update (dep_attributes dep) a else dep_attributes dep
                         | None \<Rightarrow> dep_attributes dep);
               attrs = dict_set attrs0 ''signed'' (AttrBool True)
           in Inr (t\<lparr>st_name := Some (dependent_job_name_without_kind dep),
                     st_attributes := Some attrs,
                     run_on_tasks_for :=
                       (case map_of attrs ''run_on_tasks_for'' of
                          None \<Rightarrow> run_on_tasks_for t
                        | Some v \<Rightarrow> (case run_on_tasks_for t of None \<Rightarrow> Some v | Some w \<Rightarrow> Some w))\<rparr>)))"

text \<open>
  The attributes \<open>by-\<close> keys are matched against, \<open>dict(item, level=level)\<close>: the
  level, and of the item's own keys the string-valued \<open>name\<close>.
\<close>

definition keyed_attributes :: "string \<Rightarrow> signing_task \<Rightarrow> string \<Rightarrow> string option" where
  "keyed_attributes level t k = (if k = ''level'' then Some level else if k = ''name'' then st_name t else None)"

text \<open>
  Lines 42-48: \<open>resolve_keyed_by\<close> on \<open>worker-type\<close>, then on
  \<open>worker.signing-type\<close>, with \<open>item_name=task["name"]\<close>; an absent field, or an
  absent \<open>worker\<close>, is left alone.
\<close>

definition resolve_signing_keys :: "string \<Rightarrow> signing_task \<Rightarrow> signing_task result" where
  "resolve_signing_keys level t =
     (case st_name t of
        None \<Rightarrow> Inl (KeyError ''name'')
      | Some name \<Rightarrow>
          (case resolve_keyed_by ''worker-type'' name (keyed_attributes level t) (worker_type t) of
             Inl e \<Rightarrow> Inl e
           | Inr wt \<Rightarrow>
               (case st_worker t of
                  None \<Rightarrow> Inr (t\<lparr>worker_type := wt\<rparr>)
                | Some w \<Rightarrow>
                    (case resolve_keyed_by ''worker.signing-type'' name (keyed_attributes level t) (signing_type w) of
                       Inl e \<Rightarrow> Inl e
                     | Inr sty \<Rightarrow> Inr (t\<lparr>worker_type := wt, st_worker := Some (w\<lparr>signing_type := sty\<rparr>)\<rparr>)))))"

text \<open>The body of the loop of \<open>define_signing_flags\<close> (lines 31-49) at \<open>config.params["level"]\<close>.\<close>

definition define_signing_flags_task :: "string \<Rightarrow> signing_task \<Rightarrow> signing_task result" where
  "define_signing_flags_task level t =
     (case signing_flags_copy t of Inl e \<Rightarrow> Inl e | Inr t1 \<Rightarrow> resolve_signing_keys level t1)"

subsection \<open>build_signing_task\<close>

text \<open>\<open>taskgraph.util.taskcluster.get_artifact_prefix\<close> on a task definition dict.\<close>

definition get_artifact_prefix :: "dep_definition \<Rightarrow> string" where
  "get_artifact_prefix d =
     (case map_of (opt_dict (def_attributes d)) ''artifact_prefix'' of
        Some p \<Rightarrow> if p = [] then ''public/build'' else p
      | None \<Rightarrow> ''public/build'')"

text \<open>
  Lines 61-65: a prefix outside \<open>public\<close> appends a read scope built from the
  dependency's \<open>payload.env.ARTIFACT_PREFIX\<close> to the task's scopes (created empty by
  \<open>setdefault\<close>); the lookup raises \<open>KeyError\<close> when the variable is missing.
\<close>

definition signing_scopes :: "signing_task \<Rightarrow> dependency \<Rightarrow> string list option result" where
  "signing_scopes t dep =
     (if startswith ''public'' (get_artifact_prefix (dep_task dep)) then Inr (scopes t)
      else (case map_of (opt_dict (def_payload_env (dep_task dep))) ''ARTIFACT_PREFIX'' of
              None \<Rightarrow> Inl (KeyError ''ARTIFACT_PREFIX'')
            | Some ap \<Rightarrow> Inr (Some ((case scopes t of None \<Rightarrow> [] | Some s \<Rightarrow> s) @
                             [''queue:get-artifact:'' @ py_rstrip ''/'' ap @ ''/*'']))))"

text \<open>Lines 69-78: the single upstream artifact, at \<open>{prefix}/{xpi_name}.xpi\<close>.\<close>

definition upstream_for :: "string \<Rightarrow> string \<Rightarrow> string \<Rightarrow> upstream_artifact" where
  "upstream_for fmt p n =
     \<lparr>ua_task_reference = ''<build>'', ua_task_type = ''build'',
      ua_paths = [p @ ''/'' @ n @ ''.xpi''], ua_formats = [fmt]\<rparr>"

text \<open>
  One pass of the loop (lines 58-81), once \<open>xpi_type\<close> is known to be a key of
  \<open>FORMATS\<close> and \<open>fmt\<close> is its format; \<open>dep.task["extra"]["xpi-name"]\<close> and
  \<open>task["worker"]\<close> raise \<open>KeyError\<close> when missing.
\<close>

definition signing_task_for :: "string \<Rightarrow> signing_task \<Rightarrow> signing_task result" where
  "signing_task_for fmt t =
     (case primary_dependency t of
        None \<Rightarrow> Inl (KeyError ''primary-dependency'')
      | Some dep \<Rightarrow>
          (case signing_scopes t dep of
             Inl e \<Rightarrow> Inl e
           | Inr sc \<Rightarrow>
               (case map_of (opt_dict (def_extra (dep_task dep))) ''xpi-name'' of
                  None \<Rightarrow> Inl (KeyError ''xpi-name'')
                | Some n \<Rightarrow>
                    (case st_worker t of
                       None \<Rightarrow> Inl (KeyError ''worker'')
                     | Some w \<Rightarrow>
                         Inr (t\<lparr>dependencies := Some [(''build'', dep_label dep)],
                                scopes := sc,
                                st_worker := Some (w\<lparr>upstream_artifacts :=
                                  Some [upstream_for fmt (get_artifact_prefix (dep_task dep)) n]\<rparr>),
                                st_extra := Some (dict_set (opt_dict (st_extra t)) ''xpi-name'' n),
                                primary_dependency := None\<rparr>)))))"

text \<open>
  The transform: \<open>XPI_SIGNING_TYPE\<close> from the environment (\<open>unknown\<close> when unset);
  an unknown type drops every task.
\<close>

fun build_signing_tasks :: "string \<Rightarrow> signing_task list \<Rightarrow> signing_task list result" where
  "build_signing_tasks fmt [] = Inr []"
| "build_signing_tasks fmt (t # ts) =
     (case signing_task_for fmt t of
        Inl e \<Rightarrow> Inl e
      | Inr t' \<Rightarrow> (case build_signing_tasks fmt ts of Inl e \<Rightarrow> Inl e | Inr ts' \<Rightarrow> Inr (t' # ts')))"

definition build_signing_task :: "string dict \<Rightarrow> signing_task list \<Rightarrow> signing_task list result" where
  "build_signing_task environ ts =
     (let xpi_type = (case map_of environ ''XPI_SIGNING_TYPE'' of None \<Rightarrow> ''unknown'' | Some v \<Rightarrow> v)
      in case map_of FORMATS xpi_type of
           None \<Rightarrow> Inr []
         | Some fmt \<Rightarrow> build_signing_tasks fmt ts)"

subsection \<open>Examples\<close>

text \<open>
  A build dependency as \<open>build.py\<close> leaves it (no \<open>artifact_prefix\<close> attribute,
  so the public default), and one whose definition names a private prefix while its
  payload exports another.
\<close>

definition public_dep :: dependency where
  "public_dep = \<lparr>dep_label = ''build-secure-proxy'', dep_kind = ''build'',
     dep_attributes = [(''run_on_tasks_for'', AttrList [''github-push''])],
     dep_task = \<lparr>def_attributes = None, def_payload_env = Some [(''ARTIFACT_PREFIX'', ''public/build'')],
                 def_extra = Some [(''xpi-name'', ''secure-proxy'')]\<rparr>\<rparr>"

definition private_dep :: dependency where
  "private_dep = \<lparr>dep_label = ''build-secure-proxy'', dep_kind = ''build'', dep_attributes = [],
     dep_task = \<lparr>def_attributes = Some [(''artifact_prefix'', ''private/build'')],
                 def_payload_env = Some [(''ARTIFACT_PREFIX'', ''releases/'')],
                 def_extra = Some [(''xpi-name'', ''secure-proxy'')]\<rparr>\<rparr>"

text \<open>A signing-type selected by level, as the signing kinds configure it.\<close>

definition level_signing_type :: keyed where
  "level_signing_type =
     KDict [(''by-level'', KDict [(''3'', KStr ''release-signing''), (''default'', KStr ''dep-signing'')])]"

definition signing_job :: "dependency \<Rightarrow> signing_task" where
  "signing_job d = \<lparr>primary_dependency = Some d, st_name = None, st_attributes = None,
     run_on_tasks_for = None, worker_type = Some level_worker_type, dependencies = None, scopes = None,
     st_worker = Some \<lparr>upstream_artifacts = None, signing_type = Some level_signing_type\<rparr>,
     st_extra = None\<rparr>"


subsection \<open>Properties\<close>

lemma map_of_dict_update [simp]: "map_of (dict_update d other) = map_of d ++ map_of (rev other)"
  by (induction other arbitrary: d) (auto simp: dict_update_def map_add_assoc)

lemma dependent_job_name_roundtrip:
  "dep_label d = dep_kind d @ ''-'' @ n \<Longrightarrow> dependent_job_name_without_kind d = n"
  by (simp add: dependent_job_name_without_kind_def)

lemma signing_task_for_Inr:
  "signing_task_for fmt t = Inr t' \<longleftrightarrow>
   (\<exists>dep sc n w. primary_dependency t = Some dep \<and> signing_scopes t dep = Inr sc \<and>
      map_of (opt_dict (def_extra (dep_task dep))) ''xpi-name'' = Some n \<and> st_worker t = Some w \<and>
      t' = t\<lparr>dependencies := Some [(''build'', dep_label dep)], scopes := sc,
             st_worker := Some (w\<lparr>upstream_artifacts := Some [upstream_for fmt (get_artifact_prefix (dep_task dep)) n]\<rparr>),
             st_extra := Some (dict_set (opt_dict (st_extra t)) ''xpi-name'' n),
             primary_dependency := None\<rparr>)"
  by (auto simp: signing_task_for_def split: option.splits sum.splits)

lemma signing_flags_copy_Inr:
  "signing_flags_copy t = Inr t1 \<Longrightarrow>
   (\<exists>dep. primary_dependency t = Some dep \<and> st_name t1 = Some (dependent_job_name_without_kind dep)) \<and>
   worker_type t1 = worker_type t \<and> st_worker t1 = st_worker t \<and>
   primary_dependency t1 = primary_dependency t \<and> scopes t1 = scopes t \<and> st_extra t1 = st_extra t"
  by (auto simp: signing_flags_copy_def Let_def split: option.splits)

lemma resolve_signing_keys_Inr:
  "resolve_signing_keys level t = Inr t1 \<Longrightarrow>
   st_name t1 = st_name t \<and> primary_dependency t1 = primary_dependency t \<and> scopes t1 = scopes t \<and>
   st_extra t1 = st_extra t \<and> (st_worker t1 = None \<longleftrightarrow> st_worker t = None)"
  by (auto simp: resolve_signing_keys_def split: option.splits sum.splits)

lemma define_signing_flags_task_Inr:
  "define_signing_flags_task level t = Inr t1 \<Longrightarrow>
   \<exists>dep. primary_dependency t = Some dep \<and> st_name t1 = Some (dependent_job_name_without_kind dep) \<and>
     primary_dependency t1 = Some dep \<and> scopes t1 = scopes t \<and> st_extra t1 = st_extra t \<and>
     (st_worker t1 = None \<longleftrightarrow> st_worker t = None)"
  by (auto simp: define_signing_flags_task_def split: sum.splits dest!: signing_flags_copy_Inr resolve_signing_keys_Inr)

lemma signing_scopes_Inr:
  "signing_scopes t dep = Inr sc \<Longrightarrow>
   (if startswith ''public'' (get_artifact_prefix (dep_task dep)) then sc = scopes t
    else \<exists>ap. map_of (opt_dict (def_payload_env (dep_task dep))) ''ARTIFACT_PREFIX'' = Some ap \<and>
      sc = Some ((case scopes t of None \<Rightarrow> [] | Some s \<Rightarrow> s) @ [''queue:get-artifact:'' @ py_rstrip ''/'' ap @ ''/*'']))"
  by (auto simp: signing_scopes_def split: if_splits option.splits)

text \<open>
  C28. Stage 2 of the signing transform drops every task, without error, when \<open>XPI_SIGNING_TYPE\<close> is unset or names no key of \<open>FORMATS\<close> (the spec's soft skip).
\<close>
lemma build_signing_task_unknown_drops:
  "map_of FORMATS (case map_of environ ''XPI_SIGNING_TYPE'' of None \<Rightarrow> ''unknown'' | Some v \<Rightarrow> v) = None \<Longrightarrow>
   build_signing_task environ ts = Inr []"
  by (simp add: build_signing_task_def)

lemma build_signing_task_unknown_drops_witness:
  "build_signing_task [] [signing_job public_dep] = Inr [] \<and>
   build_signing_task [(''XPI_SIGNING_TYPE'', ''dep'')] [signing_job public_dep] = Inr []"
  using build_signing_task_unknown_drops [of "[]" "[signing_job public_dep]"]
        build_signing_task_unknown_drops [of "[(''XPI_SIGNING_TYPE'', ''dep'')]" "[signing_job public_dep]"]
  by (simp_all add: FORMATS_def)

text \<open>
  C29. A signing task built by stage 2 depends on its build task, signs exactly one upstream artifact at \<open>{artifact_prefix}/{xpi_name}.xpi\<close> in the configured format, records the xpi name in \<open>extra\<close>, loses its \<open>primary-dependency\<close>, and keeps its name and attributes.
\<close>
lemma signing_task_for_fields:
  assumes "signing_task_for fmt t = Inr t'"
  shows "\<exists>dep n. primary_dependency t = Some dep \<and>
     map_of (opt_dict (def_extra (dep_task dep))) ''xpi-name'' = Some n \<and>
     dependencies t' = Some [(''build'', dep_label dep)] \<and>
     (\<exists>w. st_worker t = Some w \<and>
        st_worker t' = Some (w\<lparr>upstream_artifacts := Some [upstream_for fmt (get_artifact_prefix (dep_task dep)) n]\<rparr>)) \<and>
     ua_paths (upstream_for fmt (get_artifact_prefix (dep_task dep)) n) =
       [get_artifact_prefix (dep_task dep) @ ''/'' @ n @ ''.xpi''] \<and>
     ua_formats (upstream_for fmt (get_artifact_prefix (dep_task dep)) n) = [fmt] \<and>
     map_of (opt_dict (st_extra t')) ''xpi-name'' = Some n \<and>
     primary_dependency t' = None \<and> st_name t' = st_name t \<and> st_attributes t' = st_attributes t"
  using assms by (auto simp: signing_task_for_Inr upstream_for_def)

lemma signing_task_for_fields_witness:
  "\<exists>t'. signing_task_for ''system_addon'' (signing_job public_dep) = Inr t' \<and>
     map_option upstream_artifacts (st_worker t') = Some (Some [upstream_for ''system_addon'' ''public/build'' ''secure-proxy''])"
proof -
  obtain t' where t': "signing_task_for ''system_addon'' (signing_job public_dep) = Inr t'"
    by (simp add: signing_task_for_def signing_scopes_def get_artifact_prefix_def signing_job_def public_dep_def)
  from signing_task_for_fields [OF t'] show ?thesis
    using t' by (auto simp: signing_job_def public_dep_def get_artifact_prefix_def)
qed

text \<open>
  C30. Stage 2 leaves the scopes alone when the artifact prefix starts with \<open>public\<close>; otherwise it appends a read scope \<open>queue:get-artifact:{ARTIFACT_PREFIX}/*\<close> built from the dependency's payload environment.
\<close>
lemma signing_task_for_scope:
  assumes "signing_task_for fmt t = Inr t'" and "primary_dependency t = Some dep"
  shows "if startswith ''public'' (get_artifact_prefix (dep_task dep)) then scopes t' = scopes t
    else \<exists>ap. map_of (opt_dict (def_payload_env (dep_task dep))) ''ARTIFACT_PREFIX'' = Some ap \<and>
      scopes t' = Some ((case scopes t of None \<Rightarrow> [] | Some s \<Rightarrow> s) @
                        [''queue:get-artifact:'' @ py_rstrip ''/'' ap @ ''/*''])"
proof -
  from assms obtain sc where sc: "signing_scopes t dep = Inr sc" and sc': "scopes t' = sc"
    by (auto simp: signing_task_for_Inr)
  from signing_scopes_Inr [OF sc] show ?thesis
    unfolding sc' .
qed

lemma signing_task_for_scope_witness:
  "\<exists>t'. signing_task_for ''system_addon'' (signing_job private_dep) = Inr t' \<and>
     scopes t' = Some [''queue:get-artifact:releases/*'']"
proof -
  let ?t = "signing_job private_dep"
  obtain t' where t': "signing_task_for ''system_addon'' ?t = Inr t'"
    by (simp add: signing_task_for_def signing_scopes_def get_artifact_prefix_def signing_job_def private_dep_def)
  have dep: "primary_dependency ?t = Some private_dep"
    by (simp add: signing_job_def)
  from signing_task_for_scope [OF t' dep] t' show ?thesis
    by (simp add: get_artifact_prefix_def private_dep_def signing_job_def py_rstrip_def)
qed

text \<open>
  C31. The copying part of stage 1 names the signing task after its dependency's label without the kind prefix, merges the dependency's attributes with the task's own (the task's win), sets \<open>signed\<close>, and fills \<open>run-on-tasks-for\<close> from the merged attributes only when the task does not set it.
\<close>
lemma signing_flags_copy_fields:
  assumes "primary_dependency t = Some dep" and "dep_label dep = dep_kind dep @ ''-'' @ n"
  shows "\<exists>t' attrs. signing_flags_copy t = Inr t' \<and>
     st_name t' = Some n \<and> st_attributes t' = Some attrs \<and>
     map_of attrs = (map_of (dep_attributes dep) ++ map_of (rev (opt_dict (st_attributes t))))(''signed'' \<mapsto> AttrBool True) \<and>
     run_on_tasks_for t' = (case run_on_tasks_for t of Some w \<Rightarrow> Some w | None \<Rightarrow> map_of attrs ''run_on_tasks_for'')"
  using assms
  by (auto simp: signing_flags_copy_def dependent_job_name_roundtrip Let_def
      split: option.splits)

lemma signing_flags_copy_fields_witness:
  "\<exists>t'. signing_flags_copy (signing_job public_dep) = Inr t' \<and>
     st_name t' = Some ''secure-proxy'' \<and> run_on_tasks_for t' = Some (AttrList [''github-push''])"
proof -
  have dep: "primary_dependency (signing_job public_dep) = Some public_dep"
    by (simp add: signing_job_def)
  have lbl: "dep_label public_dep = dep_kind public_dep @ ''-'' @ ''secure-proxy''"
    by (simp add: public_dep_def)
  from signing_flags_copy_fields [OF dep lbl] show ?thesis
    by (auto simp: signing_job_def public_dep_def)
qed

text \<open>
  C32. Stage 1 resolves \<open>worker-type\<close> and \<open>worker.signing-type\<close> by the graph's
  level: when both are \<open>by-level\<close> dicts whose alternatives match the level (exactly,
  or through \<open>default\<close>) with a plain value, the signing task carries those values and
  everything else the copying part set.
\<close>
theorem define_signing_flags_by_level:
  assumes "signing_flags_copy t = Inr t1"
    and "worker_type t = Some (KDict [(''by-level'', KDict wts)])"
    and "st_worker t = Some w" and "signing_type w = Some (KDict [(''by-level'', KDict sts)])"
    and "\<not> (length wts = 1 \<and> map_of wts ''default'' \<noteq> None)" and "keymatch wts level = [KStr wt]"
    and "\<not> (length sts = 1 \<and> map_of sts ''default'' \<noteq> None)" and "keymatch sts level = [KStr sty]"
  shows "define_signing_flags_task level t =
           Inr (t1\<lparr>worker_type := Some (KStr wt), st_worker := Some (w\<lparr>signing_type := Some (KStr sty)\<rparr>)\<rparr>)"
proof -
  obtain n where n: "st_name t1 = Some n" and wt: "worker_type t1 = worker_type t" and sw: "st_worker t1 = st_worker t"
    using signing_flags_copy_Inr [OF assms(1)] by blast
  have lvl: "keyed_attributes level t1 ''level'' = Some level"
    by (simp add: keyed_attributes_def)
  have rw: "resolve_keyed_value i (keyed_attributes level t1) (KDict [(''by-level'', KDict wts)]) = Inr (KStr wt)" for i
    using resolve_by_keymatch [of wts "keyed_attributes level t1" "''level''" level "KStr wt" i] assms(5,6) lvl
    by simp
  have rs: "resolve_keyed_value i (keyed_attributes level t1) (KDict [(''by-level'', KDict sts)]) = Inr (KStr sty)" for i
    using resolve_by_keymatch [of sts "keyed_attributes level t1" "''level''" level "KStr sty" i] assms(7,8) lvl
    by simp
  show ?thesis
    using assms(1-4) n wt sw rw rs
    by (simp add: define_signing_flags_task_def resolve_signing_keys_def resolve_keyed_by_def)
qed

theorem define_signing_flags_by_level_witness:
  "\<exists>t1. signing_flags_copy (signing_job public_dep) = Inr t1 \<and>
     define_signing_flags_task ''3'' (signing_job public_dep) =
       Inr (t1\<lparr>worker_type := Some (KStr ''linux-signing''),
               st_worker := Some \<lparr>upstream_artifacts = None, signing_type = Some (KStr ''release-signing'')\<rparr>\<rparr>)"
proof -
  obtain t1 where t1: "signing_flags_copy (signing_job public_dep) = Inr t1"
    by (simp add: signing_flags_copy_def Let_def signing_job_def)
  have "define_signing_flags_task ''3'' (signing_job public_dep) =
       Inr (t1\<lparr>worker_type := Some (KStr ''linux-signing''),
               st_worker := Some (\<lparr>upstream_artifacts = None, signing_type = Some level_signing_type\<rparr>
                 \<lparr>signing_type := Some (KStr ''release-signing'')\<rparr>)\<rparr>)"
    by (rule define_signing_flags_by_level [OF t1])
       (simp add: signing_job_def level_worker_type_def level_signing_type_def keymatch_def)+
  with t1 show ?thesis
    by auto
qed

end
