(* ===== verification/Parameters.thy ===== *)
theory Parameters
  imports Prelude
begin

text \<open>
  \<open>parameters.py\<close>: \<open>get_decision_parameters\<close> walks the repositories of the graph
  configuration (\<open>taskgraph.repositories\<close>, a dict from repository prefix to its
  config dict) and, for each, copies the environment variable
  \<open>{PREFIX}_SSH_SECRET_NAME\<close> into \<open>ssh-secret-name\<close> with \<open>setdefault\<close>. The
  configuration dicts are mutated in place; the model returns the updated
  repositories. \<open>str.upper\<close> is the ASCII case map of Python 2 byte strings.
\<close>

definition py_upper_char :: "char \<Rightarrow> char" where
  "py_upper_char c =
     (case map_of (zip ''abcdefghijklmnopqrstuvwxyz'' ''ABCDEFGHIJKLMNOPQRSTUVWXYZ'') c of
        Some u \<Rightarrow> u
      | None \<Rightarrow> c)"

definition py_upper :: "string \<Rightarrow> string" where
  "py_upper s = map py_upper_char s"

definition env_var_name :: "string \<Rightarrow> string" where
  "env_var_name repo_prefix = py_upper repo_prefix @ ''_SSH_SECRET_NAME''"

type_synonym repositories = "(string \<times> string dict) list"

text \<open>
  Lines 19-21 for one repository: \<open>os.environ.get(env_var)\<close> is truthy when the
  variable is set to a non-empty string.
\<close>

definition decision_config :: "string dict \<Rightarrow> string \<Rightarrow> string dict \<Rightarrow> string dict" where
  "decision_config environ repo_prefix repo_config =
     (case map_of environ (env_var_name repo_prefix) of
        Some v \<Rightarrow> if v \<noteq> [] then dict_setdefault repo_config ''ssh-secret-name'' v else repo_config
      | None \<Rightarrow> repo_config)"

definition get_decision_parameters :: "string dict \<Rightarrow> repositories \<Rightarrow> repositories" where
  "get_decision_parameters environ repos =
     map (\<lambda>(repo_prefix, repo_config). (repo_prefix, decision_config environ repo_prefix repo_config)) repos"

definition secret_from_env :: "string dict \<Rightarrow> string \<Rightarrow> string option" where
  "secret_from_env environ repo_prefix =
     (case map_of environ (env_var_name repo_prefix) of
        Some v \<Rightarrow> if v = [] then None else Some v
      | None \<Rightarrow> None)"

subsection \<open>Properties\<close>

lemma map_of_map_keyed:
  "map_of (map (\<lambda>(k, v). (k, f k v)) xs) k = map_option (f k) (map_of xs k)"
  by (induction xs) auto

lemma decision_config_secret:
  "map_of (decision_config environ p cfg) ''ssh-secret-name'' =
     (case map_of cfg ''ssh-secret-name'' of Some s \<Rightarrow> Some s | None \<Rightarrow> secret_from_env environ p)"
  by (auto simp: decision_config_def secret_from_env_def split: option.splits)

text \<open>
  C34. After \<open>get_decision_parameters\<close> the repositories are the same, in the same
  order, and each one's \<open>ssh-secret-name\<close> is its configured value when it had one
  (\<open>setdefault\<close> never overwrites), else the non-empty value of
  \<open>{PREFIX.upper()}_SSH_SECRET_NAME\<close>, else still absent.
\<close>
theorem get_decision_parameters_secret:
  "map fst (get_decision_parameters environ repos) = map fst repos \<and>
   map_option (\<lambda>cfg. map_of cfg ''ssh-secret-name'') (map_of (get_decision_parameters environ repos) p) =
   map_option (\<lambda>cfg. case map_of cfg ''ssh-secret-name'' of Some s \<Rightarrow> Some s | None \<Rightarrow> secret_from_env environ p)
     (map_of repos p)"
proof
  show "map fst (get_decision_parameters environ repos) = map fst repos"
    by (induction repos) (auto simp: get_decision_parameters_def)
  show "map_option (\<lambda>cfg. map_of cfg ''ssh-secret-name'') (map_of (get_decision_parameters environ repos) p) =
    map_option (\<lambda>cfg. case map_of cfg ''ssh-secret-name'' of Some s \<Rightarrow> Some s | None \<Rightarrow> secret_from_env environ p)
     (map_of repos p)"
    by (simp add: get_decision_parameters_def map_of_map_keyed option.map_comp comp_def decision_config_secret)
qed

end
