(* ===== verification/Spec2Isabelle.thy ===== *)
theory Spec2Isabelle
  imports Manifest Cache Traversal Transforms Signing Parameters
begin

text \<open>
  \<^bold>\<open>A verification library for the xpi task-graph transforms of secure-proxy.\<close>

  \<^emph>\<open>The program.\<close> \<open>src/taskcluster/xpi_taskgraph\<close> extends a taskgraph
  decision task. \<open>xpi_manifest.py\<close> walks the checkout for sub-projects (directories
  holding a \<open>package.json\<close>), builds one manifest entry per sub-project, validates
  the manifest and memoises it for the process. \<open>build.py\<close> and \<open>test.py\<close> fan
  job templates out over the manifest, \<open>cached.py\<close> attaches to each task a digest
  of the files it depends on, \<open>signing.py\<close> turns build tasks into signing tasks,
  and \<open>parameters.py\<close> fills in repository secrets. \<open>list_files\<close>
  (\<open>cached.py\<close>) and \<open>get_manifest\<close> (\<open>xpi_manifest.py\<close>) share one way of
  walking the tree: \<open>os.walk\<close> with a loop that removes \<open>.git\<close> and
  \<open>node_modules\<close> from the list of sub-directories while iterating over it.

  \<^emph>\<open>The theories.\<close>
  \<^item> \<open>Prelude\<close>: the Python 2 built-ins the sources call (\<open>str.replace\<close>,
    \<open>split\<close>, \<open>rstrip\<close>, \<open>startswith\<close>, \<open>sep.join\<close>, \<open>os.path.join\<close>,
    \<open>basename\<close>, \<open>splitext\<close>), dicts as insertion-ordered association lists
    (\<open>dict_set\<close>, \<open>dict_setdefault\<close>), the error type \<open>py_error\<close> and the
    result type \<open>'a result = py_error + 'a\<close> (\<open>Inl\<close> is a raised exception),
    with the list and path lemmas the components share.
  \<^item> \<open>Fs\<close>: the environment. A directory is the list of its entries in
    \<open>os.listdir\<close> order; \<open>host\<close> is \<open>BASE_DIR\<close> (\<open>os.getcwd()\<close>) with the
    tree below \<open>/\<close>; \<open>read_file\<close>, \<open>path_exists\<close> and \<open>lookup_dir\<close> resolve
    absolute paths; \<open>wf_entries\<close> says names in a listing are distinct, non-empty and
    free of \<open>/\<close>.
  \<^item> \<open>Walk\<close>: \<open>os.walk\<close> top-down as \<open>walk\<close>, with the caller's edit of the
    sub-directory list as a parameter, and that edit, the remove-while-iterating loop, as
    \<open>prune_subdirs\<close> (\<open>cached.py\<close> lines 32-35, \<open>xpi_manifest.py\<close> lines 63-66),
    index by index as Python's list iterator runs it. \<open>skip_prune\<close> is its
    structural reading.
  \<^item> \<open>Manifest\<close>: \<open>xpi_manifest.py\<close>. The entry is the record \<open>xpi\<close>;
    \<open>manifest_entry\<close> is the body of the walk loop for one directory,
    \<open>collect_manifest\<close> the loop with its fail-fast \<open>raise\<close>, \<open>check_manifest\<close>
    the validator (messages as \<open>issue\<close> values rendered by \<open>issue_message\<close>),
    \<open>get_manifest\<close> the whole function, \<open>get_manifest_memo\<close> the
    \<open>@memoize\<close> decorator with its cache passed as state, \<open>get_xpi_config\<close> the
    lookup. \<open>json.load(...).get("scripts", {})\<close> is a parameter \<open>json_reader\<close>.
  \<^item> \<open>Task\<close>: the task descriptor the transforms share, a record with one optional
    field per key they touch.
  \<^item> \<open>Cache\<close>: \<open>cached.py\<close>. \<open>list_files\<close> is the pruned walk followed by
    \<open>walk_files\<close>, the loop over its triples; \<open>cache_files\<close>, \<open>digest_input\<close>
    and \<open>build_cache_task\<close> are the body of \<open>build_cache\<close> for one task,
    \<open>build_cache\<close> the transform. SHA-256 is a parameter \<open>hasher\<close>; the
    successive \<open>h.update\<close> calls hash the concatenated lines. \<open>tree_files\<close> is the
    abstract contract of the file enumerator.
  \<^item> \<open>Traversal\<close>: what the shared walk visits. \<open>tree_dirs\<close> lists the
    directories reachable without entering an ignored directory (the walk's contract);
    discovery completeness combines the walk with \<open>Manifest.collect_manifest\<close>.
  \<^item> \<open>Transforms\<close>: \<open>build.py\<close> and \<open>test.py\<close>. \<open>build_task\<close> is the body of
    the inner loop of \<open>tasks_from_manifest\<close> (one job, one manifest entry), with the
    \<open>try\<close> block's prefix choice as \<open>artifact_prefix\<close>; \<open>test_task\<close> is the body of
    the innermost loop of \<open>test_tasks_from_manifest\<close>, and the module-level
    \<open>test_count\<close> dict is threaded through \<open>test_targets_loop\<close>,
    \<open>test_manifest_loop\<close> and \<open>test_jobs_loop\<close> as explicit state.
  \<^item> \<open>KeyedBy\<close>: the taskgraph library's \<open>resolve_keyed_by\<close> and
    \<open>evaluate_keyed_by\<close>, which \<open>signing.py\<close> calls; configuration values as the
    datatype \<open>keyed\<close>, the library's \<open>while True\<close> loop as \<open>evaluate_keyed_by\<close>
    with fuel, and \<open>resolve_keyed_value\<close> the loop run with enough fuel.
  \<^item> \<open>Signing\<close>: \<open>signing.py\<close>. The signing task, its worker dict and its
    \<open>primary-dependency\<close> are records of their own; \<open>define_signing_flags_task\<close>
    is stage 1 for one task, \<open>signing_flags_copy\<close> (lines 30-40) followed by
    \<open>resolve_signing_keys\<close> (lines 42-48); \<open>signing_task_for\<close> is the body of
    stage 2 for one task (with \<open>signing_scopes\<close> for lines 61-65 and
    \<open>upstream_for\<close> for the artifact), \<open>build_signing_task\<close> the transform
    with the environment as a dict.
  \<^item> \<open>Parameters\<close>: \<open>parameters.py\<close>. \<open>get_decision_parameters\<close> maps
    \<open>decision_config\<close> over the repositories and returns them updated.
  \<^item> This theory: how the engine hands a build task to the signing kind
    (\<open>dependency_of_build\<close>, \<open>signing_job_for\<close>), and the property of the two
    transforms together.

  \<^emph>\<open>What is proved.\<close>
  \<^item> Pruning (\<open>Walk\<close>, C1-C5): on distinct names the loop equals \<open>skip_prune\<close>; it
    keeps every directory it should walk; it prunes every ignored directory exactly when
    no ignored name follows another; an ignored name it removes shields the next name,
    ignored or not; and it removes at most all and at least half of the ignored names,
    and at most half of the listing.
  \<^item> Traversal (\<open>Traversal\<close>, C6, C7, C13): where the pruning loop works the walk
    reaches every directory below no ignored name, and a successful \<open>get_manifest\<close>
    has an entry for every sub-project there; where \<open>.git\<close> is listed right before
    \<open>node_modules\<close>, a dependency below \<open>node_modules\<close> without a lock file
    makes discovery raise.
  \<^item> Validation and discovery (\<open>Manifest\<close>, C8-C12, C14-C17): \<open>check_manifest\<close>
    accepts exactly the manifests with distinct names and legal test names, and reports
    every violation in one exception; \<open>get_manifest\<close> only returns valid manifests
    and fails fast on a missing lock file; the recorded directory is the relative path
    with every occurrence of \<open>BASE_DIR/\<close> removed (\<open>str.replace\<close>), which
    is the relative path exactly when \<open>BASE_DIR/\<close> does not recur in it; lookup by
    name is correct on valid manifests and raises \<open>AttributeError\<close> otherwise; the
    memoised manifest never changes once computed.
  \<^item> Cache key (\<open>Cache\<close>, C18-C22): \<open>list_files\<close> refines \<open>tree_files\<close> on trees
    whose listings keep the ignored directories apart; where \<open>.git\<close> is listed right
    before \<open>node_modules\<close> it covers every file below \<open>node_modules\<close>; the
    digest input is a decodable encoding of the sorted (hash, path) list; opted-out tasks
    and fast mode pass through; the cache block has the documented shape.
  \<^item> Expanders (\<open>Transforms\<close>, C23-C27): one build task per job and entry, with its
    fields; a configured \<open>github_clone_secret\<close> makes the build transform raise
    \<open>NameError\<close>; test labels and the threaded counter agree; the labels of one test
    job are distinct when no sub-project name contains \<open>-\<close>.
  \<^item> Signing (\<open>Signing\<close>, C28-C32): an unknown \<open>XPI_SIGNING_TYPE\<close> drops every
    task; the fields, upstream path and format of a signing task; the read scope and its
    source; stage 1 names, merges attributes and sets \<open>signed\<close>, and resolves worker
    and signing type by level.
  \<^item> Build then sign (this theory, C33): a built task, once signed, depends on its build
    and signs \<open><prefix>/<name>.xpi\<close> for the prefix the build declared in
    \<open>ARTIFACT_PREFIX\<close> and as its artifact, without any extra scope.
  \<^item> Decision parameters (\<open>Parameters\<close>, C34): the secret name is filled from the
    environment only where none is configured.
  \<^item> Keyed-by resolution (\<open>KeyedBy\<close>, C35-C37): the loop returns within its fuel
    bound and more fuel changes nothing; a resolved value is never a \<open>by-\<close> dict; the
    attribute's own alternative wins over \<open>default\<close>.

  \<^emph>\<open>Bounds and fuel.\<close> Every loop of the repository runs over a finite list or a
  finite tree, and each is a terminating HOL function (\<open>prune_subdirs\<close> by the
  measure \<open>length ds - i\<close>, \<open>walk\<close> by the size of the listing). The one loop
  that is written to run until it returns, the library's \<open>while True\<close> in
  \<open>evaluate_keyed_by\<close>, takes fuel; \<open>resolve_keyed_value\<close> gives it one iteration
  more than the nesting depth of the value (\<open>keyed_depth\<close>), which C35 shows is
  enough and that more fuel returns the same result.

  \<^emph>\<open>Not modelled.\<close> The taskgraph engine (scheduling, schema validation, the
  transforms that turn a task into its task definition), the JSON parser and SHA-256 (parameters of the model), symbolic links
  (\<open>realpath\<close> is the identity), \<open>os.path.normpath\<close> on paths with \<open>.\<close> or
  \<open>..\<close> (the walk never produces them), the text of the aggregate exception beyond
  its list of messages, and dict iteration order (Python 2 dicts are unordered; the
  model iterates in insertion order and no property depends on it).
  Library code the sources call is modelled from its documented behaviour, not from
  source: \<open>resolve_keyed_by\<close> and \<open>evaluate_keyed_by\<close> (keys that are regular
  expressions are matched literally; of the task's own keys a \<open>by-\<close> dict may match,
  only \<open>name\<close> is modelled, with \<open>level\<close>), the engine's hand-over of a build task
  to the signing kind, and \<open>get_artifact_prefix\<close> (\<open>attributes.artifact_prefix\<close> of the
  task definition, else \<open>public/build\<close>). \<open>str.upper\<close> is modelled on ASCII.
\<close>

section \<open>Build and signing together\<close>

text \<open>
  The engine hands each build task to the signing kind as its \<open>primary-dependency\<close>: a
  task object with the build's label, kind and attributes, whose \<open>task\<close> is the
  generated task definition. That definition carries the worker environment as
  \<open>payload.env\<close> and the task's \<open>extra\<close>, and no \<open>attributes\<close> key.
\<close>

definition dependency_of_build :: "task \<Rightarrow> dependency" where
  "dependency_of_build bt =
     \<lparr>dep_label = (case label bt of Some l \<Rightarrow> l | None \<Rightarrow> []), dep_kind = ''build'',
      dep_attributes = opt_dict (attributes bt),
      dep_task = \<lparr>def_attributes = None, def_payload_env = worker_env bt, def_extra = extra bt\<rparr>\<rparr>"

text \<open>A signing job as the signing kind's loader builds it from a template.\<close>

definition signing_job_for :: "signing_task \<Rightarrow> task \<Rightarrow> signing_task" where
  "signing_job_for tmpl bt = tmpl\<lparr>primary_dependency := Some (dependency_of_build bt)\<rparr>"

definition signing_template :: signing_task where
  "signing_template = \<lparr>primary_dependency = None, st_name = None, st_attributes = None,
     run_on_tasks_for = None, worker_type = Some level_worker_type, dependencies = None, scopes = None,
     st_worker = Some \<lparr>upstream_artifacts = None, signing_type = Some level_signing_type\<rparr>,
     st_extra = None\<rparr>"

lemma build_task_extra:
  "build_task gc job x = Inr bt \<Longrightarrow> (\<exists>e. extra bt = Some e) \<and> attributes bt = attributes job"
  by (auto simp: build_task_def Let_def split: sum.splits prod.splits)

text \<open>
  C33. Composition of the build and signing transforms: a task the build transform
  produces for a manifest entry, once stage 1 of the signing transform accepts it, is
  named after the entry, and stage 2 turns it into a signing task that depends on
  \<open>build-<name>\<close>, adds no scope, and signs exactly \<open>p/<name>.xpi\<close>, where
  \<open>p\<close> is the build's own \<open>ARTIFACT_PREFIX\<close> and the name of the directory
  artifact it declares last. The signing side reads the path prefix from
  \<open>get_artifact_prefix\<close>, not from the build; the two agree because the only prefix
  with which the build transform returns is \<open>public/build\<close>, the default of
  \<open>get_artifact_prefix\<close>.
\<close>
theorem build_then_sign:
  assumes "build_task gc job x = Inr bt"
    and "define_signing_flags_task level (signing_job_for tmpl bt) = Inr t1"
    and "st_worker tmpl \<noteq> None"
  shows "st_name t1 = Some (xpi_name x) \<and>
    (\<exists>t2 p. signing_task_for fmt t1 = Inr t2 \<and>
       dependencies t2 = Some [(''build'', ''build-'' @ xpi_name x)] \<and> scopes t2 = scopes tmpl \<and>
       map_of (the (worker_env bt)) ''ARTIFACT_PREFIX'' = Some p \<and>
       last (the (worker_artifacts bt)) = build_artifact p \<and>
       map_option upstream_artifacts (st_worker t2) = Some (Some [upstream_for fmt p (xpi_name x)]))"
proof -
  let ?dep = "dependency_of_build bt"
  have b: "label bt = Some (''build-'' @ xpi_name x)" "map_of (the (extra bt)) ''xpi-name'' = Some (xpi_name x)"
    using build_task_Inr [OF assms(1)] by auto
  obtain p where ap: "artifact_prefix gc = Inr p" and env: "map_of (the (worker_env bt)) ''ARTIFACT_PREFIX'' = Some p"
    and art: "last (the (worker_artifacts bt)) = build_artifact p"
    using build_task_prefix [OF assms(1)] by blast
  obtain e where ex: "extra bt = Some e"
    using build_task_extra [OF assms(1)] by blast
  from define_signing_flags_task_Inr [OF assms(2)] have
    name: "st_name t1 = Some (dependent_job_name_without_kind ?dep)" and
    pd: "primary_dependency t1 = Some ?dep" and sc: "scopes t1 = scopes tmpl" and
    w: "st_worker t1 \<noteq> None"
    using assms(3) by (auto simp: signing_job_for_def)
  have n: "dependent_job_name_without_kind ?dep = xpi_name x"
    using b(1) by (simp add: dependent_job_name_without_kind_def dependency_of_build_def)
  have pub: "p = ''public/build''"
    using ap by (simp add: artifact_prefix_def split: option.splits)
  have pre: "get_artifact_prefix (dep_task ?dep) = p"
    using pub by (simp add: get_artifact_prefix_def dependency_of_build_def)
  have scopes_ok: "signing_scopes t1 ?dep = Inr (scopes t1)"
    using pre pub by (simp add: signing_scopes_def startswith_iff_take)
  have xn: "map_of (opt_dict (def_extra (dep_task ?dep))) ''xpi-name'' = Some (xpi_name x)"
    using b(2) ex by (simp add: dependency_of_build_def)
  obtain wk where wk: "st_worker t1 = Some wk"
    using w by blast
  show ?thesis
    using name n pd sc scopes_ok xn wk pre b(1) env art
    by (auto simp: signing_task_for_Inr dependency_of_build_def)
qed

theorem build_then_sign_witness:
  "\<exists>bt t1. build_task [] yarn_job three_targets = Inr bt \<and>
     define_signing_flags_task ''3'' (signing_job_for signing_template bt) = Inr t1 \<and>
     st_worker signing_template \<noteq> None \<and>
     st_name t1 = Some (xpi_name three_targets) \<and>
     (\<exists>t2 p. signing_task_for ''system_addon'' t1 = Inr t2 \<and>
       dependencies t2 = Some [(''build'', ''build-'' @ xpi_name three_targets)] \<and>
       scopes t2 = scopes signing_template \<and>
       map_of (the (worker_env bt)) ''ARTIFACT_PREFIX'' = Some p \<and>
       last (the (worker_artifacts bt)) = build_artifact p \<and>
       map_option upstream_artifacts (st_worker t2) =
         Some (Some [upstream_for ''system_addon'' p (xpi_name three_targets)]))"
proof -
  obtain bt where bt: "build_task [] yarn_job three_targets = Inr bt"
    using build_task_total [of "[]" yarn_job three_targets] by simp
  have attrs: "attributes bt = None"
    using build_task_extra [OF bt] by (simp add: yarn_job_def empty_task_def)
  have lbl: "label bt = Some ''build-pkgA''"
    using build_task_Inr [OF bt] by (simp add: three_targets_def)
  obtain t1 where t1: "define_signing_flags_task ''3'' (signing_job_for signing_template bt) = Inr t1"
    using attrs lbl
    by (simp add: define_signing_flags_task_def signing_flags_copy_def resolve_signing_keys_def
        resolve_keyed_by_def signing_job_for_def signing_template_def dependency_of_build_def
        dependent_job_name_without_kind_def level_worker_type_def level_signing_type_def
        resolve_keyed_value_by [of _ _ "''level''", simplified] keymatch_def keyed_attributes_def Let_def)
  have w: "st_worker signing_template \<noteq> None"
    by (simp add: signing_template_def)
  show ?thesis
    using bt t1 w build_then_sign [OF bt t1 w, of "''system_addon''"]
    by (auto simp: signing_template_def)
qed

end
